theory Spec2Isabelle
  imports Complex_Main "HOL-Library.Char_ord" "HOL-Library.List_Lexorder"
begin

section \<open>Exceptions\<close>

text \<open>
  Python exceptions are values. \<open>HousingException e\<close> is the domain error of
  \<^verbatim>\<open>Housing.exception\<close>, built as \<^verbatim>\<open>HousingException(e, sys)\<close> and raised
  \<^verbatim>\<open>from e\<close>: it carries the exception it wraps. The other constructors are the
  built-in exceptions that the modelled code and its collaborators raise.
\<close>

datatype exn =
    ValueError
  | IndexError
  | KeyError
  | OSError
  | HousingException exn

text \<open>Sequencing of statements that may raise: the first exception ends the block.\<close>

definition bnd :: "exn + 'a \<Rightarrow> ('a \<Rightarrow> exn + 'b) \<Rightarrow> exn + 'b" where
  "bnd m f = (case m of Inl e \<Rightarrow> Inl e | Inr v \<Rightarrow> f v)"

text \<open>
  The handler every method of the module ends with:
  \<^verbatim>\<open>try: ... except Exception as e: raise HousingException(e, sys) from e\<close>.
\<close>

definition reraise :: "exn + 'a \<Rightarrow> exn + 'a" where
  "reraise m = (case m of Inl e \<Rightarrow> Inl (HousingException e) | Inr v \<Rightarrow> Inr v)"

section \<open>FeatureGenerator\<close>

text \<open>
  Modelled from the spec: the column-name constants of \<^verbatim>\<open>Housing.constant\<close>,
  which the module imports and which are not among the sources. The spec names the four
  required columns \<^verbatim>\<open>total_rooms\<close>, \<^verbatim>\<open>population\<close>, \<^verbatim>\<open>households\<close> and
  \<^verbatim>\<open>total_bedrooms\<close>.
\<close>

definition COLUMN_TOTAL_ROOMS :: string where
  "COLUMN_TOTAL_ROOMS = ''total_rooms''"

definition COLUMN_POPULATION :: string where
  "COLUMN_POPULATION = ''population''"

definition COLUMN_HOUSEHOLDS :: string where
  "COLUMN_HOUSEHOLDS = ''households''"

definition COLUMN_TOTAL_BEDROOM :: string where
  "COLUMN_TOTAL_BEDROOM = ''total_bedrooms''"

text \<open>The attributes that \<^verbatim>\<open>__init__\<close> stores on the instance.\<close>

record FeatureGenerator =
  columns :: "string list option"
  add_bedrooms_per_room :: bool
  total_rooms_ix :: int
  population_ix :: int
  households_ix :: int
  total_bedrooms_ix :: int

text \<open>
  \<^verbatim>\<open>list.index(x)\<close>: the position of the first element equal to \<open>x\<close>;
  \<^verbatim>\<open>ValueError\<close> when there is none.
\<close>

fun list_index :: "'a list \<Rightarrow> 'a \<Rightarrow> exn + int" where
  "list_index [] x = Inl ValueError"
| "list_index (y # ys) x =
     (if y = x then Inr 0
      else (case list_index ys x of Inl e \<Rightarrow> Inl e | Inr i \<Rightarrow> Inr (i + 1)))"

text \<open>
  \<^verbatim>\<open>FeatureGenerator.__init__\<close>. The four lookups run in the order of the source
  and overwrite the index arguments; the attributes are assigned afterwards.
\<close>

definition FeatureGenerator_init ::
  "bool \<Rightarrow> int \<Rightarrow> int \<Rightarrow> int \<Rightarrow> int \<Rightarrow> string list option \<Rightarrow> exn + FeatureGenerator" where
  "FeatureGenerator_init abr tr_ix pop_ix hh_ix tb_ix cols =
     reraise
       (bnd (case cols of
               None \<Rightarrow> Inr (tr_ix, pop_ix, hh_ix, tb_ix)
             | Some cs \<Rightarrow>
                 bnd (list_index cs COLUMN_TOTAL_ROOMS) (\<lambda>tr.
                 bnd (list_index cs COLUMN_POPULATION) (\<lambda>pop.
                 bnd (list_index cs COLUMN_HOUSEHOLDS) (\<lambda>hh.
                 bnd (list_index cs COLUMN_TOTAL_BEDROOM) (\<lambda>tb.
                 Inr (tr, pop, hh, tb))))))
          (\<lambda>(tr, pop, hh, tb).
             Inr \<lparr>columns = cols, add_bedrooms_per_room = abr, total_rooms_ix = tr,
                  population_ix = pop, households_ix = hh, total_bedrooms_ix = tb\<rparr>))"

text \<open>The defaults of the keyword arguments of \<^verbatim>\<open>__init__\<close>.\<close>

definition FeatureGenerator_default :: "exn + FeatureGenerator" where
  "FeatureGenerator_default = FeatureGenerator_init True 3 5 6 4 None"

text \<open>\<^verbatim>\<open>fit\<close> returns the instance itself.\<close>

definition fit :: "FeatureGenerator \<Rightarrow> 'x \<Rightarrow> FeatureGenerator" where
  "fit self X = self"

subsection \<open>Two-dimensional arrays\<close>

text \<open>
  A two-dimensional array of shape \<open>(length (rws X), ncols X)\<close>, stored by rows. The
  number of columns is a field of its own because an array with no rows still has one.
  The entries are of any type \<open>'a\<close>; for the pipeline they are 64-bit floats.
\<close>

record 'a ndarray =
  ncols :: nat
  rws :: "'a list list"

definition wf_ndarray :: "'a ndarray \<Rightarrow> bool" where
  "wf_ndarray X = list_all (\<lambda>r. length r = ncols X) (rws X)"

text \<open>
  An integer index on an axis of length \<open>n\<close>: a negative index counts from the end,
  and an index outside \<open>-n .. n - 1\<close> raises \<^verbatim>\<open>IndexError\<close>.
\<close>

definition normalize_index :: "nat \<Rightarrow> int \<Rightarrow> exn + nat" where
  "normalize_index n i =
     (let j = (if i < 0 then i + int n else i)
      in if 0 \<le> j \<and> j < int n then Inr (nat j) else Inl IndexError)"

text \<open>\<^verbatim>\<open>X[:, i]\<close>: column \<open>i\<close> as a one-dimensional array.\<close>

definition getcol :: "'a ndarray \<Rightarrow> int \<Rightarrow> exn + 'a list" where
  "getcol X i = bnd (normalize_index (ncols X) i) (\<lambda>j. Inr (map (\<lambda>r. r ! j) (rws X)))"

text \<open>
  \<^verbatim>\<open>np.c_[X, c1, ..., ck]\<close>: the one-dimensional arrays become columns after the
  columns of \<open>X\<close>; \<^verbatim>\<open>ValueError\<close> when a length differs from the number of rows.
\<close>

definition np_c :: "'a ndarray \<Rightarrow> 'a list list \<Rightarrow> exn + 'a ndarray" where
  "np_c X cs =
     (if list_all (\<lambda>c. length c = length (rws X)) cs
      then Inr \<lparr>ncols = ncols X + length cs,
                rws = map (\<lambda>i. rws X ! i @ map (\<lambda>c. c ! i) cs) [0..<length (rws X)]\<rparr>
      else Inl ValueError)"

text \<open>
  \<^verbatim>\<open>FeatureGenerator.transform\<close>. The element-wise division \<^verbatim>\<open>/\<close> of the array
  library is the parameter \<open>dv\<close>: the method neither tests a denominator nor
  post-processes a quotient, so every statement below holds for any division, the
  IEEE 754 one included. The operands are read in the order of the source.
\<close>

definition transform ::
  "('a \<Rightarrow> 'a \<Rightarrow> 'a) \<Rightarrow> FeatureGenerator \<Rightarrow> 'a ndarray \<Rightarrow> exn + 'a ndarray" where
  "transform dv self X =
     reraise
       (bnd (getcol X (total_rooms_ix self)) (\<lambda>a1.
        bnd (getcol X (households_ix self)) (\<lambda>b1.
        let room_per_household = map2 dv a1 b1 in
        bnd (getcol X (population_ix self)) (\<lambda>a2.
        bnd (getcol X (households_ix self)) (\<lambda>b2.
        let population_per_household = map2 dv a2 b2 in
        if add_bedrooms_per_room self then
          bnd (getcol X (total_bedrooms_ix self)) (\<lambda>a3.
          bnd (getcol X (total_rooms_ix self)) (\<lambda>b3.
          let bedrooms_per_room = map2 dv a3 b3 in
          np_c X [room_per_household, population_per_household, bedrooms_per_room]))
        else
          np_c X [room_per_household, population_per_household])))))"

text \<open>
  The same method over a store of arrays, addressed by position: the only allocation
  that outlives the call is the array \<^verbatim>\<open>np.c_\<close> builds, and the method assigns to
  no element of \<open>X\<close>.
\<close>

definition transform_store ::
  "('a \<Rightarrow> 'a \<Rightarrow> 'a) \<Rightarrow> FeatureGenerator \<Rightarrow> 'a ndarray list \<Rightarrow> nat \<Rightarrow>
     exn + ('a ndarray list \<times> nat)" where
  "transform_store dv self h x =
     (case transform dv self (h ! x) of
        Inl e \<Rightarrow> Inl e
      | Inr Y \<Rightarrow> Inr (h @ [Y], length h))"


subsection \<open>Vocabulary of the statements about FeatureGenerator\<close>

text \<open>The four names that \<^verbatim>\<open>__init__\<close> looks up, in the order it looks them up.\<close>

definition required_columns :: "string list" where
  "required_columns =
     [COLUMN_TOTAL_ROOMS, COLUMN_POPULATION, COLUMN_HOUSEHOLDS, COLUMN_TOTAL_BEDROOM]"

text \<open>The position of the first element equal to \<open>x\<close>, for a list that has one.\<close>

definition first_position :: "string list \<Rightarrow> string \<Rightarrow> int" where
  "first_position cs x = int (length (takeWhile (\<lambda>y. y \<noteq> x) cs))"

text \<open>
  A row followed by its ratios, for column positions \<open>tr\<close>, \<open>pop\<close>, \<open>hh\<close> and
  \<open>tb\<close>: what \<^const>\<open>transform\<close> is shown to compute row by row.
\<close>

definition row_ext ::
  "('a \<Rightarrow> 'a \<Rightarrow> 'a) \<Rightarrow> bool \<Rightarrow> nat \<Rightarrow> nat \<Rightarrow> nat \<Rightarrow> nat \<Rightarrow> 'a list \<Rightarrow> 'a list" where
  "row_ext dv abr tr pop hh tb r =
     r @ [dv (r ! tr) (r ! hh), dv (r ! pop) (r ! hh)] @ (if abr then [dv (r ! tb) (r ! tr)] else [])"

section \<open>File names\<close>

text \<open>
  The path functions are those of the standard library on a POSIX system.
  \<^verbatim>\<open>os.path.basename(p)\<close> is what follows the last slash of \<open>p\<close>.
\<close>

definition basename :: "string \<Rightarrow> string" where
  "basename p = rev (takeWhile (\<lambda>c. c \<noteq> CHR ''/'') (rev p))"

text \<open>
  \<^verbatim>\<open>s.replace(old, new)\<close>: every occurrence of \<open>old\<close> in \<open>s\<close>, found from left to
  right without overlap, becomes \<open>new\<close>. With an empty \<open>old\<close>, \<open>new\<close> is put before
  every character and at the end.
\<close>

fun str_replace :: "string \<Rightarrow> string \<Rightarrow> string \<Rightarrow> string" where
  "str_replace old new [] = (if old = [] then new else [])"
| "str_replace old new (c # cs) =
     (if old = [] then new @ c # str_replace old new cs
      else if take (length old) (c # cs) = old
           then new @ str_replace old new (drop (length old) (c # cs))
      else c # str_replace old new cs)"

text \<open>
  \<^verbatim>\<open>os.path.join(a, b)\<close>: an absolute \<open>b\<close> replaces \<open>a\<close>; otherwise \<open>b\<close> follows
  \<open>a\<close>, after a slash unless \<open>a\<close> is empty or ends with one.
\<close>

definition os_path_join :: "string \<Rightarrow> string \<Rightarrow> string" where
  "os_path_join a b =
     (if b \<noteq> [] \<and> hd b = CHR ''/'' then b
      else if a = [] \<or> last a = CHR ''/'' then a @ b
      else a @ ''/'' @ b)"

text \<open>
  The name of a transformed file, as \<^verbatim>\<open>initiate_data_tranformation\<close> computes it
  for the train and for the test file:
  \<^verbatim>\<open>os.path.basename(file_path).replace('.csv', '.npz')\<close>.
\<close>

definition npz_file_name :: "string \<Rightarrow> string" where
  "npz_file_name file_path = str_replace ''.csv'' ''.npz'' (basename file_path)"

text \<open>\<^verbatim>\<open>sub in s\<close>: \<open>sub\<close> occurs in \<open>s\<close>.\<close>

fun str_contains :: "string \<Rightarrow> string \<Rightarrow> bool" where
  "str_contains sub [] = (sub = [])"
| "str_contains sub (c # cs) = (take (length sub) (c # cs) = sub \<or> str_contains sub cs)"

text \<open>
  The file name in the words of the specification, for comparison with
  \<^const>\<open>npz_file_name\<close>: the name with its extension, which is what starts at its last
  dot, replaced by \<open>ext\<close>.
\<close>

definition spec_replace_extension :: "string \<Rightarrow> string \<Rightarrow> string" where
  "spec_replace_extension name ext =
     (if CHR ''.'' \<in> set name then rev (tl (dropWhile (\<lambda>c. c \<noteq> CHR ''.'') (rev name)))
      else name) @ ext"

section \<open>The combined transformer\<close>

subsection \<open>Estimators of the library, as the module configures them\<close>

text \<open>
  The constructor arguments that \<^verbatim>\<open>get_data_transformer_object\<close> passes to the
  estimators of scikit-learn. \<^verbatim>\<open>OneHotEncoder\<close> has a parameter
  \<^verbatim>\<open>handle_unknown\<close> whose default is \<^verbatim>\<open>'error'\<close>.
\<close>

record SimpleImputer =
  strategy :: string

record StandardScaler =
  with_mean :: bool

datatype unknown_policy = unknown_error | unknown_ignore

record OneHotEncoder =
  handle_unknown :: unknown_policy

text \<open>\<^verbatim>\<open>OneHotEncoder()\<close>, with no argument.\<close>

definition OneHotEncoder_init :: OneHotEncoder where
  "OneHotEncoder_init = \<lparr>handle_unknown = unknown_error\<rparr>"

text \<open>
  The \<^verbatim>\<open>ColumnTransformer\<close> of the module: the pipeline \<^verbatim>\<open>num_pipeline\<close> (steps
  \<^verbatim>\<open>imputer\<close>, \<^verbatim>\<open>FeautureGenrator\<close>, \<^verbatim>\<open>scaler\<close>) on the numerical columns and
  the pipeline \<^verbatim>\<open>cat_pipeline\<close> (steps \<^verbatim>\<open>imputer\<close>, \<^verbatim>\<open>OneHotEncoder\<close>,
  \<^verbatim>\<open>scaler\<close>) on the categorical columns.
\<close>

record ColumnTransformer =
  num_imputer :: SimpleImputer
  num_generator :: FeatureGenerator
  num_scaler :: StandardScaler
  num_columns :: "string list"
  cat_imputer :: SimpleImputer
  cat_encoder :: OneHotEncoder
  cat_scaler :: StandardScaler
  cat_columns :: "string list"

text \<open>
  The transformer after fitting. What the imputers and the scalers of the library learn
  (imputation statistics, means and scales) is a value of type \<open>'p\<close>; the categories the
  encoder learns are one list of values for each categorical column.
\<close>

record 'p FittedColumnTransformer =
  estimator :: ColumnTransformer
  num_imputer_state :: 'p
  num_scaler_state :: 'p
  cat_imputer_state :: 'p
  categories :: "string list list"
  cat_scaler_state :: 'p

subsection \<open>Collaborators\<close>

text \<open>
  The schema that \<^verbatim>\<open>read_yaml_file\<close> returns is a dictionary. The module reads three
  of its entries, under keys that are constants of \<^verbatim>\<open>Housing.constant\<close>; an absent
  key is \<open>None\<close> here, and reading it raises \<^verbatim>\<open>KeyError\<close>.
\<close>

record schema =
  numerical_columns :: "string list option"
  categorical_columns :: "string list option"
  target_column :: "string option"

definition dict_getitem :: "'v option \<Rightarrow> exn + 'v" where
  "dict_getitem entry = (case entry of None \<Rightarrow> Inl KeyError | Some v \<Rightarrow> Inr v)"

text \<open>
  The functions the module calls and does not define, as parameters: the helpers of
  \<^verbatim>\<open>Housing.util.util\<close>, the data-frame operations of pandas on a table type
  \<open>'df\<close>, the imputers and scalers of scikit-learn, and the element-wise division of
  numpy. Each returns its result or the exception it raises. The reading functions are
  called before anything is written, so they are functions of their arguments. A
  transform of the library takes what fitting has learnt and leaves it unchanged.
\<close>

record ('a, 'df, 'p) externals =
  read_yaml_file :: "string \<Rightarrow> exn + schema"
  load_data :: "string \<Rightarrow> string \<Rightarrow> exn + 'df"
  save_numpy_array_data :: "string \<Rightarrow> 'a ndarray \<Rightarrow> exn + unit"
  save_object :: "string \<Rightarrow> 'p FittedColumnTransformer \<Rightarrow> exn + unit"
  df_drop :: "'df \<Rightarrow> string \<Rightarrow> exn + 'df"
  df_getitem :: "'df \<Rightarrow> string \<Rightarrow> exn + 'a list"
  df_select :: "'df \<Rightarrow> string list \<Rightarrow> exn + 'df"
  num_imputer_fit_transform :: "SimpleImputer \<Rightarrow> 'df \<Rightarrow> exn + ('p \<times> 'a ndarray)"
  num_imputer_transform :: "SimpleImputer \<Rightarrow> 'p \<Rightarrow> 'df \<Rightarrow> exn + 'a ndarray"
  cat_imputer_fit_transform :: "SimpleImputer \<Rightarrow> 'df \<Rightarrow> exn + ('p \<times> string ndarray)"
  cat_imputer_transform :: "SimpleImputer \<Rightarrow> 'p \<Rightarrow> 'df \<Rightarrow> exn + string ndarray"
  scaler_fit_transform :: "StandardScaler \<Rightarrow> 'a ndarray \<Rightarrow> exn + ('p \<times> 'a ndarray)"
  scaler_transform :: "StandardScaler \<Rightarrow> 'p \<Rightarrow> 'a ndarray \<Rightarrow> exn + 'a ndarray"
  divide :: "'a \<Rightarrow> 'a \<Rightarrow> 'a"

subsection \<open>The one-hot encoder\<close>

text \<open>
  Fitting learns, for each column, its distinct values in increasing order. Transforming
  a value that is not among the learnt ones raises \<^verbatim>\<open>ValueError\<close> under the policy
  \<^verbatim>\<open>'error'\<close> and gives a block of zeros under \<^verbatim>\<open>'ignore'\<close>; a known value gives
  the indicator of its category.
\<close>

definition OneHotEncoder_fit :: "string ndarray \<Rightarrow> string list list" where
  "OneHotEncoder_fit X = map (\<lambda>j. sort (remdups (map (\<lambda>r. r ! j) (rws X)))) [0..<ncols X]"

definition has_unknown :: "string list list \<Rightarrow> string ndarray \<Rightarrow> bool" where
  "has_unknown cats X = list_ex (\<lambda>r. list_ex (\<lambda>(c, v). v \<notin> set c) (zip cats r)) (rws X)"

definition encode_row :: "string list list \<Rightarrow> string list \<Rightarrow> 'a::zero_neq_one list" where
  "encode_row cats r = concat (map (\<lambda>(c, v). map (\<lambda>k. of_bool (k = v)) c) (zip cats r))"

definition OneHotEncoder_transform ::
  "OneHotEncoder \<Rightarrow> string list list \<Rightarrow> string ndarray \<Rightarrow> exn + 'a::zero_neq_one ndarray" where
  "OneHotEncoder_transform enc cats X =
     (if ncols X \<noteq> length cats then Inl ValueError
      else if handle_unknown enc = unknown_error \<and> has_unknown cats X then Inl ValueError
      else Inr \<lparr>ncols = sum_list (map length cats), rws = map (encode_row cats) (rws X)\<rparr>)"

subsection \<open>Pipelines and the column transformer\<close>

text \<open>\<^verbatim>\<open>np.hstack\<close> of two arrays with the same number of rows.\<close>

definition np_hstack :: "'a ndarray \<Rightarrow> 'a ndarray \<Rightarrow> exn + 'a ndarray" where
  "np_hstack A B =
     (if length (rws A) = length (rws B)
      then Inr \<lparr>ncols = ncols A + ncols B, rws = map2 (@) (rws A) (rws B)\<rparr>
      else Inl ValueError)"

text \<open>
  A pipeline runs its steps in order, each on the output of the one before, and an
  exception of a step ends it. \<^verbatim>\<open>fit_transform\<close> fits every step on the way.
\<close>

definition num_pipeline_fit_transform ::
  "('a, 'df, 'p) externals \<Rightarrow> ColumnTransformer \<Rightarrow> 'df \<Rightarrow> exn + (('p \<times> 'p) \<times> 'a ndarray)" where
  "num_pipeline_fit_transform ex ct Xn =
     bnd (num_imputer_fit_transform ex (num_imputer ct) Xn) (\<lambda>(ist, X1).
     bnd (transform (divide ex) (fit (num_generator ct) X1) X1) (\<lambda>X2.
     bnd (scaler_fit_transform ex (num_scaler ct) X2) (\<lambda>(sst, X3).
     Inr ((ist, sst), X3))))"

definition num_pipeline_transform ::
  "('a, 'df, 'p) externals \<Rightarrow> 'p FittedColumnTransformer \<Rightarrow> 'df \<Rightarrow> exn + 'a ndarray" where
  "num_pipeline_transform ex ft Xn =
     bnd (num_imputer_transform ex (num_imputer (estimator ft)) (num_imputer_state ft) Xn) (\<lambda>X1.
     bnd (transform (divide ex) (num_generator (estimator ft)) X1) (\<lambda>X2.
     scaler_transform ex (num_scaler (estimator ft)) (num_scaler_state ft) X2))"

definition cat_pipeline_fit_transform ::
  "('a::zero_neq_one, 'df, 'p) externals \<Rightarrow> ColumnTransformer \<Rightarrow> 'df \<Rightarrow>
     exn + (('p \<times> string list list \<times> 'p) \<times> 'a ndarray)" where
  "cat_pipeline_fit_transform ex ct Xc =
     bnd (cat_imputer_fit_transform ex (cat_imputer ct) Xc) (\<lambda>(ist, X1).
     let cats = OneHotEncoder_fit X1 in
     bnd (OneHotEncoder_transform (cat_encoder ct) cats X1) (\<lambda>X2.
     bnd (scaler_fit_transform ex (cat_scaler ct) X2) (\<lambda>(sst, X3).
     Inr ((ist, cats, sst), X3))))"

definition cat_pipeline_transform ::
  "('a::zero_neq_one, 'df, 'p) externals \<Rightarrow> 'p FittedColumnTransformer \<Rightarrow> 'df \<Rightarrow>
     exn + 'a ndarray" where
  "cat_pipeline_transform ex ft Xc =
     bnd (cat_imputer_transform ex (cat_imputer (estimator ft)) (cat_imputer_state ft) Xc) (\<lambda>X1.
     bnd (OneHotEncoder_transform (cat_encoder (estimator ft)) (categories ft) X1) (\<lambda>X2.
     scaler_transform ex (cat_scaler (estimator ft)) (cat_scaler_state ft) X2))"

text \<open>
  The column transformer gives each pipeline its columns of the table, the numerical
  pipeline first, and puts the two outputs side by side.
\<close>

definition ColumnTransformer_fit_transform ::
  "('a::zero_neq_one, 'df, 'p) externals \<Rightarrow> ColumnTransformer \<Rightarrow> 'df \<Rightarrow>
     exn + ('p FittedColumnTransformer \<times> 'a ndarray)" where
  "ColumnTransformer_fit_transform ex ct X =
     bnd (df_select ex X (num_columns ct)) (\<lambda>Xn.
     bnd (num_pipeline_fit_transform ex ct Xn) (\<lambda>((nis, nss), A).
     bnd (df_select ex X (cat_columns ct)) (\<lambda>Xc.
     bnd (cat_pipeline_fit_transform ex ct Xc) (\<lambda>((cis, cats, css), B).
     bnd (np_hstack A B) (\<lambda>Y.
     Inr (\<lparr>estimator = ct, num_imputer_state = nis, num_scaler_state = nss,
           cat_imputer_state = cis, categories = cats, cat_scaler_state = css\<rparr>, Y))))))"

definition ColumnTransformer_transform ::
  "('a::zero_neq_one, 'df, 'p) externals \<Rightarrow> 'p FittedColumnTransformer \<Rightarrow> 'df \<Rightarrow>
     exn + 'a ndarray" where
  "ColumnTransformer_transform ex ft X =
     bnd (df_select ex X (num_columns (estimator ft))) (\<lambda>Xn.
     bnd (num_pipeline_transform ex ft Xn) (\<lambda>A.
     bnd (df_select ex X (cat_columns (estimator ft))) (\<lambda>Xc.
     bnd (cat_pipeline_transform ex ft Xc) (\<lambda>B.
     np_hstack A B))))"

section \<open>DataTransformation\<close>

text \<open>
  The configuration and artifact records of \<^verbatim>\<open>Housing.entity\<close>, with the attributes
  the module reads or sets.
\<close>

record DataTransformationConfig =
  transformed_train_dir :: string
  transformed_test_dir :: string
  preprocessed_object_file_path :: string

record DataIngestionArtifact =
  train_file_path :: string
  test_file_path :: string

record DataValidationArtifact =
  schema_file_path :: string

record DataTransformationArtifact =
  transformed_train_file_path :: string
  transformed_test_file_path :: string
  preprocessing_object_file_path :: string
  is_transformed :: bool
  message :: string

record DataTransformation =
  data_transformation_config :: DataTransformationConfig
  data_ingestion_artifact :: DataIngestionArtifact
  data_validation_artifact :: DataValidationArtifact

definition DataTransformation_init ::
  "DataTransformationConfig \<Rightarrow> DataIngestionArtifact \<Rightarrow> DataValidationArtifact \<Rightarrow>
     exn + DataTransformation" where
  "DataTransformation_init cfg ing val =
     reraise (Inr \<lparr>data_transformation_config = cfg, data_ingestion_artifact = ing,
                   data_validation_artifact = val\<rparr>)"

text \<open>\<^verbatim>\<open>get_data_transformer_object\<close>.\<close>

definition get_data_transformer_object ::
  "('a, 'df, 'p) externals \<Rightarrow> DataTransformation \<Rightarrow> exn + ColumnTransformer" where
  "get_data_transformer_object ex self =
     reraise
       (let schema_file_path = schema_file_path (data_validation_artifact self) in
        bnd (read_yaml_file ex schema_file_path) (\<lambda>dataset_schema.
        bnd (dict_getitem (numerical_columns dataset_schema)) (\<lambda>numerical_columns.
        bnd (dict_getitem (categorical_columns dataset_schema)) (\<lambda>categorical_columns.
        bnd (FeatureGenerator_init True 3 5 6 4 (Some numerical_columns)) (\<lambda>generator.
        Inr \<lparr>num_imputer = \<lparr>strategy = ''median''\<rparr>,
             num_generator = generator,
             num_scaler = \<lparr>with_mean = True\<rparr>,
             num_columns = numerical_columns,
             cat_imputer = \<lparr>strategy = ''most_frequent''\<rparr>,
             cat_encoder = OneHotEncoder_init,
             cat_scaler = \<lparr>with_mean = False\<rparr>,
             cat_columns = categorical_columns\<rparr>)))))"

subsection \<open>Writing files\<close>

text \<open>
  What a run has written, in order: the arrays and the fitted transformer, each with its
  path. A statement that may raise and may write maps what was written before it to its result
  and what is written after it.
\<close>

datatype ('a, 'p) written =
    SavedArray string "'a ndarray"
  | SavedObject string "'p FittedColumnTransformer"

type_synonym ('x, 'a, 'p) io = "('a, 'p) written list \<Rightarrow> (exn + 'x) \<times> ('a, 'p) written list"

definition io_bind :: "('x, 'a, 'p) io \<Rightarrow> ('x \<Rightarrow> ('y, 'a, 'p) io) \<Rightarrow> ('y, 'a, 'p) io" where
  "io_bind m f out = (case m out of (Inl e, out') \<Rightarrow> (Inl e, out') | (Inr v, out') \<Rightarrow> f v out')"

definition io_pure :: "exn + 'x \<Rightarrow> ('x, 'a, 'p) io" where
  "io_pure r out = (r, out)"

definition io_save :: "('a, 'p) written \<Rightarrow> exn + unit \<Rightarrow> (unit, 'a, 'p) io" where
  "io_save w r out = (case r of Inl e \<Rightarrow> (Inl e, out) | Inr u \<Rightarrow> (Inr u, out @ [w]))"

definition io_reraise :: "('x, 'a, 'p) io \<Rightarrow> ('x, 'a, 'p) io" where
  "io_reraise m out = (case m out of (r, out') \<Rightarrow> (reraise r, out'))"

text \<open>\<^verbatim>\<open>initiate_data_tranformation\<close>: the block under \<^verbatim>\<open>try\<close>, then the method.\<close>

definition initiate_body ::
  "('a::zero_neq_one, 'df, 'p) externals \<Rightarrow> DataTransformation \<Rightarrow>
     (DataTransformationArtifact, 'a, 'p) io" where
  "initiate_body ex self =
     io_bind (io_pure (get_data_transformer_object ex self)) (\<lambda>preprocessing_obj.
     let train_file_path = train_file_path (data_ingestion_artifact self);
         test_file_path = test_file_path (data_ingestion_artifact self);
         schema_path = schema_file_path (data_validation_artifact self) in
     io_bind (io_pure (load_data ex train_file_path schema_path)) (\<lambda>train_df.
     io_bind (io_pure (load_data ex test_file_path schema_path)) (\<lambda>test_df.
     io_bind (io_pure (read_yaml_file ex schema_path)) (\<lambda>schema.
     io_bind (io_pure (dict_getitem (target_column schema))) (\<lambda>target_colname.
     io_bind (io_pure (df_drop ex train_df target_colname)) (\<lambda>input_feauture_train.
     io_bind (io_pure (df_getitem ex train_df target_colname)) (\<lambda>target_feature_train.
     io_bind (io_pure (df_drop ex test_df target_colname)) (\<lambda>input_feauture_test.
     io_bind (io_pure (df_getitem ex test_df target_colname)) (\<lambda>target_feature_test.
     io_bind (io_pure (ColumnTransformer_fit_transform ex preprocessing_obj input_feauture_train))
       (\<lambda>(fitted_obj, input_feature_train_arr).
     io_bind (io_pure (ColumnTransformer_transform ex fitted_obj input_feauture_test))
       (\<lambda>input_feature_test_arr.
     io_bind (io_pure (np_c input_feature_train_arr [target_feature_train])) (\<lambda>train_arr.
     io_bind (io_pure (np_c input_feature_test_arr [target_feature_test])) (\<lambda>test_arr.
     let train_dir = transformed_train_dir (data_transformation_config self);
         test_dir = transformed_test_dir (data_transformation_config self);
         file_path_train_name = npz_file_name train_file_path;
         file_path_test_name = npz_file_name test_file_path;
         file_path_train = os_path_join train_dir file_path_train_name;
         file_path_test = os_path_join test_dir file_path_test_name in
     io_bind (io_save (SavedArray file_path_train train_arr)
                (save_numpy_array_data ex file_path_train train_arr)) (\<lambda>_.
     io_bind (io_save (SavedArray file_path_test test_arr)
                (save_numpy_array_data ex file_path_test test_arr)) (\<lambda>_.
     let preprocessing_object_file_path =
           preprocessed_object_file_path (data_transformation_config self) in
     io_bind (io_save (SavedObject preprocessing_object_file_path fitted_obj)
                (save_object ex preprocessing_object_file_path fitted_obj)) (\<lambda>_.
     io_pure (Inr \<lparr>transformed_train_file_path = file_path_train,
                   transformed_test_file_path = file_path_test,
                   preprocessing_object_file_path = preprocessing_object_file_path,
                   is_transformed = True,
                   message = ''Data transformation completed''\<rparr>)))))))))))))))))"

definition initiate_data_tranformation ::
  "('a::zero_neq_one, 'df, 'p) externals \<Rightarrow> DataTransformation \<Rightarrow>
     (DataTransformationArtifact, 'a, 'p) io" where
  "initiate_data_tranformation ex self = io_reraise (initiate_body ex self)"

section \<open>Properties of FeatureGenerator\<close>

subsection \<open>Exceptions and indices\<close>

lemma bnd_Inr_iff: "bnd m f = Inr y \<longleftrightarrow> (\<exists>v. m = Inr v \<and> f v = Inr y)"
  by (cases m) (simp_all add: bnd_def)

lemma bnd_Inr [simp]: "bnd (Inr v) f = f v"
  by (simp add: bnd_def)

lemma bnd_Inl [simp]: "bnd (Inl e) f = Inl e"
  by (simp add: bnd_def)

lemma reraise_Inr_iff: "reraise m = Inr y \<longleftrightarrow> m = Inr y"
  by (cases m) (simp_all add: reraise_def)

lemma reraise_simps [simp]: "reraise (Inr v) = Inr v" "reraise (Inl e) = Inl (HousingException e)"
  by (simp_all add: reraise_def)

lemma normalize_index_bound: "normalize_index n i = Inr j \<Longrightarrow> j < n"
  by (auto simp: normalize_index_def Let_def split: if_splits)

lemma getcol_Inr_iff:
  "getcol X i = Inr c \<longleftrightarrow> (\<exists>j. normalize_index (ncols X) i = Inr j \<and> c = map (\<lambda>r. r ! j) (rws X))"
  by (auto simp: getcol_def bnd_Inr_iff)

lemma map2_cols: "map2 dv (map f xs) (map g xs) = map (\<lambda>r. dv (f r) (g r)) xs"
  by (induction xs) simp_all

lemma np_c_cols:
  "np_c X (map (\<lambda>f. map f (rws X)) fs) =
     Inr \<lparr>ncols = ncols X + length fs, rws = map (\<lambda>r. r @ map (\<lambda>f. f r) fs) (rws X)\<rparr>"
  by (auto simp: np_c_def list_all_iff comp_def intro!: nth_equalityI)

lemma transform_rowwise:
  assumes tr: "normalize_index (ncols X) (total_rooms_ix self) = Inr tr"
    and pop: "normalize_index (ncols X) (population_ix self) = Inr pop"
    and hh: "normalize_index (ncols X) (households_ix self) = Inr hh"
    and tb: "add_bedrooms_per_room self \<Longrightarrow> normalize_index (ncols X) (total_bedrooms_ix self) = Inr tb"
  shows "transform dv self X =
     Inr \<lparr>ncols = ncols X + (if add_bedrooms_per_room self then 3 else 2),
          rws = map (row_ext dv (add_bedrooms_per_room self) tr pop hh tb) (rws X)\<rparr>"
proof (cases "add_bedrooms_per_room self")
  case True
  have "np_c X (map (\<lambda>f. map f (rws X)) [\<lambda>r. dv (r ! tr) (r ! hh), \<lambda>r. dv (r ! pop) (r ! hh), \<lambda>r. dv (r ! tb) (r ! tr)])
    = Inr \<lparr>ncols = ncols X + 3, rws = map (\<lambda>r. r @ [dv (r ! tr) (r ! hh), dv (r ! pop) (r ! hh), dv (r ! tb) (r ! tr)]) (rws X)\<rparr>"
    by (subst np_c_cols) simp
  then show ?thesis
    using True tr pop hh tb[OF True]
    by (simp add: transform_def getcol_def map2_cols row_ext_def)
next
  case False
  have "np_c X (map (\<lambda>f. map f (rws X)) [\<lambda>r. dv (r ! tr) (r ! hh), \<lambda>r. dv (r ! pop) (r ! hh)])
    = Inr \<lparr>ncols = ncols X + 2, rws = map (\<lambda>r. r @ [dv (r ! tr) (r ! hh), dv (r ! pop) (r ! hh)]) (rws X)\<rparr>"
    by (subst np_c_cols) simp
  then show ?thesis
    using False tr pop hh
    by (simp add: transform_def getcol_def map2_cols row_ext_def)
qed

lemma transform_Inr_indices:
  assumes "transform dv self X = Inr Y"
  shows "\<exists>tr pop hh. normalize_index (ncols X) (total_rooms_ix self) = Inr tr
     \<and> normalize_index (ncols X) (population_ix self) = Inr pop
     \<and> normalize_index (ncols X) (households_ix self) = Inr hh
     \<and> (add_bedrooms_per_room self \<longrightarrow> (\<exists>tb. normalize_index (ncols X) (total_bedrooms_ix self) = Inr tb))"
  using assms
  by (auto simp: transform_def reraise_Inr_iff bnd_Inr_iff getcol_Inr_iff Let_def split: if_splits)


lemma list_index_eq:
  "list_index cs x =
     (if x \<in> set cs then Inr (int (length (takeWhile (\<lambda>y. y \<noteq> x) cs))) else Inl ValueError)"
  by (induction cs) auto

lemma init_Some_eq:
  "FeatureGenerator_init abr a b c d (Some cs) =
     (if set required_columns \<subseteq> set cs
      then Inr \<lparr>columns = Some cs, add_bedrooms_per_room = abr,
                total_rooms_ix = first_position cs COLUMN_TOTAL_ROOMS,
                population_ix = first_position cs COLUMN_POPULATION,
                households_ix = first_position cs COLUMN_HOUSEHOLDS,
                total_bedrooms_ix = first_position cs COLUMN_TOTAL_BEDROOM\<rparr>
      else Inl (HousingException ValueError))"
  by (simp add: FeatureGenerator_init_def list_index_eq required_columns_def first_position_def)

text \<open>
  Claim C3. Constructing a FeatureGenerator with a column-name list succeeds when the list
  holds all four required names, and fails with the domain error, whose cause is the
  \<^verbatim>\<open>ValueError\<close> of the list lookup, when it lacks at least one of them.
\<close>
theorem init_missing_column:
  "(set required_columns \<subseteq> set cs \<longrightarrow>
      (\<exists>fg. FeatureGenerator_init abr a b c d (Some cs) = Inr fg)) \<and>
   (\<not> set required_columns \<subseteq> set cs \<longrightarrow>
      FeatureGenerator_init abr a b c d (Some cs) = Inl (HousingException ValueError))"
  by (simp add: init_Some_eq)

text \<open>Both cases of C3 at concrete lists: all four names, and \<^verbatim>\<open>households\<close> missing.\<close>
theorem init_missing_column_witness:
  "set required_columns \<subseteq> set [''total_rooms'', ''total_bedrooms'', ''population'', ''households'']
   \<and> (\<exists>fg. FeatureGenerator_init True 3 5 6 4
        (Some [''total_rooms'', ''total_bedrooms'', ''population'', ''households'']) = Inr fg)
   \<and> \<not> set required_columns \<subseteq> set [''total_rooms'', ''total_bedrooms'', ''population'']
   \<and> FeatureGenerator_init True 3 5 6 4
        (Some [''total_rooms'', ''total_bedrooms'', ''population'']) = Inl (HousingException ValueError)"
proof -
  have h1: "set required_columns \<subseteq> set [''total_rooms'', ''total_bedrooms'', ''population'', ''households'']"
    by (simp add: required_columns_def COLUMN_TOTAL_ROOMS_def COLUMN_POPULATION_def
        COLUMN_HOUSEHOLDS_def COLUMN_TOTAL_BEDROOM_def)
  have h2: "\<not> set required_columns \<subseteq> set [''total_rooms'', ''total_bedrooms'', ''population'']"
    by (simp add: required_columns_def COLUMN_TOTAL_ROOMS_def COLUMN_POPULATION_def
        COLUMN_HOUSEHOLDS_def COLUMN_TOTAL_BEDROOM_def)
  show ?thesis
    using h1 h2
      init_missing_column [of "[''total_rooms'', ''total_bedrooms'', ''population'', ''households'']" True 3 5 6 4]
      init_missing_column [of "[''total_rooms'', ''total_bedrooms'', ''population'']" True 3 5 6 4]
    by blast
qed

text \<open>
  Claim C10. With a column-name list, the four index arguments are ignored: any two
  choices of them give the same result, and the stored indices are the first positions of
  the four required names in the list. Without a list the index arguments are stored as
  given, and the defaults are 3, 5, 6 and 4.
\<close>
theorem init_index_override:
  "FeatureGenerator_init abr a b c d (Some cs) = FeatureGenerator_init abr a' b' c' d' (Some cs)
   \<and> (\<forall>fg. FeatureGenerator_init abr a b c d (Some cs) = Inr fg \<longrightarrow>
        total_rooms_ix fg = first_position cs COLUMN_TOTAL_ROOMS \<and>
        population_ix fg = first_position cs COLUMN_POPULATION \<and>
        households_ix fg = first_position cs COLUMN_HOUSEHOLDS \<and>
        total_bedrooms_ix fg = first_position cs COLUMN_TOTAL_BEDROOM)
   \<and> FeatureGenerator_init abr a b c d None =
        Inr \<lparr>columns = None, add_bedrooms_per_room = abr, total_rooms_ix = a,
             population_ix = b, households_ix = c, total_bedrooms_ix = d\<rparr>
   \<and> FeatureGenerator_default =
        Inr \<lparr>columns = None, add_bedrooms_per_room = True, total_rooms_ix = 3,
             population_ix = 5, households_ix = 6, total_bedrooms_ix = 4\<rparr>"
proof (intro conjI allI impI)
  show "FeatureGenerator_init abr a b c d (Some cs) = FeatureGenerator_init abr a' b' c' d' (Some cs)"
    by (simp only: init_Some_eq)
next
  fix fg
  assume ok: "FeatureGenerator_init abr a b c d (Some cs) = Inr fg"
  then have fg: "fg = \<lparr>columns = Some cs, add_bedrooms_per_room = abr,
                total_rooms_ix = first_position cs COLUMN_TOTAL_ROOMS,
                population_ix = first_position cs COLUMN_POPULATION,
                households_ix = first_position cs COLUMN_HOUSEHOLDS,
                total_bedrooms_ix = first_position cs COLUMN_TOTAL_BEDROOM\<rparr>"
    by (simp add: init_Some_eq split: if_splits)
  show "total_rooms_ix fg = first_position cs COLUMN_TOTAL_ROOMS" by (simp add: fg)
  show "population_ix fg = first_position cs COLUMN_POPULATION" by (simp add: fg)
  show "households_ix fg = first_position cs COLUMN_HOUSEHOLDS" by (simp add: fg)
  show "total_bedrooms_ix fg = first_position cs COLUMN_TOTAL_BEDROOM" by (simp add: fg)
next
  show "FeatureGenerator_init abr a b c d None =
        Inr \<lparr>columns = None, add_bedrooms_per_room = abr, total_rooms_ix = a,
             population_ix = b, households_ix = c, total_bedrooms_ix = d\<rparr>"
    by (simp add: FeatureGenerator_init_def)
next
  show "FeatureGenerator_default =
        Inr \<lparr>columns = None, add_bedrooms_per_room = True, total_rooms_ix = 3,
             population_ix = 5, households_ix = 6, total_bedrooms_ix = 4\<rparr>"
    by (simp add: FeatureGenerator_default_def FeatureGenerator_init_def)
qed

lemma first_position_spec:
  "x \<in> set cs \<Longrightarrow> 0 \<le> first_position cs x \<and> nat (first_position cs x) < length cs
     \<and> cs ! nat (first_position cs x) = x \<and> (\<forall>k < nat (first_position cs x). cs ! k \<noteq> x)"
proof (induction cs)
  case Nil
  then show ?case by simp
next
  case (Cons y ys)
  show ?case
  proof (cases "y = x")
    case True
    then show ?thesis by (simp add: first_position_def)
  next
    case False
    with Cons.prems have "x \<in> set ys" by simp
    from Cons.IH [OF this] False show ?thesis
      by (auto simp: first_position_def nth_Cons' nat_add_distrib less_Suc_eq_0_disj)
  qed
qed

text \<open>C10 at a concrete list, with index arguments that the list overrides.\<close>
theorem init_index_override_witness:
  "FeatureGenerator_init True 0 0 0 0 (Some [''households'', ''total_rooms'', ''total_bedrooms'', ''population''])
     = Inr \<lparr>columns = Some [''households'', ''total_rooms'', ''total_bedrooms'', ''population''],
            add_bedrooms_per_room = True, total_rooms_ix = 1,
             population_ix = 3, households_ix = 0, total_bedrooms_ix = 2\<rparr>"
  using init_index_override [of True 0 0 0 0 "[''households'', ''total_rooms'', ''total_bedrooms'', ''population'']" 3 5 6 4]
  by (simp add: FeatureGenerator_init_def COLUMN_TOTAL_ROOMS_def COLUMN_POPULATION_def
        COLUMN_HOUSEHOLDS_def COLUMN_TOTAL_BEDROOM_def)


lemma transform_Inr_rowwise:
  assumes ok: "transform dv self X = Inr Y"
  shows "\<exists>tr pop hh tb.
    normalize_index (ncols X) (total_rooms_ix self) = Inr tr \<and>
    normalize_index (ncols X) (population_ix self) = Inr pop \<and>
    normalize_index (ncols X) (households_ix self) = Inr hh \<and>
    (add_bedrooms_per_room self \<longrightarrow> normalize_index (ncols X) (total_bedrooms_ix self) = Inr tb) \<and>
    Y = \<lparr>ncols = ncols X + (if add_bedrooms_per_room self then 3 else 2),
          rws = map (row_ext dv (add_bedrooms_per_room self) tr pop hh tb) (rws X)\<rparr>"
proof -
  from transform_Inr_indices [OF ok] obtain tr pop hh where
    tr: "normalize_index (ncols X) (total_rooms_ix self) = Inr tr" and
    pop: "normalize_index (ncols X) (population_ix self) = Inr pop" and
    hh: "normalize_index (ncols X) (households_ix self) = Inr hh" and
    ex: "add_bedrooms_per_room self \<longrightarrow>
           (\<exists>tb. normalize_index (ncols X) (total_bedrooms_ix self) = Inr tb)"
    by blast
  from ex obtain tb where
    tb: "add_bedrooms_per_room self \<Longrightarrow> normalize_index (ncols X) (total_bedrooms_ix self) = Inr tb"
    by blast
  from transform_rowwise [OF tr pop hh tb, of dv] ok
  have "Y = \<lparr>ncols = ncols X + (if add_bedrooms_per_room self then 3 else 2),
          rws = map (row_ext dv (add_bedrooms_per_room self) tr pop hh tb) (rws X)\<rparr>"
    by simp
  with tr pop hh tb show ?thesis by blast
qed

lemma wf_row: "wf_ndarray X \<Longrightarrow> i < length (rws X) \<Longrightarrow> length (rws X ! i) = ncols X"
  by (simp add: wf_ndarray_def list_all_length)

text \<open>
  Claim C1. When \<^const>\<open>transform\<close> returns, every row of the result holds, right after
  the input columns, the total-rooms entry divided by the households entry, then the
  population entry divided by the households entry, and, when the flag is set, the
  total-bedrooms entry divided by the total-rooms entry. The entries are those at the
  configured indices, a negative index counting from the end. No condition on the
  denominator is needed: the quotient is whatever the division returns.
\<close>
theorem transform_ratio_columns:
  assumes wf: "wf_ndarray X" and ok: "transform dv self X = Inr Y" and i: "i < length (rws X)"
  shows "\<exists>tr pop hh.
      normalize_index (ncols X) (total_rooms_ix self) = Inr tr \<and>
      normalize_index (ncols X) (population_ix self) = Inr pop \<and>
      normalize_index (ncols X) (households_ix self) = Inr hh \<and>
      rws Y ! i ! ncols X = dv (rws X ! i ! tr) (rws X ! i ! hh) \<and>
      rws Y ! i ! (ncols X + 1) = dv (rws X ! i ! pop) (rws X ! i ! hh) \<and>
      (add_bedrooms_per_room self \<longrightarrow>
         (\<exists>tb. normalize_index (ncols X) (total_bedrooms_ix self) = Inr tb \<and>
               rws Y ! i ! (ncols X + 2) = dv (rws X ! i ! tb) (rws X ! i ! tr)))"
proof -
  from transform_Inr_rowwise [OF ok] obtain tr pop hh tb where
    tr: "normalize_index (ncols X) (total_rooms_ix self) = Inr tr" and
    pop: "normalize_index (ncols X) (population_ix self) = Inr pop" and
    hh: "normalize_index (ncols X) (households_ix self) = Inr hh" and
    tb: "add_bedrooms_per_room self \<longrightarrow> normalize_index (ncols X) (total_bedrooms_ix self) = Inr tb" and
    Y: "Y = \<lparr>ncols = ncols X + (if add_bedrooms_per_room self then 3 else 2),
          rws = map (row_ext dv (add_bedrooms_per_room self) tr pop hh tb) (rws X)\<rparr>"
    using transform_Inr_rowwise by blast
  have len: "length (rws X ! i) = ncols X"
    using wf i by (rule wf_row)
  have row: "rws Y ! i = row_ext dv (add_bedrooms_per_room self) tr pop hh tb (rws X ! i)"
    using i by (simp add: Y)
  have c0: "rws Y ! i ! ncols X = dv (rws X ! i ! tr) (rws X ! i ! hh)"
    using len by (simp add: row row_ext_def nth_append)
  have c1: "rws Y ! i ! (ncols X + 1) = dv (rws X ! i ! pop) (rws X ! i ! hh)"
    using len by (simp add: row row_ext_def nth_append)
  have c2: "rws Y ! i ! (ncols X + 2) = dv (rws X ! i ! tb) (rws X ! i ! tr)"
    if "add_bedrooms_per_room self"
    using len that by (simp add: row row_ext_def nth_append)
  show ?thesis
    using tr pop hh tb c0 c1 c2 by blast
qed

text \<open>
  Claim C2. The result of \<^const>\<open>transform\<close> has three more columns than the input
  when the flag is set and two more when it is not, and as many rows as the input.
\<close>
theorem transform_shape:
  assumes wf: "wf_ndarray X" and ok: "transform dv self X = Inr Y"
  shows "ncols Y = ncols X + (if add_bedrooms_per_room self then 3 else 2) \<and>
         length (rws Y) = length (rws X) \<and> wf_ndarray Y"
proof -
  from transform_Inr_rowwise [OF ok] obtain tr pop hh tb where
    Y: "Y = \<lparr>ncols = ncols X + (if add_bedrooms_per_room self then 3 else 2),
          rws = map (row_ext dv (add_bedrooms_per_room self) tr pop hh tb) (rws X)\<rparr>"
    by blast
  have "wf_ndarray Y"
    using wf by (auto simp: Y wf_ndarray_def list_all_iff row_ext_def)
  then show ?thesis by (simp add: Y)
qed

text \<open>
  Claim C6. Whatever the entries of the input, zero denominators included,
  \<^const>\<open>transform\<close> does not raise when the configured indices are within the columns
  of the array: it returns an array in which every row is the input row followed by the
  quotients of that row's own entries, so a zero in one row changes no other row. The
  IEEE 754 behaviour of the library's division is a hypothesis on the parameter \<open>dv\<close>:
  if a quotient by a zero is an infinity or a NaN, then so are the two household ratios
  of a row with zero households and the bedroom ratio of a row with zero total rooms.
\<close>
theorem transform_zero_denominator:
  assumes wf: "wf_ndarray X"
    and tr: "normalize_index (ncols X) (total_rooms_ix self) = Inr tr"
    and pop: "normalize_index (ncols X) (population_ix self) = Inr pop"
    and hh: "normalize_index (ncols X) (households_ix self) = Inr hh"
    and tb: "add_bedrooms_per_room self \<Longrightarrow>
               normalize_index (ncols X) (total_bedrooms_ix self) = Inr tb"
    and ieee: "\<forall>x z. is_zero z \<longrightarrow> inf_or_nan (dv x z)"
  shows "\<exists>Y. transform dv self X = Inr Y \<and> length (rws Y) = length (rws X) \<and>
      (\<forall>i < length (rws X).
         rws Y ! i =
           rws X ! i @ [dv (rws X ! i ! tr) (rws X ! i ! hh), dv (rws X ! i ! pop) (rws X ! i ! hh)]
             @ (if add_bedrooms_per_room self then [dv (rws X ! i ! tb) (rws X ! i ! tr)] else [])) \<and>
      (\<forall>i < length (rws X). is_zero (rws X ! i ! hh) \<longrightarrow>
         inf_or_nan (rws Y ! i ! ncols X) \<and> inf_or_nan (rws Y ! i ! (ncols X + 1))) \<and>
      (\<forall>i < length (rws X). add_bedrooms_per_room self \<and> is_zero (rws X ! i ! tr) \<longrightarrow>
         inf_or_nan (rws Y ! i ! (ncols X + 2)))"
proof -
  let ?Y = "\<lparr>ncols = ncols X + (if add_bedrooms_per_room self then 3 else 2),
          rws = map (row_ext dv (add_bedrooms_per_room self) tr pop hh tb) (rws X)\<rparr>"
  have Y: "transform dv self X = Inr ?Y"
    by (rule transform_rowwise [OF tr pop hh tb])
  have rows: "\<forall>i < length (rws X).
         rws ?Y ! i =
           rws X ! i @ [dv (rws X ! i ! tr) (rws X ! i ! hh), dv (rws X ! i ! pop) (rws X ! i ! hh)]
             @ (if add_bedrooms_per_room self then [dv (rws X ! i ! tb) (rws X ! i ! tr)] else [])"
    by (simp add: row_ext_def)
  have hh0: "\<forall>i < length (rws X). is_zero (rws X ! i ! hh) \<longrightarrow>
         inf_or_nan (rws ?Y ! i ! ncols X) \<and> inf_or_nan (rws ?Y ! i ! (ncols X + 1))"
    using ieee wf_row [OF wf] by (simp add: row_ext_def nth_append)
  have tr0: "\<forall>i < length (rws X). add_bedrooms_per_room self \<and> is_zero (rws X ! i ! tr) \<longrightarrow>
         inf_or_nan (rws ?Y ! i ! (ncols X + 2))"
    using ieee wf_row [OF wf] by (simp add: row_ext_def nth_append)
  have len: "length (rws ?Y) = length (rws X)" by simp
  from Y len rows hh0 tr0 show ?thesis by blast
qed

text \<open>
  Claim C7. Over a store, \<^const>\<open>transform_store\<close> returns a new address, leaves every
  array of the store as it was, the input among them, and the new array has, in each row,
  the entries of the input row first, in their order, with the derived columns after them.
\<close>
theorem transform_store_frame:
  assumes x: "x < length h" and wf: "wf_ndarray (h ! x)"
    and ok: "transform_store dv self h x = Inr (h', y)"
  shows "y = length h \<and> length h' = Suc (length h) \<and> (\<forall>a < length h. h' ! a = h ! a) \<and>
         ncols (h' ! y) = ncols (h ! x) + (if add_bedrooms_per_room self then 3 else 2) \<and>
         length (rws (h' ! y)) = length (rws (h ! x)) \<and>
         (\<forall>i < length (rws (h ! x)). take (ncols (h ! x)) (rws (h' ! y) ! i) = rws (h ! x) ! i)"
proof -
  from ok obtain Y where Yok: "transform dv self (h ! x) = Inr Y" and h': "h' = h @ [Y]"
    and y: "y = length h"
    by (auto simp: transform_store_def split: sum.splits)
  from transform_Inr_rowwise [OF Yok] obtain tr pop hh tb where
    Y: "Y = \<lparr>ncols = ncols (h ! x) + (if add_bedrooms_per_room self then 3 else 2),
          rws = map (row_ext dv (add_bedrooms_per_room self) tr pop hh tb) (rws (h ! x))\<rparr>"
    by blast
  have new: "h' ! y = Y" by (simp add: h' y)
  have old: "\<forall>a < length h. h' ! a = h ! a" by (simp add: h' nth_append)
  have cols: "\<forall>i < length (rws (h ! x)). take (ncols (h ! x)) (rws Y ! i) = rws (h ! x) ! i"
    using wf_row [OF wf] by (simp add: Y row_ext_def)
  show ?thesis
    using old cols by (simp add: new y h' Y)
qed


lemmas transform_eval =
  transform_def getcol_def normalize_index_def np_c_def bnd_def reraise_def Let_def

text \<open>C1 at a two-row array of seven columns, with the default indices.\<close>
theorem transform_ratio_columns_witness:
  "wf_ndarray \<lparr>ncols = 7, rws = [[1, 2, 3, 8, 4, 6, 2 :: real], [0, 0, 0, 5, 1, 9, 3]]\<rparr> \<and>
   transform (/) \<lparr>columns = None, add_bedrooms_per_room = True, total_rooms_ix = 3, population_ix = 5, households_ix = 6, total_bedrooms_ix = 4\<rparr> \<lparr>ncols = 7, rws = [[1, 2, 3, 8, 4, 6, 2 :: real], [0, 0, 0, 5, 1, 9, 3]]\<rparr> = Inr \<lparr>ncols = 10, rws = [[1, 2, 3, 8, 4, 6, 2, 4, 3, 1 / 2 :: real], [0, 0, 0, 5, 1, 9, 3, 5 / 3, 3, 1 / 5]]\<rparr> \<and>
   (1::nat) < length (rws \<lparr>ncols = 7, rws = [[1, 2, 3, 8, 4, 6, 2 :: real], [0, 0, 0, 5, 1, 9, 3]]\<rparr>) \<and>
   rws \<lparr>ncols = 10, rws = [[1, 2, 3, 8, 4, 6, 2, 4, 3, 1 / 2 :: real], [0, 0, 0, 5, 1, 9, 3, 5 / 3, 3, 1 / 5]]\<rparr> ! 1 ! 7 = 5 / 3 \<and> rws \<lparr>ncols = 10, rws = [[1, 2, 3, 8, 4, 6, 2, 4, 3, 1 / 2 :: real], [0, 0, 0, 5, 1, 9, 3, 5 / 3, 3, 1 / 5]]\<rparr> ! 1 ! 8 = 9 / 3 \<and> rws \<lparr>ncols = 10, rws = [[1, 2, 3, 8, 4, 6, 2, 4, 3, 1 / 2 :: real], [0, 0, 0, 5, 1, 9, 3, 5 / 3, 3, 1 / 5]]\<rparr> ! 1 ! 9 = 1 / 5"
proof -
  let ?X = "\<lparr>ncols = 7, rws = [[1, 2, 3, 8, 4, 6, 2 :: real], [0, 0, 0, 5, 1, 9, 3]]\<rparr>"
  let ?fg = "\<lparr>columns = None, add_bedrooms_per_room = True, total_rooms_ix = 3, population_ix = 5, households_ix = 6, total_bedrooms_ix = 4\<rparr>"
  let ?Y = "\<lparr>ncols = 10, rws = [[1, 2, 3, 8, 4, 6, 2, 4, 3, 1 / 2 :: real], [0, 0, 0, 5, 1, 9, 3, 5 / 3, 3, 1 / 5]]\<rparr>"
  have wf: "wf_ndarray ?X" by (simp add: wf_ndarray_def)
  have ok: "transform (/) ?fg ?X = Inr ?Y" by (simp add: transform_eval)
  have i: "(1::nat) < length (rws ?X)" by simp
  show ?thesis
    using wf ok i transform_ratio_columns [OF wf ok i] by (simp add: normalize_index_def)
qed

text \<open>C2 at the same array, once with the flag set and once without.\<close>
theorem transform_shape_witness:
  "wf_ndarray \<lparr>ncols = 7, rws = [[1, 2, 3, 8, 4, 6, 2 :: real], [0, 0, 0, 5, 1, 9, 3]]\<rparr> \<and>
   transform (/) \<lparr>columns = None, add_bedrooms_per_room = True, total_rooms_ix = 3, population_ix = 5, households_ix = 6, total_bedrooms_ix = 4\<rparr> \<lparr>ncols = 7, rws = [[1, 2, 3, 8, 4, 6, 2 :: real], [0, 0, 0, 5, 1, 9, 3]]\<rparr> = Inr \<lparr>ncols = 10, rws = [[1, 2, 3, 8, 4, 6, 2, 4, 3, 1 / 2 :: real], [0, 0, 0, 5, 1, 9, 3, 5 / 3, 3, 1 / 5]]\<rparr> \<and>
   ncols \<lparr>ncols = 10, rws = [[1, 2, 3, 8, 4, 6, 2, 4, 3, 1 / 2 :: real], [0, 0, 0, 5, 1, 9, 3, 5 / 3, 3, 1 / 5]]\<rparr> = ncols \<lparr>ncols = 7, rws = [[1, 2, 3, 8, 4, 6, 2 :: real], [0, 0, 0, 5, 1, 9, 3]]\<rparr> + 3 \<and>
   transform (/) \<lparr>columns = None, add_bedrooms_per_room = False, total_rooms_ix = 3, population_ix = 5, households_ix = - 1, total_bedrooms_ix = 4\<rparr> \<lparr>ncols = 7, rws = [[1, 2, 3, 8, 4, 6, 2 :: real], [0, 0, 0, 5, 1, 9, 3]]\<rparr> = Inr \<lparr>ncols = 9, rws = [[1, 2, 3, 8, 4, 6, 2, 4, 3 :: real], [0, 0, 0, 5, 1, 9, 3, 5 / 3, 3]]\<rparr> \<and>
   ncols \<lparr>ncols = 9, rws = [[1, 2, 3, 8, 4, 6, 2, 4, 3 :: real], [0, 0, 0, 5, 1, 9, 3, 5 / 3, 3]]\<rparr> = ncols \<lparr>ncols = 7, rws = [[1, 2, 3, 8, 4, 6, 2 :: real], [0, 0, 0, 5, 1, 9, 3]]\<rparr> + 2"
proof -
  let ?X = "\<lparr>ncols = 7, rws = [[1, 2, 3, 8, 4, 6, 2 :: real], [0, 0, 0, 5, 1, 9, 3]]\<rparr>"
  let ?fg = "\<lparr>columns = None, add_bedrooms_per_room = True, total_rooms_ix = 3, population_ix = 5, households_ix = 6, total_bedrooms_ix = 4\<rparr>"
  let ?Y = "\<lparr>ncols = 10, rws = [[1, 2, 3, 8, 4, 6, 2, 4, 3, 1 / 2 :: real], [0, 0, 0, 5, 1, 9, 3, 5 / 3, 3, 1 / 5]]\<rparr>"
  let ?fg2 = "\<lparr>columns = None, add_bedrooms_per_room = False, total_rooms_ix = 3, population_ix = 5, households_ix = - 1, total_bedrooms_ix = 4\<rparr>"
  let ?Y2 = "\<lparr>ncols = 9, rws = [[1, 2, 3, 8, 4, 6, 2, 4, 3 :: real], [0, 0, 0, 5, 1, 9, 3, 5 / 3, 3]]\<rparr>"
  have wf: "wf_ndarray ?X" by (simp add: wf_ndarray_def)
  have ok: "transform (/) ?fg ?X = Inr ?Y" by (simp add: transform_eval)
  have ok2: "transform (/) ?fg2 ?X = Inr ?Y2" by (simp add: transform_eval)
  show ?thesis
    using wf ok ok2 transform_shape [OF wf ok] transform_shape [OF wf ok2] by simp
qed

text \<open>
  C6 at an array whose second row has zero households and zero total rooms, with a
  division on optional values in which \<open>None\<close> stands for an infinity or a NaN: the call
  returns, the first row's ratios are those of the first row, and the second row's are
  \<open>None\<close>.
\<close>
theorem transform_zero_denominator_witness:
  "wf_ndarray \<lparr>ncols = 7, rws = [[Some 1, Some 2, Some 3, Some 8, Some 4, Some 6, Some 2], [Some 0, Some 0, Some 0, Some 0, Some 1, Some 9, Some (0 :: real)]]\<rparr> \<and>
   rws \<lparr>ncols = 7, rws = [[Some 1, Some 2, Some 3, Some 8, Some 4, Some 6, Some 2], [Some 0, Some 0, Some 0, Some 0, Some 1, Some 9, Some (0 :: real)]]\<rparr> ! 1 ! 6 = Some 0 \<and> rws \<lparr>ncols = 7, rws = [[Some 1, Some 2, Some 3, Some 8, Some 4, Some 6, Some 2], [Some 0, Some 0, Some 0, Some 0, Some 1, Some 9, Some (0 :: real)]]\<rparr> ! 1 ! 3 = Some 0 \<and>
   (\<exists>Y. transform (\<lambda>a b. case (a, b) of (Some x, Some y) \<Rightarrow> if y = 0 then None else Some (x / y) | _ \<Rightarrow> None) \<lparr>columns = None, add_bedrooms_per_room = True, total_rooms_ix = 3, population_ix = 5, households_ix = 6, total_bedrooms_ix = 4\<rparr> \<lparr>ncols = 7, rws = [[Some 1, Some 2, Some 3, Some 8, Some 4, Some 6, Some 2], [Some 0, Some 0, Some 0, Some 0, Some 1, Some 9, Some (0 :: real)]]\<rparr> = Inr Y \<and> length (rws Y) = 2 \<and>
        rws Y ! 0 = [Some 1, Some 2, Some 3, Some 8, Some 4, Some 6, Some 2, Some 4, Some 3, Some (1 / 2)] \<and>
        rws Y ! 1 ! 7 = None \<and> rws Y ! 1 ! 8 = None \<and> rws Y ! 1 ! 9 = None)"
proof -
  let ?X = "\<lparr>ncols = 7, rws = [[Some 1, Some 2, Some 3, Some 8, Some 4, Some 6, Some 2], [Some 0, Some 0, Some 0, Some 0, Some 1, Some 9, Some (0 :: real)]]\<rparr>"
  let ?fg = "\<lparr>columns = None, add_bedrooms_per_room = True, total_rooms_ix = 3, population_ix = 5, households_ix = 6, total_bedrooms_ix = 4\<rparr>"
  let ?dv = "(\<lambda>a b. case (a, b) of (Some x, Some y) \<Rightarrow> if y = 0 then None else Some (x / y) | _ \<Rightarrow> None) :: real option \<Rightarrow> real option \<Rightarrow> real option"
  have wf: "wf_ndarray ?X" by (simp add: wf_ndarray_def)
  have tr: "normalize_index (ncols ?X) (total_rooms_ix ?fg) = Inr 3"
    by (simp add: normalize_index_def)
  have pop: "normalize_index (ncols ?X) (population_ix ?fg) = Inr 5"
    by (simp add: normalize_index_def)
  have hh: "normalize_index (ncols ?X) (households_ix ?fg) = Inr 6"
    by (simp add: normalize_index_def)
  have tb: "normalize_index (ncols ?X) (total_bedrooms_ix ?fg) = Inr 4"
    by (simp add: normalize_index_def)
  have ieee: "\<forall>x z. z = Some 0 \<longrightarrow> ?dv x z = None"
    by (simp split: option.splits)
  from transform_zero_denominator [OF wf tr pop hh tb ieee]
  obtain Y where Y: "transform ?dv ?fg ?X = Inr Y" "length (rws Y) = length (rws ?X)"
    and rows: "\<forall>i < length (rws ?X). rws Y ! i =
           rws ?X ! i @ [?dv (rws ?X ! i ! 3) (rws ?X ! i ! 6), ?dv (rws ?X ! i ! 5) (rws ?X ! i ! 6)]
             @ (if add_bedrooms_per_room ?fg then [?dv (rws ?X ! i ! 4) (rws ?X ! i ! 3)] else [])"
    and hh0: "\<forall>i < length (rws ?X). rws ?X ! i ! 6 = Some 0 \<longrightarrow>
         rws Y ! i ! ncols ?X = None \<and> rws Y ! i ! (ncols ?X + 1) = None"
    and tr0: "\<forall>i < length (rws ?X). add_bedrooms_per_room ?fg \<and> rws ?X ! i ! 3 = Some 0 \<longrightarrow>
         rws Y ! i ! (ncols ?X + 2) = None"
    by blast
  from rows [THEN spec [where x = 0]]
  have r0: "rws Y ! 0 = [Some 1, Some 2, Some 3, Some 8, Some 4, Some 6, Some 2, Some 4, Some 3, Some (1 / 2)]"
    by simp
  from hh0 [THEN spec [where x = 1]] have r1: "rws Y ! 1 ! 7 = None \<and> rws Y ! 1 ! 8 = None"
    by simp
  from tr0 [THEN spec [where x = 1]] have r2: "rws Y ! 1 ! 9 = None"
    by simp
  from Y wf r0 r1 r2 show ?thesis by simp
qed

text \<open>C7 at a store holding one array.\<close>
theorem transform_store_frame_witness:
  "(0::nat) < length [\<lparr>ncols = 7, rws = [[1, 2, 3, 8, 4, 6, 2 :: real], [0, 0, 0, 5, 1, 9, 3]]\<rparr>] \<and> wf_ndarray ([\<lparr>ncols = 7, rws = [[1, 2, 3, 8, 4, 6, 2 :: real], [0, 0, 0, 5, 1, 9, 3]]\<rparr>] ! 0) \<and>
   transform_store (/) \<lparr>columns = None, add_bedrooms_per_room = False, total_rooms_ix = 3, population_ix = 5, households_ix = - 1, total_bedrooms_ix = 4\<rparr> [\<lparr>ncols = 7, rws = [[1, 2, 3, 8, 4, 6, 2 :: real], [0, 0, 0, 5, 1, 9, 3]]\<rparr>] 0 = Inr ([\<lparr>ncols = 7, rws = [[1, 2, 3, 8, 4, 6, 2 :: real], [0, 0, 0, 5, 1, 9, 3]]\<rparr>, \<lparr>ncols = 9, rws = [[1, 2, 3, 8, 4, 6, 2, 4, 3 :: real], [0, 0, 0, 5, 1, 9, 3, 5 / 3, 3]]\<rparr>], 1) \<and>
   [\<lparr>ncols = 7, rws = [[1, 2, 3, 8, 4, 6, 2 :: real], [0, 0, 0, 5, 1, 9, 3]]\<rparr>, \<lparr>ncols = 9, rws = [[1, 2, 3, 8, 4, 6, 2, 4, 3 :: real], [0, 0, 0, 5, 1, 9, 3, 5 / 3, 3]]\<rparr>] ! 0 = [\<lparr>ncols = 7, rws = [[1, 2, 3, 8, 4, 6, 2 :: real], [0, 0, 0, 5, 1, 9, 3]]\<rparr>] ! 0 \<and>
   take 7 (rws ([\<lparr>ncols = 7, rws = [[1, 2, 3, 8, 4, 6, 2 :: real], [0, 0, 0, 5, 1, 9, 3]]\<rparr>, \<lparr>ncols = 9, rws = [[1, 2, 3, 8, 4, 6, 2, 4, 3 :: real], [0, 0, 0, 5, 1, 9, 3, 5 / 3, 3]]\<rparr>] ! 1) ! 1) = rws ([\<lparr>ncols = 7, rws = [[1, 2, 3, 8, 4, 6, 2 :: real], [0, 0, 0, 5, 1, 9, 3]]\<rparr>] ! 0) ! 1"
proof -
  let ?X = "\<lparr>ncols = 7, rws = [[1, 2, 3, 8, 4, 6, 2 :: real], [0, 0, 0, 5, 1, 9, 3]]\<rparr>"
  let ?fg2 = "\<lparr>columns = None, add_bedrooms_per_room = False, total_rooms_ix = 3, population_ix = 5, households_ix = - 1, total_bedrooms_ix = 4\<rparr>"
  let ?Y2 = "\<lparr>ncols = 9, rws = [[1, 2, 3, 8, 4, 6, 2, 4, 3 :: real], [0, 0, 0, 5, 1, 9, 3, 5 / 3, 3]]\<rparr>"
  have x: "(0::nat) < length [?X]" by simp
  have wf: "wf_ndarray ([?X] ! 0)" by (simp add: wf_ndarray_def)
  have ok: "transform_store (/) ?fg2 [?X] 0 = Inr ([?X, ?Y2], 1)"
    by (simp add: transform_store_def transform_eval)
  show ?thesis
    using x wf ok transform_store_frame [OF x wf ok] by simp
qed

section \<open>Properties of the file names\<close>

lemma str_replace_csv_suffix:
  "\<not> str_contains ''.csv'' stem \<Longrightarrow> str_replace ''.csv'' ''.npz'' (stem @ ''.csv'') = stem @ ''.npz''"
proof (induction stem)
  case Nil
  then show ?case by simp
next
  case (Cons c cs)
  from Cons.prems
  have "\<not> (take (length ''.csv'') (c # cs) = ''.csv'' \<or> str_contains ''.csv'' cs)"
    unfolding str_contains.simps .
  then have no: "take (length ''.csv'') (c # cs) \<noteq> ''.csv''"
    and rest: "\<not> str_contains ''.csv'' cs"
    by simp_all
  have key: "take (length ''.csv'') (c # (cs @ ''.csv'')) \<noteq> ''.csv''"
  proof (cases "3 \<le> length cs")
    case True
    then have "take (length ''.csv'') (c # (cs @ ''.csv'')) = take (length ''.csv'') (c # cs)"
      by simp
    with no show ?thesis by simp
  next
    case False
    then consider "cs = []" | a where "cs = [a]" | a b where "cs = [a, b]"
      by (cases cs; cases "tl cs"; cases "tl (tl cs)") auto
    then show ?thesis by cases auto
  qed
  have "str_replace ''.csv'' ''.npz'' (c # (cs @ ''.csv'')) =
          c # str_replace ''.csv'' ''.npz'' (cs @ ''.csv'')"
    using key by (simp only: str_replace.simps list.distinct if_False)
  with Cons.IH [OF rest] show ?case by simp
qed

lemma spec_replace_extension_csv:
  "spec_replace_extension (stem @ ''.csv'') ''.npz'' = stem @ ''.npz''"
  by (simp add: spec_replace_extension_def)

lemma str_replace_absent:
  "\<not> str_contains ''.csv'' s \<Longrightarrow> str_replace ''.csv'' ''.npz'' s = s"
proof (induction s)
  case Nil
  then show ?case by simp
next
  case (Cons c cs)
  from Cons.prems
  have "\<not> (take (length ''.csv'') (c # cs) = ''.csv'' \<or> str_contains ''.csv'' cs)"
    unfolding str_contains.simps .
  then have no: "take (length ''.csv'') (c # cs) \<noteq> ''.csv''"
    and rest: "\<not> str_contains ''.csv'' cs"
    by simp_all
  have "str_replace ''.csv'' ''.npz'' (c # cs) = c # str_replace ''.csv'' ''.npz'' cs"
    using no by (simp only: str_replace.simps list.distinct if_False)
  with Cons.IH [OF rest] show ?case by simp
qed

lemma npz_file_name_csv:
  assumes "basename p = stem @ ''.csv''" and "\<not> str_contains ''.csv'' stem"
  shows "npz_file_name p = stem @ ''.npz'' \<and>
         npz_file_name p = spec_replace_extension (basename p) ''.npz''"
  using assms by (simp add: npz_file_name_def str_replace_csv_suffix spec_replace_extension_csv)

section \<open>Properties of the combined transformer\<close>

lemma built_encoder:
  "get_data_transformer_object ex self = Inr ct \<Longrightarrow> cat_encoder ct = OneHotEncoder_init"
  by (auto simp: get_data_transformer_object_def reraise_Inr_iff bnd_Inr_iff Let_def)

lemma fitted_D:
  assumes "ColumnTransformer_fit_transform ex ct X = Inr (ft, A)"
  shows "estimator ft = ct \<and>
     (\<exists>Xct ist T1. df_select ex X (cat_columns ct) = Inr Xct \<and>
        cat_imputer_fit_transform ex (cat_imputer ct) Xct = Inr (ist, T1) \<and>
        cat_imputer_state ft = ist \<and> categories ft = OneHotEncoder_fit T1)"
  using assms
  by (auto simp: ColumnTransformer_fit_transform_def cat_pipeline_fit_transform_def
      bnd_Inr_iff Let_def split: prod.splits)

lemma OneHotEncoder_fit_nth:
  "j < ncols T \<Longrightarrow> set (OneHotEncoder_fit T ! j) = set (map (\<lambda>t. t ! j) (rws T))"
  by (simp add: OneHotEncoder_fit_def)

lemma length_OneHotEncoder_fit [simp]: "length (OneHotEncoder_fit T) = ncols T"
  by (simp add: OneHotEncoder_fit_def)

lemma has_unknown_iff:
  "has_unknown (OneHotEncoder_fit T) X \<longleftrightarrow>
     (\<exists>r \<in> set (rws X). \<exists>j < ncols T. j < length r \<and> r ! j \<notin> set (map (\<lambda>t. t ! j) (rws T)))"
proof -
  have "list_ex (\<lambda>(c, v). v \<notin> set c) (zip (OneHotEncoder_fit T) r) \<longleftrightarrow>
          (\<exists>j < ncols T. j < length r \<and> r ! j \<notin> set (map (\<lambda>t. t ! j) (rws T)))" for r
  proof
    assume "list_ex (\<lambda>(c, v). v \<notin> set c) (zip (OneHotEncoder_fit T) r)"
    then obtain c v where cv: "(c, v) \<in> set (zip (OneHotEncoder_fit T) r)" and v: "v \<notin> set c"
      by (auto simp: list_ex_iff)
    from cv obtain j where j: "j < ncols T" "j < length r" "c = OneHotEncoder_fit T ! j" "v = r ! j"
      by (auto simp: in_set_zip)
    with v have "r ! j \<notin> set (map (\<lambda>t. t ! j) (rws T))"
      using OneHotEncoder_fit_nth [of j T] by simp
    with j show "\<exists>j < ncols T. j < length r \<and> r ! j \<notin> set (map (\<lambda>t. t ! j) (rws T))"
      by blast
  next
    assume "\<exists>j < ncols T. j < length r \<and> r ! j \<notin> set (map (\<lambda>t. t ! j) (rws T))"
    then obtain j where j: "j < ncols T" "j < length r"
      and v: "r ! j \<notin> set (map (\<lambda>t. t ! j) (rws T))"
      by blast
    from j have "(OneHotEncoder_fit T ! j, r ! j) \<in> set (zip (OneHotEncoder_fit T) r)"
      by (auto simp: in_set_zip)
    moreover from v j have "r ! j \<notin> set (OneHotEncoder_fit T ! j)"
      using OneHotEncoder_fit_nth [of j T] by simp
    ultimately show "list_ex (\<lambda>(c, v). v \<notin> set c) (zip (OneHotEncoder_fit T) r)"
      by (auto simp: list_ex_iff)
  qed
  then show ?thesis
    by (simp add: has_unknown_def list_ex_iff)
qed

section \<open>Properties of DataTransformation\<close>

lemma io_bind_pure_Inr [simp]: "io_bind (io_pure (Inr v)) f out = f v out"
  by (simp add: io_bind_def io_pure_def)

lemma io_bind_pure_Inl [simp]: "io_bind (io_pure (Inl e)) f out = (Inl e, out)"
  by (simp add: io_bind_def io_pure_def)

lemma io_bind_Inr_iff:
  "io_bind m f out = (Inr y, out') \<longleftrightarrow> (\<exists>v out1. m out = (Inr v, out1) \<and> f v out1 = (Inr y, out'))"
  by (auto simp: io_bind_def split: prod.splits sum.splits)

lemma io_pure_eq: "io_pure r out = (r', out') \<longleftrightarrow> r = r' \<and> out = out'"
  by (auto simp: io_pure_def)

lemma io_save_Inr_iff:
  "io_save w r out = (Inr u, out') \<longleftrightarrow> r = Inr () \<and> out' = out @ [w]"
  by (auto simp: io_save_def split: sum.splits)

lemma io_reraise_Inr_iff:
  "io_reraise m out = (Inr y, out') \<longleftrightarrow> m out = (Inr y, out')"
  by (auto simp: io_reraise_def reraise_def split: prod.splits sum.splits)

lemma io_reraise_Inl:
  "io_reraise m out = (Inl e, out') \<longleftrightarrow> (\<exists>c. m out = (Inl c, out') \<and> e = HousingException c)"
  by (auto simp: io_reraise_def reraise_def split: prod.splits sum.splits)

lemma initiate_Inr_D:
  assumes "initiate_data_tranformation ex self out = (Inr art, out')"
  shows "\<exists>ct train_df test_df sch target Xtr ytr Xte yte ft A B train_arr test_arr.
     get_data_transformer_object ex self = Inr ct \<and>
     load_data ex (train_file_path (data_ingestion_artifact self))
        (schema_file_path (data_validation_artifact self)) = Inr train_df \<and>
     load_data ex (test_file_path (data_ingestion_artifact self))
        (schema_file_path (data_validation_artifact self)) = Inr test_df \<and>
     read_yaml_file ex (schema_file_path (data_validation_artifact self)) = Inr sch \<and>
     dict_getitem (target_column sch) = Inr target \<and>
     df_drop ex train_df target = Inr Xtr \<and> df_getitem ex train_df target = Inr ytr \<and>
     df_drop ex test_df target = Inr Xte \<and> df_getitem ex test_df target = Inr yte \<and>
     ColumnTransformer_fit_transform ex ct Xtr = Inr (ft, A) \<and>
     ColumnTransformer_transform ex ft Xte = Inr B \<and>
     np_c A [ytr] = Inr train_arr \<and> np_c B [yte] = Inr test_arr \<and>
     save_numpy_array_data ex (os_path_join (transformed_train_dir (data_transformation_config self))
        (npz_file_name (train_file_path (data_ingestion_artifact self)))) train_arr = Inr () \<and>
     save_numpy_array_data ex (os_path_join (transformed_test_dir (data_transformation_config self))
        (npz_file_name (test_file_path (data_ingestion_artifact self)))) test_arr = Inr () \<and>
     save_object ex (preprocessed_object_file_path (data_transformation_config self)) ft = Inr () \<and>
     out' = out @
       [SavedArray (os_path_join (transformed_train_dir (data_transformation_config self))
          (npz_file_name (train_file_path (data_ingestion_artifact self)))) train_arr,
        SavedArray (os_path_join (transformed_test_dir (data_transformation_config self))
          (npz_file_name (test_file_path (data_ingestion_artifact self)))) test_arr,
        SavedObject (preprocessed_object_file_path (data_transformation_config self)) ft] \<and>
     art = \<lparr>transformed_train_file_path =
              os_path_join (transformed_train_dir (data_transformation_config self))
                (npz_file_name (train_file_path (data_ingestion_artifact self))),
            transformed_test_file_path =
              os_path_join (transformed_test_dir (data_transformation_config self))
                (npz_file_name (test_file_path (data_ingestion_artifact self))),
            preprocessing_object_file_path =
              preprocessed_object_file_path (data_transformation_config self),
            is_transformed = True,
            message = ''Data transformation completed''\<rparr>"
  using assms
  unfolding initiate_data_tranformation_def initiate_body_def io_reraise_Inr_iff Let_def
  by (auto simp: io_bind_Inr_iff io_pure_eq io_save_Inr_iff)


lemma get_data_transformer_object_load_data [simp]:
  "get_data_transformer_object (ex\<lparr>load_data := ld\<rparr>) self = get_data_transformer_object ex self"
  by (simp add: get_data_transformer_object_def)

lemma fit_transform_load_data [simp]:
  "ColumnTransformer_fit_transform (ex\<lparr>load_data := ld\<rparr>) ct X =
     ColumnTransformer_fit_transform ex ct X"
  by (simp add: ColumnTransformer_fit_transform_def num_pipeline_fit_transform_def
      cat_pipeline_fit_transform_def)

subsection \<open>Where a run can fail\<close>

lemma initiate_fails_transformer:
  "\<forall>cause.
        get_data_transformer_object ex self = Inl cause \<longrightarrow>
      initiate_data_tranformation ex self out =
        (Inl (HousingException cause), out)"
  by (intro allI impI) (simp add: initiate_data_tranformation_def initiate_body_def io_reraise_def io_bind_def io_pure_def io_save_def Let_def)

lemma initiate_fails_load_train:
  "\<forall>ct cause.
        get_data_transformer_object ex self = Inr ct \<and>
        load_data ex (train_file_path (data_ingestion_artifact self)) (schema_file_path (data_validation_artifact self)) = Inl cause \<longrightarrow>
      initiate_data_tranformation ex self out =
        (Inl (HousingException cause), out)"
  by (intro allI impI) (simp add: initiate_data_tranformation_def initiate_body_def io_reraise_def io_bind_def io_pure_def io_save_def Let_def)

lemma initiate_fails_load_test:
  "\<forall>ct train_df cause.
        get_data_transformer_object ex self = Inr ct \<and>
        load_data ex (train_file_path (data_ingestion_artifact self)) (schema_file_path (data_validation_artifact self)) = Inr train_df \<and>
        load_data ex (test_file_path (data_ingestion_artifact self)) (schema_file_path (data_validation_artifact self)) = Inl cause \<longrightarrow>
      initiate_data_tranformation ex self out =
        (Inl (HousingException cause), out)"
  by (intro allI impI) (simp add: initiate_data_tranformation_def initiate_body_def io_reraise_def io_bind_def io_pure_def io_save_def Let_def)

lemma initiate_fails_target:
  "\<forall>ct train_df test_df sch cause.
        get_data_transformer_object ex self = Inr ct \<and>
        load_data ex (train_file_path (data_ingestion_artifact self)) (schema_file_path (data_validation_artifact self)) = Inr train_df \<and>
        load_data ex (test_file_path (data_ingestion_artifact self)) (schema_file_path (data_validation_artifact self)) = Inr test_df \<and>
        read_yaml_file ex (schema_file_path (data_validation_artifact self)) = Inr sch \<and>
        dict_getitem (target_column sch) = Inl cause \<longrightarrow>
      initiate_data_tranformation ex self out =
        (Inl (HousingException cause), out)"
  by (intro allI impI) (simp add: initiate_data_tranformation_def initiate_body_def io_reraise_def io_bind_def io_pure_def io_save_def Let_def)

lemma initiate_fails_drop_train:
  "\<forall>ct train_df test_df sch target cause.
        get_data_transformer_object ex self = Inr ct \<and>
        load_data ex (train_file_path (data_ingestion_artifact self)) (schema_file_path (data_validation_artifact self)) = Inr train_df \<and>
        load_data ex (test_file_path (data_ingestion_artifact self)) (schema_file_path (data_validation_artifact self)) = Inr test_df \<and>
        read_yaml_file ex (schema_file_path (data_validation_artifact self)) = Inr sch \<and>
        dict_getitem (target_column sch) = Inr target \<and>
        df_drop ex train_df target = Inl cause \<longrightarrow>
      initiate_data_tranformation ex self out =
        (Inl (HousingException cause), out)"
  by (intro allI impI) (simp add: initiate_data_tranformation_def initiate_body_def io_reraise_def io_bind_def io_pure_def io_save_def Let_def)

lemma initiate_fails_getitem_train:
  "\<forall>ct train_df test_df sch target Xtr cause.
        get_data_transformer_object ex self = Inr ct \<and>
        load_data ex (train_file_path (data_ingestion_artifact self)) (schema_file_path (data_validation_artifact self)) = Inr train_df \<and>
        load_data ex (test_file_path (data_ingestion_artifact self)) (schema_file_path (data_validation_artifact self)) = Inr test_df \<and>
        read_yaml_file ex (schema_file_path (data_validation_artifact self)) = Inr sch \<and>
        dict_getitem (target_column sch) = Inr target \<and>
        df_drop ex train_df target = Inr Xtr \<and>
        df_getitem ex train_df target = Inl cause \<longrightarrow>
      initiate_data_tranformation ex self out =
        (Inl (HousingException cause), out)"
  by (intro allI impI) (simp add: initiate_data_tranformation_def initiate_body_def io_reraise_def io_bind_def io_pure_def io_save_def Let_def)

lemma initiate_fails_drop_test:
  "\<forall>ct train_df test_df sch target Xtr ytr cause.
        get_data_transformer_object ex self = Inr ct \<and>
        load_data ex (train_file_path (data_ingestion_artifact self)) (schema_file_path (data_validation_artifact self)) = Inr train_df \<and>
        load_data ex (test_file_path (data_ingestion_artifact self)) (schema_file_path (data_validation_artifact self)) = Inr test_df \<and>
        read_yaml_file ex (schema_file_path (data_validation_artifact self)) = Inr sch \<and>
        dict_getitem (target_column sch) = Inr target \<and>
        df_drop ex train_df target = Inr Xtr \<and>
        df_getitem ex train_df target = Inr ytr \<and>
        df_drop ex test_df target = Inl cause \<longrightarrow>
      initiate_data_tranformation ex self out =
        (Inl (HousingException cause), out)"
  by (intro allI impI) (simp add: initiate_data_tranformation_def initiate_body_def io_reraise_def io_bind_def io_pure_def io_save_def Let_def)

lemma initiate_fails_getitem_test:
  "\<forall>ct train_df test_df sch target Xtr ytr Xte cause.
        get_data_transformer_object ex self = Inr ct \<and>
        load_data ex (train_file_path (data_ingestion_artifact self)) (schema_file_path (data_validation_artifact self)) = Inr train_df \<and>
        load_data ex (test_file_path (data_ingestion_artifact self)) (schema_file_path (data_validation_artifact self)) = Inr test_df \<and>
        read_yaml_file ex (schema_file_path (data_validation_artifact self)) = Inr sch \<and>
        dict_getitem (target_column sch) = Inr target \<and>
        df_drop ex train_df target = Inr Xtr \<and>
        df_getitem ex train_df target = Inr ytr \<and>
        df_drop ex test_df target = Inr Xte \<and>
        df_getitem ex test_df target = Inl cause \<longrightarrow>
      initiate_data_tranformation ex self out =
        (Inl (HousingException cause), out)"
  by (intro allI impI) (simp add: initiate_data_tranformation_def initiate_body_def io_reraise_def io_bind_def io_pure_def io_save_def Let_def)

lemma initiate_fails_fit:
  "\<forall>ct train_df test_df sch target Xtr ytr Xte yte cause.
        get_data_transformer_object ex self = Inr ct \<and>
        load_data ex (train_file_path (data_ingestion_artifact self)) (schema_file_path (data_validation_artifact self)) = Inr train_df \<and>
        load_data ex (test_file_path (data_ingestion_artifact self)) (schema_file_path (data_validation_artifact self)) = Inr test_df \<and>
        read_yaml_file ex (schema_file_path (data_validation_artifact self)) = Inr sch \<and>
        dict_getitem (target_column sch) = Inr target \<and>
        df_drop ex train_df target = Inr Xtr \<and>
        df_getitem ex train_df target = Inr ytr \<and>
        df_drop ex test_df target = Inr Xte \<and>
        df_getitem ex test_df target = Inr yte \<and>
        ColumnTransformer_fit_transform ex ct Xtr = Inl cause \<longrightarrow>
      initiate_data_tranformation ex self out =
        (Inl (HousingException cause), out)"
  by (intro allI impI) (simp add: initiate_data_tranformation_def initiate_body_def io_reraise_def io_bind_def io_pure_def io_save_def Let_def)

lemma initiate_fails_transform:
  "\<forall>ct train_df test_df sch target Xtr ytr Xte yte ft A cause.
        get_data_transformer_object ex self = Inr ct \<and>
        load_data ex (train_file_path (data_ingestion_artifact self)) (schema_file_path (data_validation_artifact self)) = Inr train_df \<and>
        load_data ex (test_file_path (data_ingestion_artifact self)) (schema_file_path (data_validation_artifact self)) = Inr test_df \<and>
        read_yaml_file ex (schema_file_path (data_validation_artifact self)) = Inr sch \<and>
        dict_getitem (target_column sch) = Inr target \<and>
        df_drop ex train_df target = Inr Xtr \<and>
        df_getitem ex train_df target = Inr ytr \<and>
        df_drop ex test_df target = Inr Xte \<and>
        df_getitem ex test_df target = Inr yte \<and>
        ColumnTransformer_fit_transform ex ct Xtr = Inr (ft, A) \<and>
        ColumnTransformer_transform ex ft Xte = Inl cause \<longrightarrow>
      initiate_data_tranformation ex self out =
        (Inl (HousingException cause), out)"
  by (intro allI impI) (simp add: initiate_data_tranformation_def initiate_body_def io_reraise_def io_bind_def io_pure_def io_save_def Let_def)

lemma initiate_fails_c_train:
  "\<forall>ct train_df test_df sch target Xtr ytr Xte yte ft A B cause.
        get_data_transformer_object ex self = Inr ct \<and>
        load_data ex (train_file_path (data_ingestion_artifact self)) (schema_file_path (data_validation_artifact self)) = Inr train_df \<and>
        load_data ex (test_file_path (data_ingestion_artifact self)) (schema_file_path (data_validation_artifact self)) = Inr test_df \<and>
        read_yaml_file ex (schema_file_path (data_validation_artifact self)) = Inr sch \<and>
        dict_getitem (target_column sch) = Inr target \<and>
        df_drop ex train_df target = Inr Xtr \<and>
        df_getitem ex train_df target = Inr ytr \<and>
        df_drop ex test_df target = Inr Xte \<and>
        df_getitem ex test_df target = Inr yte \<and>
        ColumnTransformer_fit_transform ex ct Xtr = Inr (ft, A) \<and>
        ColumnTransformer_transform ex ft Xte = Inr B \<and>
        np_c A [ytr] = Inl cause \<longrightarrow>
      initiate_data_tranformation ex self out =
        (Inl (HousingException cause), out)"
  by (intro allI impI) (simp add: initiate_data_tranformation_def initiate_body_def io_reraise_def io_bind_def io_pure_def io_save_def Let_def)

lemma initiate_fails_c_test:
  "\<forall>ct train_df test_df sch target Xtr ytr Xte yte ft A B train_arr cause.
        get_data_transformer_object ex self = Inr ct \<and>
        load_data ex (train_file_path (data_ingestion_artifact self)) (schema_file_path (data_validation_artifact self)) = Inr train_df \<and>
        load_data ex (test_file_path (data_ingestion_artifact self)) (schema_file_path (data_validation_artifact self)) = Inr test_df \<and>
        read_yaml_file ex (schema_file_path (data_validation_artifact self)) = Inr sch \<and>
        dict_getitem (target_column sch) = Inr target \<and>
        df_drop ex train_df target = Inr Xtr \<and>
        df_getitem ex train_df target = Inr ytr \<and>
        df_drop ex test_df target = Inr Xte \<and>
        df_getitem ex test_df target = Inr yte \<and>
        ColumnTransformer_fit_transform ex ct Xtr = Inr (ft, A) \<and>
        ColumnTransformer_transform ex ft Xte = Inr B \<and>
        np_c A [ytr] = Inr train_arr \<and>
        np_c B [yte] = Inl cause \<longrightarrow>
      initiate_data_tranformation ex self out =
        (Inl (HousingException cause), out)"
  by (intro allI impI) (simp add: initiate_data_tranformation_def initiate_body_def io_reraise_def io_bind_def io_pure_def io_save_def Let_def)

lemma initiate_fails_save_train:
  "\<forall>ct train_df test_df sch target Xtr ytr Xte yte ft A B train_arr test_arr cause.
        get_data_transformer_object ex self = Inr ct \<and>
        load_data ex (train_file_path (data_ingestion_artifact self)) (schema_file_path (data_validation_artifact self)) = Inr train_df \<and>
        load_data ex (test_file_path (data_ingestion_artifact self)) (schema_file_path (data_validation_artifact self)) = Inr test_df \<and>
        read_yaml_file ex (schema_file_path (data_validation_artifact self)) = Inr sch \<and>
        dict_getitem (target_column sch) = Inr target \<and>
        df_drop ex train_df target = Inr Xtr \<and>
        df_getitem ex train_df target = Inr ytr \<and>
        df_drop ex test_df target = Inr Xte \<and>
        df_getitem ex test_df target = Inr yte \<and>
        ColumnTransformer_fit_transform ex ct Xtr = Inr (ft, A) \<and>
        ColumnTransformer_transform ex ft Xte = Inr B \<and>
        np_c A [ytr] = Inr train_arr \<and>
        np_c B [yte] = Inr test_arr \<and>
        save_numpy_array_data ex (os_path_join (transformed_train_dir (data_transformation_config self)) (npz_file_name (train_file_path (data_ingestion_artifact self)))) train_arr = Inl cause \<longrightarrow>
      initiate_data_tranformation ex self out =
        (Inl (HousingException cause), out)"
  by (intro allI impI) (simp add: initiate_data_tranformation_def initiate_body_def io_reraise_def io_bind_def io_pure_def io_save_def Let_def)

lemma initiate_fails_save_test:
  "\<forall>ct train_df test_df sch target Xtr ytr Xte yte ft A B train_arr test_arr cause.
        get_data_transformer_object ex self = Inr ct \<and>
        load_data ex (train_file_path (data_ingestion_artifact self)) (schema_file_path (data_validation_artifact self)) = Inr train_df \<and>
        load_data ex (test_file_path (data_ingestion_artifact self)) (schema_file_path (data_validation_artifact self)) = Inr test_df \<and>
        read_yaml_file ex (schema_file_path (data_validation_artifact self)) = Inr sch \<and>
        dict_getitem (target_column sch) = Inr target \<and>
        df_drop ex train_df target = Inr Xtr \<and>
        df_getitem ex train_df target = Inr ytr \<and>
        df_drop ex test_df target = Inr Xte \<and>
        df_getitem ex test_df target = Inr yte \<and>
        ColumnTransformer_fit_transform ex ct Xtr = Inr (ft, A) \<and>
        ColumnTransformer_transform ex ft Xte = Inr B \<and>
        np_c A [ytr] = Inr train_arr \<and>
        np_c B [yte] = Inr test_arr \<and>
        save_numpy_array_data ex (os_path_join (transformed_train_dir (data_transformation_config self)) (npz_file_name (train_file_path (data_ingestion_artifact self)))) train_arr = Inr () \<and>
        save_numpy_array_data ex (os_path_join (transformed_test_dir (data_transformation_config self)) (npz_file_name (test_file_path (data_ingestion_artifact self)))) test_arr = Inl cause \<longrightarrow>
      initiate_data_tranformation ex self out =
        (Inl (HousingException cause), out @ [SavedArray (os_path_join (transformed_train_dir (data_transformation_config self)) (npz_file_name (train_file_path (data_ingestion_artifact self)))) train_arr])"
  by (intro allI impI) (simp add: initiate_data_tranformation_def initiate_body_def io_reraise_def io_bind_def io_pure_def io_save_def Let_def)

lemma initiate_fails_save_object:
  "\<forall>ct train_df test_df sch target Xtr ytr Xte yte ft A B train_arr test_arr cause.
        get_data_transformer_object ex self = Inr ct \<and>
        load_data ex (train_file_path (data_ingestion_artifact self)) (schema_file_path (data_validation_artifact self)) = Inr train_df \<and>
        load_data ex (test_file_path (data_ingestion_artifact self)) (schema_file_path (data_validation_artifact self)) = Inr test_df \<and>
        read_yaml_file ex (schema_file_path (data_validation_artifact self)) = Inr sch \<and>
        dict_getitem (target_column sch) = Inr target \<and>
        df_drop ex train_df target = Inr Xtr \<and>
        df_getitem ex train_df target = Inr ytr \<and>
        df_drop ex test_df target = Inr Xte \<and>
        df_getitem ex test_df target = Inr yte \<and>
        ColumnTransformer_fit_transform ex ct Xtr = Inr (ft, A) \<and>
        ColumnTransformer_transform ex ft Xte = Inr B \<and>
        np_c A [ytr] = Inr train_arr \<and>
        np_c B [yte] = Inr test_arr \<and>
        save_numpy_array_data ex (os_path_join (transformed_train_dir (data_transformation_config self)) (npz_file_name (train_file_path (data_ingestion_artifact self)))) train_arr = Inr () \<and>
        save_numpy_array_data ex (os_path_join (transformed_test_dir (data_transformation_config self)) (npz_file_name (test_file_path (data_ingestion_artifact self)))) test_arr = Inr () \<and>
        save_object ex (preprocessed_object_file_path (data_transformation_config self)) ft = Inl cause \<longrightarrow>
      initiate_data_tranformation ex self out =
        (Inl (HousingException cause), out @ [SavedArray (os_path_join (transformed_train_dir (data_transformation_config self)) (npz_file_name (train_file_path (data_ingestion_artifact self)))) train_arr, SavedArray (os_path_join (transformed_test_dir (data_transformation_config self)) (npz_file_name (test_file_path (data_ingestion_artifact self)))) test_arr])"
  by (intro allI impI) (simp add: initiate_data_tranformation_def initiate_body_def io_reraise_def io_bind_def io_pure_def io_save_def Let_def)

lemma failure_get_numerical_key:
  "\<forall>sch. read_yaml_file ex (schema_file_path (data_validation_artifact self)) = Inr sch \<and> numerical_columns sch = None \<longrightarrow>
      get_data_transformer_object ex self = Inl (HousingException KeyError)"
  by (intro allI impI) (simp add: get_data_transformer_object_def dict_getitem_def)

lemma failure_get_categorical_key:
  "\<forall>sch num. read_yaml_file ex (schema_file_path (data_validation_artifact self)) = Inr sch \<and>
        numerical_columns sch = Some num \<and> categorical_columns sch = None \<longrightarrow>
      get_data_transformer_object ex self = Inl (HousingException KeyError)"
  by (intro allI impI) (simp add: get_data_transformer_object_def dict_getitem_def)

lemma failure_get_generator:
  "\<forall>sch num cat cause. read_yaml_file ex (schema_file_path (data_validation_artifact self)) = Inr sch \<and>
        numerical_columns sch = Some num \<and> categorical_columns sch = Some cat \<and>
        FeatureGenerator_init True 3 5 6 4 (Some num) = Inl cause \<longrightarrow>
      get_data_transformer_object ex self = Inl (HousingException cause)"
  by (intro allI impI) (simp add: get_data_transformer_object_def dict_getitem_def)

lemma failure_get_no_swallow:
  "\<forall>ct. get_data_transformer_object ex self = Inr ct \<longrightarrow>
      (\<exists>sch num cat generator. read_yaml_file ex (schema_file_path (data_validation_artifact self)) = Inr sch \<and>
        numerical_columns sch = Some num \<and> categorical_columns sch = Some cat \<and>
        FeatureGenerator_init True 3 5 6 4 (Some num) = Inr generator \<and>
        ct = \<lparr>num_imputer = \<lparr>strategy = ''median''\<rparr>, num_generator = generator, num_scaler = \<lparr>with_mean = True\<rparr>, num_columns = num, cat_imputer = \<lparr>strategy = ''most_frequent''\<rparr>, cat_encoder = OneHotEncoder_init, cat_scaler = \<lparr>with_mean = False\<rparr>, cat_columns = cat\<rparr>)"
  by (intro allI impI)
    (auto simp: get_data_transformer_object_def dict_getitem_def reraise_Inr_iff bnd_Inr_iff Let_def
       split: option.splits)

lemma failure_init_missing:
  "\<forall>cs. \<not> set required_columns \<subseteq> set cs \<longrightarrow>
      FeatureGenerator_init abr a b c d (Some cs) = Inl (HousingException ValueError)"
  by (simp add: init_Some_eq)

lemma failure_init_no_swallow:
  "\<forall>cs generator. FeatureGenerator_init abr a b c d (Some cs) = Inr generator \<longrightarrow>
      set required_columns \<subseteq> set cs"
  by (simp add: init_Some_eq split: if_splits)

lemma failure_init_none:
  "\<exists>generator. FeatureGenerator_init abr a b c d None = Inr generator"
  by (simp add: FeatureGenerator_init_def)

lemma failure_transform_no_swallow:
  "\<forall>Y. transform dv fg X = Inr Y \<longrightarrow>
      ((\<exists>tr. normalize_index (ncols X) (total_rooms_ix fg) = Inr tr) \<and>
        (\<exists>pop. normalize_index (ncols X) (population_ix fg) = Inr pop) \<and>
        (\<exists>hh. normalize_index (ncols X) (households_ix fg) = Inr hh) \<and>
        (add_bedrooms_per_room fg \<longrightarrow>
           (\<exists>tb. normalize_index (ncols X) (total_bedrooms_ix fg) = Inr tb)))"
  using transform_Inr_indices [of dv fg X] by blast

lemma failure_pipe_fit_generator:
  fixes ex :: "('a::zero_neq_one, 'df, 'p) externals"
  shows "\<forall>Xn ist X1 cause. num_imputer_fit_transform ex (num_imputer ct0) Xn = Inr (ist, X1) \<and>
        transform (divide ex) (num_generator ct0) X1 = Inl cause \<longrightarrow>
      num_pipeline_fit_transform ex ct0 Xn = Inl cause"
  by (intro allI impI) (simp add: num_pipeline_fit_transform_def fit_def)

lemma failure_ct_fit_num:
  fixes ex :: "('a::zero_neq_one, 'df, 'p) externals"
  shows "\<forall>Xd Xn cause. df_select ex Xd (num_columns ct0) = Inr Xn \<and>
        num_pipeline_fit_transform ex ct0 Xn = Inl cause \<longrightarrow>
      ColumnTransformer_fit_transform ex ct0 Xd = Inl cause"
  by (intro allI impI) (simp add: ColumnTransformer_fit_transform_def)

lemma failure_pipe_transform_generator:
  fixes ex :: "('a::zero_neq_one, 'df, 'p) externals"
  shows "\<forall>Xn X1 cause.
        num_imputer_transform ex (num_imputer (estimator ft0)) (num_imputer_state ft0) Xn = Inr X1 \<and>
        transform (divide ex) (num_generator (estimator ft0)) X1 = Inl cause \<longrightarrow>
      num_pipeline_transform ex ft0 Xn = Inl cause"
  by (intro allI impI) (simp add: num_pipeline_transform_def)

lemma failure_ct_transform_num:
  fixes ex :: "('a::zero_neq_one, 'df, 'p) externals"
  shows "\<forall>Xd Xn cause. df_select ex Xd (num_columns (estimator ft0)) = Inr Xn \<and>
        num_pipeline_transform ex ft0 Xn = Inl cause \<longrightarrow>
      ColumnTransformer_transform ex ft0 Xd = Inl cause"
  by (intro allI impI) (simp add: ColumnTransformer_transform_def)

lemmas run_eval =
  initiate_data_tranformation_def
  initiate_body_def
  io_reraise_def
  io_bind_def
  io_pure_def
  io_save_def
  get_data_transformer_object_def
  dict_getitem_def
  FeatureGenerator_init_def
  OneHotEncoder_init_def
  COLUMN_TOTAL_ROOMS_def
  COLUMN_POPULATION_def
  COLUMN_HOUSEHOLDS_def
  COLUMN_TOTAL_BEDROOM_def
  ColumnTransformer_fit_transform_def
  ColumnTransformer_transform_def
  num_pipeline_fit_transform_def
  num_pipeline_transform_def
  cat_pipeline_fit_transform_def
  cat_pipeline_transform_def
  OneHotEncoder_fit_def
  OneHotEncoder_transform_def
  has_unknown_def
  encode_row_def
  np_hstack_def
  fit_def
  transform_eval
  npz_file_name_def
  basename_def
  os_path_join_def

text \<open>
  A run on concrete collaborators: tables without missing values, given by their
  numerical part, their categorical part and their target column, imputers that return
  these parts, scalers that return their input, and saving that succeeds.
\<close>
lemma run_example:
  "initiate_data_tranformation (\<lparr>read_yaml_file = (\<lambda>p. Inr \<lparr>numerical_columns = Some [''total_rooms'', ''total_bedrooms'', ''population'', ''households''], categorical_columns = Some [''ocean_proximity''], target_column = Some ''median_house_value''\<rparr>), load_data = (\<lambda>p s. if p = ''/data/train/housing.csv'' then Inr (\<lparr>ncols = 4, rws = [[8, 4, 6, 2], [5, 1, 9, 3]]\<rparr>, \<lparr>ncols = 1, rws = [[''INLAND''], [''NEAR BAY'']]\<rparr>, [100, 200]) else Inr (\<lparr>ncols = 4, rws = [[6, 3, 4, 2]]\<rparr>, \<lparr>ncols = 1, rws = [[''INLAND'']]\<rparr>, [150])), save_numpy_array_data = (\<lambda>p a. Inr ()), save_object = (\<lambda>p ob. Inr ()), df_drop = (\<lambda>df c. Inr df), df_getitem = (\<lambda>(n, c, t) name. Inr t), df_select = (\<lambda>df cols. Inr df), num_imputer_fit_transform = (\<lambda>s (n, c, t). Inr ((), n)), num_imputer_transform = (\<lambda>s st (n, c, t). Inr n), cat_imputer_fit_transform = (\<lambda>s (n, c, t). Inr ((), c)), cat_imputer_transform = (\<lambda>s st (n, c, t). Inr c), scaler_fit_transform = (\<lambda>s X. Inr ((), X)), scaler_transform = (\<lambda>s st X. Inr X), divide = (/)\<rparr> :: (real, real ndarray \<times> string ndarray \<times> real list, unit) externals) \<lparr>data_transformation_config = \<lparr>transformed_train_dir = ''/out/train'', transformed_test_dir = ''/out/test'', preprocessed_object_file_path = ''/out/preprocessed.pkl''\<rparr>, data_ingestion_artifact = \<lparr>train_file_path = ''/data/train/housing.csv'', test_file_path = ''/data/test/housing.csv''\<rparr>, data_validation_artifact = \<lparr>schema_file_path = ''/cfg/schema.yaml''\<rparr>\<rparr> [] = (Inr \<lparr>transformed_train_file_path = ''/out/train/housing.npz'', transformed_test_file_path = ''/out/test/housing.npz'', preprocessing_object_file_path = ''/out/preprocessed.pkl'', is_transformed = True, message = ''Data transformation completed''\<rparr>, [SavedArray ''/out/train/housing.npz'' \<lparr>ncols = 10, rws = [[8, 4, 6, 2, 4, 3, 1 / 2, 1, 0, 100], [5, 1, 9, 3, 5 / 3, 3, 1 / 5, 0, 1, 200]]\<rparr>, SavedArray ''/out/test/housing.npz'' \<lparr>ncols = 10, rws = [[6, 3, 4, 2, 3, 2, 1 / 2, 1, 0, 150]]\<rparr>, SavedObject ''/out/preprocessed.pkl'' \<lparr>estimator = \<lparr>num_imputer = \<lparr>strategy = ''median''\<rparr>, num_generator = \<lparr>columns = Some [''total_rooms'', ''total_bedrooms'', ''population'', ''households''], add_bedrooms_per_room = True, total_rooms_ix = 0, population_ix = 2, households_ix = 3, total_bedrooms_ix = 1\<rparr>, num_scaler = \<lparr>with_mean = True\<rparr>, num_columns = [''total_rooms'', ''total_bedrooms'', ''population'', ''households''], cat_imputer = \<lparr>strategy = ''most_frequent''\<rparr>, cat_encoder = \<lparr>handle_unknown = unknown_error\<rparr>, cat_scaler = \<lparr>with_mean = False\<rparr>, cat_columns = [''ocean_proximity'']\<rparr>, num_imputer_state = (), num_scaler_state = (), cat_imputer_state = (), categories = [[''INLAND'', ''NEAR BAY'']], cat_scaler_state = ()\<rparr>])"
  by (simp add: run_eval)

text \<open>
  Claim C8, as amended. When \<^verbatim>\<open>initiate_data_tranformation\<close> returns, each output path
  is the configured directory joined with the base name of the source path in which
  every occurrence of \<^verbatim>\<open>.csv\<close> has become \<^verbatim>\<open>.npz\<close>, and the arrays are written
  to these paths. For a base name \<open>stem @ ''.csv''\<close> whose \<open>stem\<close> does not contain
  \<^verbatim>\<open>.csv\<close> this is \<open>stem @ ''.npz''\<close>, the name with only its extension replaced; a
  base name that does not contain \<^verbatim>\<open>.csv\<close> is kept as it is.
\<close>
theorem initiate_file_names:
  assumes run: "initiate_data_tranformation ex self out = (Inr art, out')"
  shows "transformed_train_file_path art =
           os_path_join (transformed_train_dir (data_transformation_config self))
             (str_replace ''.csv'' ''.npz'' (basename (train_file_path (data_ingestion_artifact self)))) \<and>
         transformed_test_file_path art =
           os_path_join (transformed_test_dir (data_transformation_config self))
             (str_replace ''.csv'' ''.npz'' (basename (test_file_path (data_ingestion_artifact self)))) \<and>
         (\<exists>train_arr test_arr ft.
            out' = out @ [SavedArray (transformed_train_file_path art) train_arr,
                          SavedArray (transformed_test_file_path art) test_arr,
                          SavedObject (preprocessing_object_file_path art) ft]) \<and>
         (\<forall>p stem. p \<in> {train_file_path (data_ingestion_artifact self),
                          test_file_path (data_ingestion_artifact self)} \<and>
                    basename p = stem @ ''.csv'' \<and> \<not> str_contains ''.csv'' stem \<longrightarrow>
              npz_file_name p = stem @ ''.npz'' \<and>
              npz_file_name p = spec_replace_extension (basename p) ''.npz'') \<and>
         (\<forall>p. \<not> str_contains ''.csv'' (basename p) \<longrightarrow> npz_file_name p = basename p)"
proof -
  from initiate_Inr_D [OF run] obtain train_arr test_arr ft where
    out': "out' = out @
       [SavedArray (os_path_join (transformed_train_dir (data_transformation_config self))
          (npz_file_name (train_file_path (data_ingestion_artifact self)))) train_arr,
        SavedArray (os_path_join (transformed_test_dir (data_transformation_config self))
          (npz_file_name (test_file_path (data_ingestion_artifact self)))) test_arr,
        SavedObject (preprocessed_object_file_path (data_transformation_config self)) ft]"
    and art: "art = \<lparr>transformed_train_file_path =
              os_path_join (transformed_train_dir (data_transformation_config self))
                (npz_file_name (train_file_path (data_ingestion_artifact self))),
            transformed_test_file_path =
              os_path_join (transformed_test_dir (data_transformation_config self))
                (npz_file_name (test_file_path (data_ingestion_artifact self))),
            preprocessing_object_file_path =
              preprocessed_object_file_path (data_transformation_config self),
            is_transformed = True,
            message = ''Data transformation completed''\<rparr>"
    by blast
  have c1: "transformed_train_file_path art =
           os_path_join (transformed_train_dir (data_transformation_config self))
             (str_replace ''.csv'' ''.npz'' (basename (train_file_path (data_ingestion_artifact self))))"
    by (simp add: art npz_file_name_def)
  have c2: "transformed_test_file_path art =
           os_path_join (transformed_test_dir (data_transformation_config self))
             (str_replace ''.csv'' ''.npz'' (basename (test_file_path (data_ingestion_artifact self))))"
    by (simp add: art npz_file_name_def)
  have c3: "\<exists>train_arr test_arr ft.
            out' = out @ [SavedArray (transformed_train_file_path art) train_arr,
                          SavedArray (transformed_test_file_path art) test_arr,
                          SavedObject (preprocessing_object_file_path art) ft]"
    by (simp add: art out')
  have c4: "\<forall>p stem. p \<in> {train_file_path (data_ingestion_artifact self),
                          test_file_path (data_ingestion_artifact self)} \<and>
                    basename p = stem @ ''.csv'' \<and> \<not> str_contains ''.csv'' stem \<longrightarrow>
              npz_file_name p = stem @ ''.npz'' \<and>
              npz_file_name p = spec_replace_extension (basename p) ''.npz''"
    using npz_file_name_csv by blast
  have c5: "\<forall>p. \<not> str_contains ''.csv'' (basename p) \<longrightarrow> npz_file_name p = basename p"
    by (simp add: npz_file_name_def str_replace_absent)
  from c1 c2 c3 c4 c5 show ?thesis by (intro conjI)
qed

text \<open>
  Claim C8 as stated fails: \<^verbatim>\<open>replace\<close> changes every occurrence of \<^verbatim>\<open>.csv\<close>, not
  only the extension, and a name with another extension keeps it.
\<close>
theorem npz_file_name_counterexample:
  "npz_file_name ''/data/housing.csv.old.csv'' = ''housing.npz.old.npz'' \<and>
   spec_replace_extension (basename ''/data/housing.csv.old.csv'') ''.npz'' = ''housing.csv.old.npz'' \<and>
   npz_file_name ''/data/housing.csv.old.csv'' \<noteq>
     spec_replace_extension (basename ''/data/housing.csv.old.csv'') ''.npz'' \<and>
   npz_file_name ''/data/housing.tsv'' = ''housing.tsv''"
  by (simp add: npz_file_name_def basename_def spec_replace_extension_def)

text \<open>C8 as amended at the run above: both files are named \<^verbatim>\<open>housing.npz\<close>.\<close>
theorem initiate_file_names_witness:
  "initiate_data_tranformation (\<lparr>read_yaml_file = (\<lambda>p. Inr \<lparr>numerical_columns = Some [''total_rooms'', ''total_bedrooms'', ''population'', ''households''], categorical_columns = Some [''ocean_proximity''], target_column = Some ''median_house_value''\<rparr>), load_data = (\<lambda>p s. if p = ''/data/train/housing.csv'' then Inr (\<lparr>ncols = 4, rws = [[8, 4, 6, 2], [5, 1, 9, 3]]\<rparr>, \<lparr>ncols = 1, rws = [[''INLAND''], [''NEAR BAY'']]\<rparr>, [100, 200]) else Inr (\<lparr>ncols = 4, rws = [[6, 3, 4, 2]]\<rparr>, \<lparr>ncols = 1, rws = [[''INLAND'']]\<rparr>, [150])), save_numpy_array_data = (\<lambda>p a. Inr ()), save_object = (\<lambda>p ob. Inr ()), df_drop = (\<lambda>df c. Inr df), df_getitem = (\<lambda>(n, c, t) name. Inr t), df_select = (\<lambda>df cols. Inr df), num_imputer_fit_transform = (\<lambda>s (n, c, t). Inr ((), n)), num_imputer_transform = (\<lambda>s st (n, c, t). Inr n), cat_imputer_fit_transform = (\<lambda>s (n, c, t). Inr ((), c)), cat_imputer_transform = (\<lambda>s st (n, c, t). Inr c), scaler_fit_transform = (\<lambda>s X. Inr ((), X)), scaler_transform = (\<lambda>s st X. Inr X), divide = (/)\<rparr> :: (real, real ndarray \<times> string ndarray \<times> real list, unit) externals) \<lparr>data_transformation_config = \<lparr>transformed_train_dir = ''/out/train'', transformed_test_dir = ''/out/test'', preprocessed_object_file_path = ''/out/preprocessed.pkl''\<rparr>, data_ingestion_artifact = \<lparr>train_file_path = ''/data/train/housing.csv'', test_file_path = ''/data/test/housing.csv''\<rparr>, data_validation_artifact = \<lparr>schema_file_path = ''/cfg/schema.yaml''\<rparr>\<rparr> [] = (Inr \<lparr>transformed_train_file_path = ''/out/train/housing.npz'', transformed_test_file_path = ''/out/test/housing.npz'', preprocessing_object_file_path = ''/out/preprocessed.pkl'', is_transformed = True, message = ''Data transformation completed''\<rparr>, [SavedArray ''/out/train/housing.npz'' \<lparr>ncols = 10, rws = [[8, 4, 6, 2, 4, 3, 1 / 2, 1, 0, 100], [5, 1, 9, 3, 5 / 3, 3, 1 / 5, 0, 1, 200]]\<rparr>, SavedArray ''/out/test/housing.npz'' \<lparr>ncols = 10, rws = [[6, 3, 4, 2, 3, 2, 1 / 2, 1, 0, 150]]\<rparr>, SavedObject ''/out/preprocessed.pkl'' \<lparr>estimator = \<lparr>num_imputer = \<lparr>strategy = ''median''\<rparr>, num_generator = \<lparr>columns = Some [''total_rooms'', ''total_bedrooms'', ''population'', ''households''], add_bedrooms_per_room = True, total_rooms_ix = 0, population_ix = 2, households_ix = 3, total_bedrooms_ix = 1\<rparr>, num_scaler = \<lparr>with_mean = True\<rparr>, num_columns = [''total_rooms'', ''total_bedrooms'', ''population'', ''households''], cat_imputer = \<lparr>strategy = ''most_frequent''\<rparr>, cat_encoder = \<lparr>handle_unknown = unknown_error\<rparr>, cat_scaler = \<lparr>with_mean = False\<rparr>, cat_columns = [''ocean_proximity'']\<rparr>, num_imputer_state = (), num_scaler_state = (), cat_imputer_state = (), categories = [[''INLAND'', ''NEAR BAY'']], cat_scaler_state = ()\<rparr>]) \<and>
   basename ''/data/train/housing.csv'' = ''housing'' @ ''.csv'' \<and>
   \<not> str_contains ''.csv'' ''housing'' \<and>
   transformed_train_file_path \<lparr>transformed_train_file_path = ''/out/train/housing.npz'', transformed_test_file_path = ''/out/test/housing.npz'', preprocessing_object_file_path = ''/out/preprocessed.pkl'', is_transformed = True, message = ''Data transformation completed''\<rparr> = os_path_join ''/out/train'' (''housing'' @ ''.npz'') \<and>
   npz_file_name ''/data/train/housing.csv'' = ''housing'' @ ''.npz''"
proof -
  let ?ex = "\<lparr>read_yaml_file = (\<lambda>p. Inr \<lparr>numerical_columns = Some [''total_rooms'', ''total_bedrooms'', ''population'', ''households''], categorical_columns = Some [''ocean_proximity''], target_column = Some ''median_house_value''\<rparr>), load_data = (\<lambda>p s. if p = ''/data/train/housing.csv'' then Inr (\<lparr>ncols = 4, rws = [[8, 4, 6, 2], [5, 1, 9, 3]]\<rparr>, \<lparr>ncols = 1, rws = [[''INLAND''], [''NEAR BAY'']]\<rparr>, [100, 200]) else Inr (\<lparr>ncols = 4, rws = [[6, 3, 4, 2]]\<rparr>, \<lparr>ncols = 1, rws = [[''INLAND'']]\<rparr>, [150])), save_numpy_array_data = (\<lambda>p a. Inr ()), save_object = (\<lambda>p ob. Inr ()), df_drop = (\<lambda>df c. Inr df), df_getitem = (\<lambda>(n, c, t) name. Inr t), df_select = (\<lambda>df cols. Inr df), num_imputer_fit_transform = (\<lambda>s (n, c, t). Inr ((), n)), num_imputer_transform = (\<lambda>s st (n, c, t). Inr n), cat_imputer_fit_transform = (\<lambda>s (n, c, t). Inr ((), c)), cat_imputer_transform = (\<lambda>s st (n, c, t). Inr c), scaler_fit_transform = (\<lambda>s X. Inr ((), X)), scaler_transform = (\<lambda>s st X. Inr X), divide = (/)\<rparr> :: (real, real ndarray \<times> string ndarray \<times> real list, unit) externals"
  let ?self = "\<lparr>data_transformation_config = \<lparr>transformed_train_dir = ''/out/train'', transformed_test_dir = ''/out/test'', preprocessed_object_file_path = ''/out/preprocessed.pkl''\<rparr>, data_ingestion_artifact = \<lparr>train_file_path = ''/data/train/housing.csv'', test_file_path = ''/data/test/housing.csv''\<rparr>, data_validation_artifact = \<lparr>schema_file_path = ''/cfg/schema.yaml''\<rparr>\<rparr>"
  let ?art = "\<lparr>transformed_train_file_path = ''/out/train/housing.npz'', transformed_test_file_path = ''/out/test/housing.npz'', preprocessing_object_file_path = ''/out/preprocessed.pkl'', is_transformed = True, message = ''Data transformation completed''\<rparr>"
  have run: "initiate_data_tranformation ?ex ?self [] = (Inr ?art, [SavedArray ''/out/train/housing.npz'' \<lparr>ncols = 10, rws = [[8, 4, 6, 2, 4, 3, 1 / 2, 1, 0, 100], [5, 1, 9, 3, 5 / 3, 3, 1 / 5, 0, 1, 200]]\<rparr>, SavedArray ''/out/test/housing.npz'' \<lparr>ncols = 10, rws = [[6, 3, 4, 2, 3, 2, 1 / 2, 1, 0, 150]]\<rparr>, SavedObject ''/out/preprocessed.pkl'' \<lparr>estimator = \<lparr>num_imputer = \<lparr>strategy = ''median''\<rparr>, num_generator = \<lparr>columns = Some [''total_rooms'', ''total_bedrooms'', ''population'', ''households''], add_bedrooms_per_room = True, total_rooms_ix = 0, population_ix = 2, households_ix = 3, total_bedrooms_ix = 1\<rparr>, num_scaler = \<lparr>with_mean = True\<rparr>, num_columns = [''total_rooms'', ''total_bedrooms'', ''population'', ''households''], cat_imputer = \<lparr>strategy = ''most_frequent''\<rparr>, cat_encoder = \<lparr>handle_unknown = unknown_error\<rparr>, cat_scaler = \<lparr>with_mean = False\<rparr>, cat_columns = [''ocean_proximity'']\<rparr>, num_imputer_state = (), num_scaler_state = (), cat_imputer_state = (), categories = [[''INLAND'', ''NEAR BAY'']], cat_scaler_state = ()\<rparr>])"
    by (rule run_example)
  have base: "basename ''/data/train/housing.csv'' = ''housing'' @ ''.csv''"
    by (simp add: basename_def)
  have stem: "\<not> str_contains ''.csv'' ''housing''"
    by simp
  from initiate_file_names [OF run]
  have "\<forall>p stem. p \<in> {train_file_path (data_ingestion_artifact ?self),
                          test_file_path (data_ingestion_artifact ?self)} \<and>
                    basename p = stem @ ''.csv'' \<and> \<not> str_contains ''.csv'' stem \<longrightarrow>
              npz_file_name p = stem @ ''.npz'' \<and>
              npz_file_name p = spec_replace_extension (basename p) ''.npz''"
    by blast
  from this [THEN spec [where x = "''/data/train/housing.csv''"],
      THEN spec [where x = "''housing''"]]
  have "npz_file_name ''/data/train/housing.csv'' = ''housing'' @ ''.npz''"
    using base stem by simp
  with run base stem show ?thesis
    by (simp add: os_path_join_def)
qed

lemma transform_load_data [simp]:
  "ColumnTransformer_transform (ex\<lparr>load_data := ld\<rparr>) ft X = ColumnTransformer_transform ex ft X"
  by (simp add: ColumnTransformer_transform_def num_pipeline_transform_def
      cat_pipeline_transform_def)

text \<open>
  Claim C5. Take two runs of \<^verbatim>\<open>initiate_data_tranformation\<close> that differ only in what
  \<^verbatim>\<open>load_data\<close> returns, with the same training table, and that both return. The
  transformer is fitted by \<^verbatim>\<open>fit_transform\<close> on the training inputs, and each test
  array comes from \<^verbatim>\<open>transform\<close> of that fitted transformer. Both runs save the same
  fitted transformer and the same training array, under the same paths; only the test
  array may differ.
\<close>
theorem fit_ignores_test_table:
  assumes ex2: "ex2 = ex1\<lparr>load_data := ld\<rparr>"
    and same_train:
      "ld (train_file_path (data_ingestion_artifact self))
          (schema_file_path (data_validation_artifact self)) =
       load_data ex1 (train_file_path (data_ingestion_artifact self))
          (schema_file_path (data_validation_artifact self))"
    and run1: "initiate_data_tranformation ex1 self out = (Inr art1, out1)"
    and run2: "initiate_data_tranformation ex2 self out = (Inr art2, out2)"
  shows "\<exists>train_df target Xtr ct ft A ytr train_arr Xte1 B1 yte1 test_arr1 Xte2 B2 yte2 test_arr2.
      load_data ex1 (train_file_path (data_ingestion_artifact self))
          (schema_file_path (data_validation_artifact self)) = Inr train_df \<and>
      df_drop ex1 train_df target = Inr Xtr \<and>
      get_data_transformer_object ex1 self = Inr ct \<and>
      ColumnTransformer_fit_transform ex1 ct Xtr = Inr (ft, A) \<and>
      df_getitem ex1 train_df target = Inr ytr \<and>
      np_c A [ytr] = Inr train_arr \<and>
      ColumnTransformer_transform ex1 ft Xte1 = Inr B1 \<and> np_c B1 [yte1] = Inr test_arr1 \<and>
      ColumnTransformer_transform ex1 ft Xte2 = Inr B2 \<and> np_c B2 [yte2] = Inr test_arr2 \<and>
      out1 = out @ [SavedArray (transformed_train_file_path art1) train_arr,
                    SavedArray (transformed_test_file_path art1) test_arr1,
                    SavedObject (preprocessing_object_file_path art1) ft] \<and>
      out2 = out @ [SavedArray (transformed_train_file_path art1) train_arr,
                    SavedArray (transformed_test_file_path art1) test_arr2,
                    SavedObject (preprocessing_object_file_path art1) ft] \<and>
      art2 = art1"
proof -
  let ?sp = "schema_file_path (data_validation_artifact self)"
  let ?trp = "train_file_path (data_ingestion_artifact self)"
  from initiate_Inr_D [OF run1] obtain ct train_df sch target Xtr ytr ft A train_arr test_arr1
      Xte1 yte1 B1
    where ct: "get_data_transformer_object ex1 self = Inr ct"
      and ld1: "load_data ex1 ?trp ?sp = Inr train_df"
      and sch: "read_yaml_file ex1 ?sp = Inr sch"
      and target: "dict_getitem (target_column sch) = Inr target"
      and Xtr: "df_drop ex1 train_df target = Inr Xtr"
      and ytr: "df_getitem ex1 train_df target = Inr ytr"
      and fit1: "ColumnTransformer_fit_transform ex1 ct Xtr = Inr (ft, A)"
      and arr: "np_c A [ytr] = Inr train_arr"
      and te1: "ColumnTransformer_transform ex1 ft Xte1 = Inr B1"
      and tarr1: "np_c B1 [yte1] = Inr test_arr1"
      and out1: "out1 = out @
       [SavedArray (os_path_join (transformed_train_dir (data_transformation_config self))
          (npz_file_name (train_file_path (data_ingestion_artifact self)))) train_arr,
        SavedArray (os_path_join (transformed_test_dir (data_transformation_config self))
          (npz_file_name (test_file_path (data_ingestion_artifact self)))) test_arr1,
        SavedObject (preprocessed_object_file_path (data_transformation_config self)) ft]"
      and art1: "art1 = \<lparr>transformed_train_file_path =
              os_path_join (transformed_train_dir (data_transformation_config self))
                (npz_file_name (train_file_path (data_ingestion_artifact self))),
            transformed_test_file_path =
              os_path_join (transformed_test_dir (data_transformation_config self))
                (npz_file_name (test_file_path (data_ingestion_artifact self))),
            preprocessing_object_file_path =
              preprocessed_object_file_path (data_transformation_config self),
            is_transformed = True,
            message = ''Data transformation completed''\<rparr>"
    by blast
  from initiate_Inr_D [OF run2] obtain ct' train_df' sch' target' Xtr' ytr' ft' A' train_arr' test_arr2
      Xte2 yte2 B2
    where ct': "get_data_transformer_object ex2 self = Inr ct'"
      and ld2: "load_data ex2 ?trp ?sp = Inr train_df'"
      and sch': "read_yaml_file ex2 ?sp = Inr sch'"
      and target': "dict_getitem (target_column sch') = Inr target'"
      and Xtr': "df_drop ex2 train_df' target' = Inr Xtr'"
      and ytr': "df_getitem ex2 train_df' target' = Inr ytr'"
      and fit2: "ColumnTransformer_fit_transform ex2 ct' Xtr' = Inr (ft', A')"
      and arr': "np_c A' [ytr'] = Inr train_arr'"
      and te2: "ColumnTransformer_transform ex2 ft' Xte2 = Inr B2"
      and tarr2: "np_c B2 [yte2] = Inr test_arr2"
      and out2: "out2 = out @
       [SavedArray (os_path_join (transformed_train_dir (data_transformation_config self))
          (npz_file_name (train_file_path (data_ingestion_artifact self)))) train_arr',
        SavedArray (os_path_join (transformed_test_dir (data_transformation_config self))
          (npz_file_name (test_file_path (data_ingestion_artifact self)))) test_arr2,
        SavedObject (preprocessed_object_file_path (data_transformation_config self)) ft']"
      and art2: "art2 = \<lparr>transformed_train_file_path =
              os_path_join (transformed_train_dir (data_transformation_config self))
                (npz_file_name (train_file_path (data_ingestion_artifact self))),
            transformed_test_file_path =
              os_path_join (transformed_test_dir (data_transformation_config self))
                (npz_file_name (test_file_path (data_ingestion_artifact self))),
            preprocessing_object_file_path =
              preprocessed_object_file_path (data_transformation_config self),
            is_transformed = True,
            message = ''Data transformation completed''\<rparr>"
    by blast
  have "ct' = ct" using ct ct' by (simp add: ex2)
  moreover have "train_df' = train_df" using ld1 ld2 same_train by (simp add: ex2)
  moreover have "sch' = sch" using sch sch' by (simp add: ex2)
  then have "target' = target" using target target' by simp
  ultimately have "Xtr' = Xtr" and "ytr' = ytr"
    using Xtr Xtr' ytr ytr' by (simp_all add: ex2)
  with fit1 fit2 \<open>ct' = ct\<close> have "ft' = ft" and "A' = A"
    by (simp_all add: ex2)
  with arr arr' \<open>ytr' = ytr\<close> have "train_arr' = train_arr" by simp
  have o1: "out1 = out @ [SavedArray (transformed_train_file_path art1) train_arr,
                    SavedArray (transformed_test_file_path art1) test_arr1,
                    SavedObject (preprocessing_object_file_path art1) ft]"
    by (simp add: out1 art1)
  have o2: "out2 = out @ [SavedArray (transformed_train_file_path art1) train_arr,
                    SavedArray (transformed_test_file_path art1) test_arr2,
                    SavedObject (preprocessing_object_file_path art1) ft]"
    by (simp add: out2 art1 \<open>ft' = ft\<close> \<open>train_arr' = train_arr\<close>)
  have te2': "ColumnTransformer_transform ex1 ft Xte2 = Inr B2"
    using te2 by (simp add: ex2 \<open>ft' = ft\<close>)
  have "art2 = art1" by (simp add: art1 art2)
  with ld1 Xtr ct fit1 ytr arr te1 tarr1 te2' tarr2 o1 o2 show ?thesis by blast
qed

text \<open>C5 at two runs whose test tables differ.\<close>
theorem fit_ignores_test_table_witness:
  "initiate_data_tranformation (\<lparr>read_yaml_file = (\<lambda>p. Inr \<lparr>numerical_columns = Some [''total_rooms'', ''total_bedrooms'', ''population'', ''households''], categorical_columns = Some [''ocean_proximity''], target_column = Some ''median_house_value''\<rparr>), load_data = (\<lambda>p s. if p = ''/data/train/housing.csv'' then Inr (\<lparr>ncols = 4, rws = [[8, 4, 6, 2], [5, 1, 9, 3]]\<rparr>, \<lparr>ncols = 1, rws = [[''INLAND''], [''NEAR BAY'']]\<rparr>, [100, 200]) else Inr (\<lparr>ncols = 4, rws = [[6, 3, 4, 2]]\<rparr>, \<lparr>ncols = 1, rws = [[''INLAND'']]\<rparr>, [150])), save_numpy_array_data = (\<lambda>p a. Inr ()), save_object = (\<lambda>p ob. Inr ()), df_drop = (\<lambda>df c. Inr df), df_getitem = (\<lambda>(n, c, t) name. Inr t), df_select = (\<lambda>df cols. Inr df), num_imputer_fit_transform = (\<lambda>s (n, c, t). Inr ((), n)), num_imputer_transform = (\<lambda>s st (n, c, t). Inr n), cat_imputer_fit_transform = (\<lambda>s (n, c, t). Inr ((), c)), cat_imputer_transform = (\<lambda>s st (n, c, t). Inr c), scaler_fit_transform = (\<lambda>s X. Inr ((), X)), scaler_transform = (\<lambda>s st X. Inr X), divide = (/)\<rparr> :: (real, real ndarray \<times> string ndarray \<times> real list, unit) externals) \<lparr>data_transformation_config = \<lparr>transformed_train_dir = ''/out/train'', transformed_test_dir = ''/out/test'', preprocessed_object_file_path = ''/out/preprocessed.pkl''\<rparr>, data_ingestion_artifact = \<lparr>train_file_path = ''/data/train/housing.csv'', test_file_path = ''/data/test/housing.csv''\<rparr>, data_validation_artifact = \<lparr>schema_file_path = ''/cfg/schema.yaml''\<rparr>\<rparr> [] = (Inr \<lparr>transformed_train_file_path = ''/out/train/housing.npz'', transformed_test_file_path = ''/out/test/housing.npz'', preprocessing_object_file_path = ''/out/preprocessed.pkl'', is_transformed = True, message = ''Data transformation completed''\<rparr>, [SavedArray ''/out/train/housing.npz'' \<lparr>ncols = 10, rws = [[8, 4, 6, 2, 4, 3, 1 / 2, 1, 0, 100], [5, 1, 9, 3, 5 / 3, 3, 1 / 5, 0, 1, 200]]\<rparr>, SavedArray ''/out/test/housing.npz'' \<lparr>ncols = 10, rws = [[6, 3, 4, 2, 3, 2, 1 / 2, 1, 0, 150]]\<rparr>, SavedObject ''/out/preprocessed.pkl'' \<lparr>estimator = \<lparr>num_imputer = \<lparr>strategy = ''median''\<rparr>, num_generator = \<lparr>columns = Some [''total_rooms'', ''total_bedrooms'', ''population'', ''households''], add_bedrooms_per_room = True, total_rooms_ix = 0, population_ix = 2, households_ix = 3, total_bedrooms_ix = 1\<rparr>, num_scaler = \<lparr>with_mean = True\<rparr>, num_columns = [''total_rooms'', ''total_bedrooms'', ''population'', ''households''], cat_imputer = \<lparr>strategy = ''most_frequent''\<rparr>, cat_encoder = \<lparr>handle_unknown = unknown_error\<rparr>, cat_scaler = \<lparr>with_mean = False\<rparr>, cat_columns = [''ocean_proximity'']\<rparr>, num_imputer_state = (), num_scaler_state = (), cat_imputer_state = (), categories = [[''INLAND'', ''NEAR BAY'']], cat_scaler_state = ()\<rparr>]) \<and>
   initiate_data_tranformation ((\<lparr>read_yaml_file = (\<lambda>p. Inr \<lparr>numerical_columns = Some [''total_rooms'', ''total_bedrooms'', ''population'', ''households''], categorical_columns = Some [''ocean_proximity''], target_column = Some ''median_house_value''\<rparr>), load_data = (\<lambda>p s. if p = ''/data/train/housing.csv'' then Inr (\<lparr>ncols = 4, rws = [[8, 4, 6, 2], [5, 1, 9, 3]]\<rparr>, \<lparr>ncols = 1, rws = [[''INLAND''], [''NEAR BAY'']]\<rparr>, [100, 200]) else Inr (\<lparr>ncols = 4, rws = [[6, 3, 4, 2]]\<rparr>, \<lparr>ncols = 1, rws = [[''INLAND'']]\<rparr>, [150])), save_numpy_array_data = (\<lambda>p a. Inr ()), save_object = (\<lambda>p ob. Inr ()), df_drop = (\<lambda>df c. Inr df), df_getitem = (\<lambda>(n, c, t) name. Inr t), df_select = (\<lambda>df cols. Inr df), num_imputer_fit_transform = (\<lambda>s (n, c, t). Inr ((), n)), num_imputer_transform = (\<lambda>s st (n, c, t). Inr n), cat_imputer_fit_transform = (\<lambda>s (n, c, t). Inr ((), c)), cat_imputer_transform = (\<lambda>s st (n, c, t). Inr c), scaler_fit_transform = (\<lambda>s X. Inr ((), X)), scaler_transform = (\<lambda>s st X. Inr X), divide = (/)\<rparr> :: (real, real ndarray \<times> string ndarray \<times> real list, unit) externals)\<lparr>load_data := (\<lambda>p s. if p = ''/data/train/housing.csv'' then Inr (\<lparr>ncols = 4, rws = [[8, 4, 6, 2], [5, 1, 9, 3]]\<rparr>, \<lparr>ncols = 1, rws = [[''INLAND''], [''NEAR BAY'']]\<rparr>, [100, 200]) else Inr (\<lparr>ncols = 4, rws = [[9, 3, 6, 3]]\<rparr>, \<lparr>ncols = 1, rws = [[''NEAR BAY'']]\<rparr>, [180]))\<rparr>) \<lparr>data_transformation_config = \<lparr>transformed_train_dir = ''/out/train'', transformed_test_dir = ''/out/test'', preprocessed_object_file_path = ''/out/preprocessed.pkl''\<rparr>, data_ingestion_artifact = \<lparr>train_file_path = ''/data/train/housing.csv'', test_file_path = ''/data/test/housing.csv''\<rparr>, data_validation_artifact = \<lparr>schema_file_path = ''/cfg/schema.yaml''\<rparr>\<rparr> [] = (Inr \<lparr>transformed_train_file_path = ''/out/train/housing.npz'', transformed_test_file_path = ''/out/test/housing.npz'', preprocessing_object_file_path = ''/out/preprocessed.pkl'', is_transformed = True, message = ''Data transformation completed''\<rparr>, [SavedArray ''/out/train/housing.npz'' \<lparr>ncols = 10, rws = [[8, 4, 6, 2, 4, 3, 1 / 2, 1, 0, 100], [5, 1, 9, 3, 5 / 3, 3, 1 / 5, 0, 1, 200]]\<rparr>, SavedArray ''/out/test/housing.npz'' \<lparr>ncols = 10, rws = [[9, 3, 6, 3, 3, 2, 1 / 3, 0, 1, 180]]\<rparr>, SavedObject ''/out/preprocessed.pkl'' \<lparr>estimator = \<lparr>num_imputer = \<lparr>strategy = ''median''\<rparr>, num_generator = \<lparr>columns = Some [''total_rooms'', ''total_bedrooms'', ''population'', ''households''], add_bedrooms_per_room = True, total_rooms_ix = 0, population_ix = 2, households_ix = 3, total_bedrooms_ix = 1\<rparr>, num_scaler = \<lparr>with_mean = True\<rparr>, num_columns = [''total_rooms'', ''total_bedrooms'', ''population'', ''households''], cat_imputer = \<lparr>strategy = ''most_frequent''\<rparr>, cat_encoder = \<lparr>handle_unknown = unknown_error\<rparr>, cat_scaler = \<lparr>with_mean = False\<rparr>, cat_columns = [''ocean_proximity'']\<rparr>, num_imputer_state = (), num_scaler_state = (), cat_imputer_state = (), categories = [[''INLAND'', ''NEAR BAY'']], cat_scaler_state = ()\<rparr>]) \<and>
   [SavedArray ''/out/train/housing.npz'' \<lparr>ncols = 10, rws = [[8, 4, 6, 2, 4, 3, 1 / 2, 1, 0, 100], [5, 1, 9, 3, 5 / 3, 3, 1 / 5, 0, 1, 200]]\<rparr>, SavedArray ''/out/test/housing.npz'' \<lparr>ncols = 10, rws = [[6, 3, 4, 2, 3, 2, 1 / 2, 1, 0, 150]]\<rparr>, SavedObject ''/out/preprocessed.pkl'' \<lparr>estimator = \<lparr>num_imputer = \<lparr>strategy = ''median''\<rparr>, num_generator = \<lparr>columns = Some [''total_rooms'', ''total_bedrooms'', ''population'', ''households''], add_bedrooms_per_room = True, total_rooms_ix = 0, population_ix = 2, households_ix = 3, total_bedrooms_ix = 1\<rparr>, num_scaler = \<lparr>with_mean = True\<rparr>, num_columns = [''total_rooms'', ''total_bedrooms'', ''population'', ''households''], cat_imputer = \<lparr>strategy = ''most_frequent''\<rparr>, cat_encoder = \<lparr>handle_unknown = unknown_error\<rparr>, cat_scaler = \<lparr>with_mean = False\<rparr>, cat_columns = [''ocean_proximity'']\<rparr>, num_imputer_state = (), num_scaler_state = (), cat_imputer_state = (), categories = [[''INLAND'', ''NEAR BAY'']], cat_scaler_state = ()\<rparr>] ! 0 = [SavedArray ''/out/train/housing.npz'' \<lparr>ncols = 10, rws = [[8, 4, 6, 2, 4, 3, 1 / 2, 1, 0, 100], [5, 1, 9, 3, 5 / 3, 3, 1 / 5, 0, 1, 200]]\<rparr>, SavedArray ''/out/test/housing.npz'' \<lparr>ncols = 10, rws = [[9, 3, 6, 3, 3, 2, 1 / 3, 0, 1, 180]]\<rparr>, SavedObject ''/out/preprocessed.pkl'' \<lparr>estimator = \<lparr>num_imputer = \<lparr>strategy = ''median''\<rparr>, num_generator = \<lparr>columns = Some [''total_rooms'', ''total_bedrooms'', ''population'', ''households''], add_bedrooms_per_room = True, total_rooms_ix = 0, population_ix = 2, households_ix = 3, total_bedrooms_ix = 1\<rparr>, num_scaler = \<lparr>with_mean = True\<rparr>, num_columns = [''total_rooms'', ''total_bedrooms'', ''population'', ''households''], cat_imputer = \<lparr>strategy = ''most_frequent''\<rparr>, cat_encoder = \<lparr>handle_unknown = unknown_error\<rparr>, cat_scaler = \<lparr>with_mean = False\<rparr>, cat_columns = [''ocean_proximity'']\<rparr>, num_imputer_state = (), num_scaler_state = (), cat_imputer_state = (), categories = [[''INLAND'', ''NEAR BAY'']], cat_scaler_state = ()\<rparr>] ! 0 \<and>
   [SavedArray ''/out/train/housing.npz'' \<lparr>ncols = 10, rws = [[8, 4, 6, 2, 4, 3, 1 / 2, 1, 0, 100], [5, 1, 9, 3, 5 / 3, 3, 1 / 5, 0, 1, 200]]\<rparr>, SavedArray ''/out/test/housing.npz'' \<lparr>ncols = 10, rws = [[6, 3, 4, 2, 3, 2, 1 / 2, 1, 0, 150]]\<rparr>, SavedObject ''/out/preprocessed.pkl'' \<lparr>estimator = \<lparr>num_imputer = \<lparr>strategy = ''median''\<rparr>, num_generator = \<lparr>columns = Some [''total_rooms'', ''total_bedrooms'', ''population'', ''households''], add_bedrooms_per_room = True, total_rooms_ix = 0, population_ix = 2, households_ix = 3, total_bedrooms_ix = 1\<rparr>, num_scaler = \<lparr>with_mean = True\<rparr>, num_columns = [''total_rooms'', ''total_bedrooms'', ''population'', ''households''], cat_imputer = \<lparr>strategy = ''most_frequent''\<rparr>, cat_encoder = \<lparr>handle_unknown = unknown_error\<rparr>, cat_scaler = \<lparr>with_mean = False\<rparr>, cat_columns = [''ocean_proximity'']\<rparr>, num_imputer_state = (), num_scaler_state = (), cat_imputer_state = (), categories = [[''INLAND'', ''NEAR BAY'']], cat_scaler_state = ()\<rparr>] ! 2 = [SavedArray ''/out/train/housing.npz'' \<lparr>ncols = 10, rws = [[8, 4, 6, 2, 4, 3, 1 / 2, 1, 0, 100], [5, 1, 9, 3, 5 / 3, 3, 1 / 5, 0, 1, 200]]\<rparr>, SavedArray ''/out/test/housing.npz'' \<lparr>ncols = 10, rws = [[9, 3, 6, 3, 3, 2, 1 / 3, 0, 1, 180]]\<rparr>, SavedObject ''/out/preprocessed.pkl'' \<lparr>estimator = \<lparr>num_imputer = \<lparr>strategy = ''median''\<rparr>, num_generator = \<lparr>columns = Some [''total_rooms'', ''total_bedrooms'', ''population'', ''households''], add_bedrooms_per_room = True, total_rooms_ix = 0, population_ix = 2, households_ix = 3, total_bedrooms_ix = 1\<rparr>, num_scaler = \<lparr>with_mean = True\<rparr>, num_columns = [''total_rooms'', ''total_bedrooms'', ''population'', ''households''], cat_imputer = \<lparr>strategy = ''most_frequent''\<rparr>, cat_encoder = \<lparr>handle_unknown = unknown_error\<rparr>, cat_scaler = \<lparr>with_mean = False\<rparr>, cat_columns = [''ocean_proximity'']\<rparr>, num_imputer_state = (), num_scaler_state = (), cat_imputer_state = (), categories = [[''INLAND'', ''NEAR BAY'']], cat_scaler_state = ()\<rparr>] ! 2"
proof -
  let ?ex = "\<lparr>read_yaml_file = (\<lambda>p. Inr \<lparr>numerical_columns = Some [''total_rooms'', ''total_bedrooms'', ''population'', ''households''], categorical_columns = Some [''ocean_proximity''], target_column = Some ''median_house_value''\<rparr>), load_data = (\<lambda>p s. if p = ''/data/train/housing.csv'' then Inr (\<lparr>ncols = 4, rws = [[8, 4, 6, 2], [5, 1, 9, 3]]\<rparr>, \<lparr>ncols = 1, rws = [[''INLAND''], [''NEAR BAY'']]\<rparr>, [100, 200]) else Inr (\<lparr>ncols = 4, rws = [[6, 3, 4, 2]]\<rparr>, \<lparr>ncols = 1, rws = [[''INLAND'']]\<rparr>, [150])), save_numpy_array_data = (\<lambda>p a. Inr ()), save_object = (\<lambda>p ob. Inr ()), df_drop = (\<lambda>df c. Inr df), df_getitem = (\<lambda>(n, c, t) name. Inr t), df_select = (\<lambda>df cols. Inr df), num_imputer_fit_transform = (\<lambda>s (n, c, t). Inr ((), n)), num_imputer_transform = (\<lambda>s st (n, c, t). Inr n), cat_imputer_fit_transform = (\<lambda>s (n, c, t). Inr ((), c)), cat_imputer_transform = (\<lambda>s st (n, c, t). Inr c), scaler_fit_transform = (\<lambda>s X. Inr ((), X)), scaler_transform = (\<lambda>s st X. Inr X), divide = (/)\<rparr> :: (real, real ndarray \<times> string ndarray \<times> real list, unit) externals"
  let ?ld = "\<lambda>p s. if p = ''/data/train/housing.csv'' then Inr (\<lparr>ncols = 4, rws = [[8, 4, 6, 2], [5, 1, 9, 3]]\<rparr>, \<lparr>ncols = 1, rws = [[''INLAND''], [''NEAR BAY'']]\<rparr>, [100, 200]) else Inr (\<lparr>ncols = 4, rws = [[9, 3, 6, 3]]\<rparr>, \<lparr>ncols = 1, rws = [[''NEAR BAY'']]\<rparr>, [180])"
  let ?self = "\<lparr>data_transformation_config = \<lparr>transformed_train_dir = ''/out/train'', transformed_test_dir = ''/out/test'', preprocessed_object_file_path = ''/out/preprocessed.pkl''\<rparr>, data_ingestion_artifact = \<lparr>train_file_path = ''/data/train/housing.csv'', test_file_path = ''/data/test/housing.csv''\<rparr>, data_validation_artifact = \<lparr>schema_file_path = ''/cfg/schema.yaml''\<rparr>\<rparr>"
  let ?art = "\<lparr>transformed_train_file_path = ''/out/train/housing.npz'', transformed_test_file_path = ''/out/test/housing.npz'', preprocessing_object_file_path = ''/out/preprocessed.pkl'', is_transformed = True, message = ''Data transformation completed''\<rparr>"
  have ex2: "?ex\<lparr>load_data := ?ld\<rparr> = ?ex\<lparr>load_data := ?ld\<rparr>"
    by (rule refl)
  have same: "?ld (train_file_path (data_ingestion_artifact ?self))
          (schema_file_path (data_validation_artifact ?self)) =
       load_data ?ex (train_file_path (data_ingestion_artifact ?self))
          (schema_file_path (data_validation_artifact ?self))"
    by simp
  have run1: "initiate_data_tranformation ?ex ?self [] = (Inr ?art, [SavedArray ''/out/train/housing.npz'' \<lparr>ncols = 10, rws = [[8, 4, 6, 2, 4, 3, 1 / 2, 1, 0, 100], [5, 1, 9, 3, 5 / 3, 3, 1 / 5, 0, 1, 200]]\<rparr>, SavedArray ''/out/test/housing.npz'' \<lparr>ncols = 10, rws = [[6, 3, 4, 2, 3, 2, 1 / 2, 1, 0, 150]]\<rparr>, SavedObject ''/out/preprocessed.pkl'' \<lparr>estimator = \<lparr>num_imputer = \<lparr>strategy = ''median''\<rparr>, num_generator = \<lparr>columns = Some [''total_rooms'', ''total_bedrooms'', ''population'', ''households''], add_bedrooms_per_room = True, total_rooms_ix = 0, population_ix = 2, households_ix = 3, total_bedrooms_ix = 1\<rparr>, num_scaler = \<lparr>with_mean = True\<rparr>, num_columns = [''total_rooms'', ''total_bedrooms'', ''population'', ''households''], cat_imputer = \<lparr>strategy = ''most_frequent''\<rparr>, cat_encoder = \<lparr>handle_unknown = unknown_error\<rparr>, cat_scaler = \<lparr>with_mean = False\<rparr>, cat_columns = [''ocean_proximity'']\<rparr>, num_imputer_state = (), num_scaler_state = (), cat_imputer_state = (), categories = [[''INLAND'', ''NEAR BAY'']], cat_scaler_state = ()\<rparr>])"
    by (rule run_example)
  have run2: "initiate_data_tranformation (?ex\<lparr>load_data := ?ld\<rparr>) ?self [] = (Inr ?art, [SavedArray ''/out/train/housing.npz'' \<lparr>ncols = 10, rws = [[8, 4, 6, 2, 4, 3, 1 / 2, 1, 0, 100], [5, 1, 9, 3, 5 / 3, 3, 1 / 5, 0, 1, 200]]\<rparr>, SavedArray ''/out/test/housing.npz'' \<lparr>ncols = 10, rws = [[9, 3, 6, 3, 3, 2, 1 / 3, 0, 1, 180]]\<rparr>, SavedObject ''/out/preprocessed.pkl'' \<lparr>estimator = \<lparr>num_imputer = \<lparr>strategy = ''median''\<rparr>, num_generator = \<lparr>columns = Some [''total_rooms'', ''total_bedrooms'', ''population'', ''households''], add_bedrooms_per_room = True, total_rooms_ix = 0, population_ix = 2, households_ix = 3, total_bedrooms_ix = 1\<rparr>, num_scaler = \<lparr>with_mean = True\<rparr>, num_columns = [''total_rooms'', ''total_bedrooms'', ''population'', ''households''], cat_imputer = \<lparr>strategy = ''most_frequent''\<rparr>, cat_encoder = \<lparr>handle_unknown = unknown_error\<rparr>, cat_scaler = \<lparr>with_mean = False\<rparr>, cat_columns = [''ocean_proximity'']\<rparr>, num_imputer_state = (), num_scaler_state = (), cat_imputer_state = (), categories = [[''INLAND'', ''NEAR BAY'']], cat_scaler_state = ()\<rparr>])"
    by (simp add: run_eval)
  from fit_ignores_test_table [OF ex2 same run1 run2] run1 run2
  show ?thesis by simp
qed

text \<open>
  Claim C4, as amended. Let the transformer be the one
  \<^verbatim>\<open>get_data_transformer_object\<close> builds, fitted on the training inputs, and let the
  numerical pipeline and the categorical imputer succeed on the test inputs. The
  categories the encoder has learnt are the values of the imputed training columns. If a
  categorical column of the imputed test inputs holds a value that its training column
  does not, \<^verbatim>\<open>transform\<close> raises \<^verbatim>\<open>ValueError\<close>, because the encoder is built as
  \<^verbatim>\<open>OneHotEncoder()\<close>, whose policy for unknown categories is \<^verbatim>\<open>'error'\<close>, and
  every run of \<^verbatim>\<open>initiate_data_tranformation\<close> that loads and splits these training
  and test inputs raises the domain error with that \<^verbatim>\<open>ValueError\<close> as cause and
  writes nothing. If there is no such value, the encoder step does not raise.
\<close>
theorem unseen_category_raises:
  fixes ex :: "('a::zero_neq_one, 'df, 'p) externals"
  assumes built: "get_data_transformer_object ex self = Inr ct"
    and fitted: "ColumnTransformer_fit_transform ex ct Xtrain = Inr (ft, A)"
    and num: "df_select ex Xtest (num_columns ct) = Inr Xn"
      "num_pipeline_transform ex ft Xn = Inr An"
    and sel: "df_select ex Xtest (cat_columns ct) = Inr Xc"
    and imp: "cat_imputer_transform ex (cat_imputer ct) (cat_imputer_state ft) Xc = Inr X1"
  shows "\<exists>Xct ist T1.
      df_select ex Xtrain (cat_columns ct) = Inr Xct \<and>
      cat_imputer_fit_transform ex (cat_imputer ct) Xct = Inr (ist, T1) \<and>
      categories ft = OneHotEncoder_fit T1 \<and>
      ((\<exists>r \<in> set (rws X1). \<exists>j < ncols T1. j < length r \<and>
           r ! j \<notin> set (map (\<lambda>t. t ! j) (rws T1))) \<longrightarrow>
         ColumnTransformer_transform ex ft Xtest = Inl ValueError \<and>
         (\<forall>train_df test_df sch target ytr yte out.
              load_data ex (train_file_path (data_ingestion_artifact self)) (schema_file_path (data_validation_artifact self)) = Inr train_df \<and>
              load_data ex (test_file_path (data_ingestion_artifact self)) (schema_file_path (data_validation_artifact self)) = Inr test_df \<and>
              read_yaml_file ex (schema_file_path (data_validation_artifact self)) = Inr sch \<and>
              dict_getitem (target_column sch) = Inr target \<and>
              df_drop ex train_df target = Inr Xtrain \<and>
              df_getitem ex train_df target = Inr ytr \<and>
              df_drop ex test_df target = Inr Xtest \<and>
              df_getitem ex test_df target = Inr yte \<longrightarrow>
            initiate_data_tranformation ex self out = (Inl (HousingException ValueError), out))) \<and>
      (\<not> (\<exists>r \<in> set (rws X1). \<exists>j < ncols T1. j < length r \<and>
           r ! j \<notin> set (map (\<lambda>t. t ! j) (rws T1))) \<and> ncols X1 = ncols T1 \<longrightarrow>
         (\<exists>X2 :: 'a ndarray.
            OneHotEncoder_transform (cat_encoder ct) (categories ft) X1 = Inr X2))"
proof -
  from fitted_D [OF fitted] obtain Xct ist T1 where
    est: "estimator ft = ct" and
    Xct: "df_select ex Xtrain (cat_columns ct) = Inr Xct" and
    T1: "cat_imputer_fit_transform ex (cat_imputer ct) Xct = Inr (ist, T1)" and
    cats: "categories ft = OneHotEncoder_fit T1"
    by blast
  have enc: "handle_unknown (cat_encoder ct) = unknown_error"
    using built_encoder [OF built] by (simp add: OneHotEncoder_init_def)
  let ?unseen = "\<exists>r \<in> set (rws X1). \<exists>j < ncols T1. j < length r \<and>
           r ! j \<notin> set (map (\<lambda>t. t ! j) (rws T1))"
  have raise: "ColumnTransformer_transform ex ft Xtest = Inl ValueError \<and>
         (\<forall>train_df test_df sch target ytr yte out.
              load_data ex (train_file_path (data_ingestion_artifact self)) (schema_file_path (data_validation_artifact self)) = Inr train_df \<and>
              load_data ex (test_file_path (data_ingestion_artifact self)) (schema_file_path (data_validation_artifact self)) = Inr test_df \<and>
              read_yaml_file ex (schema_file_path (data_validation_artifact self)) = Inr sch \<and>
              dict_getitem (target_column sch) = Inr target \<and>
              df_drop ex train_df target = Inr Xtrain \<and>
              df_getitem ex train_df target = Inr ytr \<and>
              df_drop ex test_df target = Inr Xtest \<and>
              df_getitem ex test_df target = Inr yte \<longrightarrow>
            initiate_data_tranformation ex self out = (Inl (HousingException ValueError), out))" if ?unseen
  proof -
    from that have "has_unknown (categories ft) X1"
      unfolding cats has_unknown_iff .
    then have "(OneHotEncoder_transform (cat_encoder ct) (categories ft) X1 :: exn + 'a ndarray)
        = Inl ValueError"
      using enc by (simp add: OneHotEncoder_transform_def)
    then have tf: "ColumnTransformer_transform ex ft Xtest = Inl ValueError"
      using num sel imp
      by (simp add: ColumnTransformer_transform_def cat_pipeline_transform_def est)
    have "initiate_data_tranformation ex self out = (Inl (HousingException ValueError), out)"
      if "load_data ex (train_file_path (data_ingestion_artifact self)) (schema_file_path (data_validation_artifact self)) = Inr train_df \<and>
              load_data ex (test_file_path (data_ingestion_artifact self)) (schema_file_path (data_validation_artifact self)) = Inr test_df \<and>
              read_yaml_file ex (schema_file_path (data_validation_artifact self)) = Inr sch \<and>
              dict_getitem (target_column sch) = Inr target \<and>
              df_drop ex train_df target = Inr Xtrain \<and>
              df_getitem ex train_df target = Inr ytr \<and>
              df_drop ex test_df target = Inr Xtest \<and>
              df_getitem ex test_df target = Inr yte"
      for train_df test_df sch target ytr yte out
      using that built fitted tf
      by (intro initiate_fails_transform [rule_format, where ct = ct and train_df = train_df
            and test_df = test_df and sch = sch and target = target and Xtr = Xtrain
            and ytr = ytr and Xte = Xtest and yte = yte and ft = ft and A = A]) simp
    with tf show ?thesis by blast
  qed
  have ok: "\<exists>X2 :: 'a ndarray. OneHotEncoder_transform (cat_encoder ct) (categories ft) X1 = Inr X2"
    if "\<not> ?unseen" "ncols X1 = ncols T1"
  proof -
    from that(1) have "\<not> has_unknown (categories ft) X1"
      unfolding cats has_unknown_iff .
    then show ?thesis
      using that(2) by (simp add: OneHotEncoder_transform_def cats)
  qed
  from Xct T1 cats raise ok show ?thesis by blast
qed

text \<open>
  Claim C4 as stated fails: the test table has the category \<^verbatim>\<open>ISLAND\<close>, the training
  table has \<^verbatim>\<open>INLAND\<close> and \<^verbatim>\<open>NEAR BAY\<close>; fitting succeeds, the transform of the test
  inputs raises, and so does the whole run, which writes nothing.
\<close>
theorem unseen_category_counterexample:
  "get_data_transformer_object (\<lparr>read_yaml_file = (\<lambda>p. Inr \<lparr>numerical_columns = Some [''total_rooms'', ''total_bedrooms'', ''population'', ''households''], categorical_columns = Some [''ocean_proximity''], target_column = Some ''median_house_value''\<rparr>), load_data = (\<lambda>p s. if p = ''/data/train/housing.csv'' then Inr (\<lparr>ncols = 4, rws = [[8, 4, 6, 2], [5, 1, 9, 3]]\<rparr>, \<lparr>ncols = 1, rws = [[''INLAND''], [''NEAR BAY'']]\<rparr>, [100, 200]) else Inr (\<lparr>ncols = 4, rws = [[6, 3, 4, 2]]\<rparr>, \<lparr>ncols = 1, rws = [[''ISLAND'']]\<rparr>, [150])), save_numpy_array_data = (\<lambda>p a. Inr ()), save_object = (\<lambda>p ob. Inr ()), df_drop = (\<lambda>df c. Inr df), df_getitem = (\<lambda>(n, c, t) name. Inr t), df_select = (\<lambda>df cols. Inr df), num_imputer_fit_transform = (\<lambda>s (n, c, t). Inr ((), n)), num_imputer_transform = (\<lambda>s st (n, c, t). Inr n), cat_imputer_fit_transform = (\<lambda>s (n, c, t). Inr ((), c)), cat_imputer_transform = (\<lambda>s st (n, c, t). Inr c), scaler_fit_transform = (\<lambda>s X. Inr ((), X)), scaler_transform = (\<lambda>s st X. Inr X), divide = (/)\<rparr> :: (real, real ndarray \<times> string ndarray \<times> real list, unit) externals) \<lparr>data_transformation_config = \<lparr>transformed_train_dir = ''/out/train'', transformed_test_dir = ''/out/test'', preprocessed_object_file_path = ''/out/preprocessed.pkl''\<rparr>, data_ingestion_artifact = \<lparr>train_file_path = ''/data/train/housing.csv'', test_file_path = ''/data/test/housing.csv''\<rparr>, data_validation_artifact = \<lparr>schema_file_path = ''/cfg/schema.yaml''\<rparr>\<rparr> = Inr \<lparr>num_imputer = \<lparr>strategy = ''median''\<rparr>, num_generator = \<lparr>columns = Some [''total_rooms'', ''total_bedrooms'', ''population'', ''households''], add_bedrooms_per_room = True, total_rooms_ix = 0, population_ix = 2, households_ix = 3, total_bedrooms_ix = 1\<rparr>, num_scaler = \<lparr>with_mean = True\<rparr>, num_columns = [''total_rooms'', ''total_bedrooms'', ''population'', ''households''], cat_imputer = \<lparr>strategy = ''most_frequent''\<rparr>, cat_encoder = \<lparr>handle_unknown = unknown_error\<rparr>, cat_scaler = \<lparr>with_mean = False\<rparr>, cat_columns = [''ocean_proximity'']\<rparr> \<and>
   ColumnTransformer_fit_transform (\<lparr>read_yaml_file = (\<lambda>p. Inr \<lparr>numerical_columns = Some [''total_rooms'', ''total_bedrooms'', ''population'', ''households''], categorical_columns = Some [''ocean_proximity''], target_column = Some ''median_house_value''\<rparr>), load_data = (\<lambda>p s. if p = ''/data/train/housing.csv'' then Inr (\<lparr>ncols = 4, rws = [[8, 4, 6, 2], [5, 1, 9, 3]]\<rparr>, \<lparr>ncols = 1, rws = [[''INLAND''], [''NEAR BAY'']]\<rparr>, [100, 200]) else Inr (\<lparr>ncols = 4, rws = [[6, 3, 4, 2]]\<rparr>, \<lparr>ncols = 1, rws = [[''ISLAND'']]\<rparr>, [150])), save_numpy_array_data = (\<lambda>p a. Inr ()), save_object = (\<lambda>p ob. Inr ()), df_drop = (\<lambda>df c. Inr df), df_getitem = (\<lambda>(n, c, t) name. Inr t), df_select = (\<lambda>df cols. Inr df), num_imputer_fit_transform = (\<lambda>s (n, c, t). Inr ((), n)), num_imputer_transform = (\<lambda>s st (n, c, t). Inr n), cat_imputer_fit_transform = (\<lambda>s (n, c, t). Inr ((), c)), cat_imputer_transform = (\<lambda>s st (n, c, t). Inr c), scaler_fit_transform = (\<lambda>s X. Inr ((), X)), scaler_transform = (\<lambda>s st X. Inr X), divide = (/)\<rparr> :: (real, real ndarray \<times> string ndarray \<times> real list, unit) externals) \<lparr>num_imputer = \<lparr>strategy = ''median''\<rparr>, num_generator = \<lparr>columns = Some [''total_rooms'', ''total_bedrooms'', ''population'', ''households''], add_bedrooms_per_room = True, total_rooms_ix = 0, population_ix = 2, households_ix = 3, total_bedrooms_ix = 1\<rparr>, num_scaler = \<lparr>with_mean = True\<rparr>, num_columns = [''total_rooms'', ''total_bedrooms'', ''population'', ''households''], cat_imputer = \<lparr>strategy = ''most_frequent''\<rparr>, cat_encoder = \<lparr>handle_unknown = unknown_error\<rparr>, cat_scaler = \<lparr>with_mean = False\<rparr>, cat_columns = [''ocean_proximity'']\<rparr> (\<lparr>ncols = 4, rws = [[8, 4, 6, 2], [5, 1, 9, 3]]\<rparr>, \<lparr>ncols = 1, rws = [[''INLAND''], [''NEAR BAY'']]\<rparr>, [100, 200]) = Inr (\<lparr>estimator = \<lparr>num_imputer = \<lparr>strategy = ''median''\<rparr>, num_generator = \<lparr>columns = Some [''total_rooms'', ''total_bedrooms'', ''population'', ''households''], add_bedrooms_per_room = True, total_rooms_ix = 0, population_ix = 2, households_ix = 3, total_bedrooms_ix = 1\<rparr>, num_scaler = \<lparr>with_mean = True\<rparr>, num_columns = [''total_rooms'', ''total_bedrooms'', ''population'', ''households''], cat_imputer = \<lparr>strategy = ''most_frequent''\<rparr>, cat_encoder = \<lparr>handle_unknown = unknown_error\<rparr>, cat_scaler = \<lparr>with_mean = False\<rparr>, cat_columns = [''ocean_proximity'']\<rparr>, num_imputer_state = (), num_scaler_state = (), cat_imputer_state = (), categories = [[''INLAND'', ''NEAR BAY'']], cat_scaler_state = ()\<rparr>, \<lparr>ncols = 9, rws = [[8, 4, 6, 2, 4, 3, 1 / 2, 1, 0], [5, 1, 9, 3, 5 / 3, 3, 1 / 5, 0, 1]]\<rparr>) \<and>
   ColumnTransformer_transform (\<lparr>read_yaml_file = (\<lambda>p. Inr \<lparr>numerical_columns = Some [''total_rooms'', ''total_bedrooms'', ''population'', ''households''], categorical_columns = Some [''ocean_proximity''], target_column = Some ''median_house_value''\<rparr>), load_data = (\<lambda>p s. if p = ''/data/train/housing.csv'' then Inr (\<lparr>ncols = 4, rws = [[8, 4, 6, 2], [5, 1, 9, 3]]\<rparr>, \<lparr>ncols = 1, rws = [[''INLAND''], [''NEAR BAY'']]\<rparr>, [100, 200]) else Inr (\<lparr>ncols = 4, rws = [[6, 3, 4, 2]]\<rparr>, \<lparr>ncols = 1, rws = [[''ISLAND'']]\<rparr>, [150])), save_numpy_array_data = (\<lambda>p a. Inr ()), save_object = (\<lambda>p ob. Inr ()), df_drop = (\<lambda>df c. Inr df), df_getitem = (\<lambda>(n, c, t) name. Inr t), df_select = (\<lambda>df cols. Inr df), num_imputer_fit_transform = (\<lambda>s (n, c, t). Inr ((), n)), num_imputer_transform = (\<lambda>s st (n, c, t). Inr n), cat_imputer_fit_transform = (\<lambda>s (n, c, t). Inr ((), c)), cat_imputer_transform = (\<lambda>s st (n, c, t). Inr c), scaler_fit_transform = (\<lambda>s X. Inr ((), X)), scaler_transform = (\<lambda>s st X. Inr X), divide = (/)\<rparr> :: (real, real ndarray \<times> string ndarray \<times> real list, unit) externals) \<lparr>estimator = \<lparr>num_imputer = \<lparr>strategy = ''median''\<rparr>, num_generator = \<lparr>columns = Some [''total_rooms'', ''total_bedrooms'', ''population'', ''households''], add_bedrooms_per_room = True, total_rooms_ix = 0, population_ix = 2, households_ix = 3, total_bedrooms_ix = 1\<rparr>, num_scaler = \<lparr>with_mean = True\<rparr>, num_columns = [''total_rooms'', ''total_bedrooms'', ''population'', ''households''], cat_imputer = \<lparr>strategy = ''most_frequent''\<rparr>, cat_encoder = \<lparr>handle_unknown = unknown_error\<rparr>, cat_scaler = \<lparr>with_mean = False\<rparr>, cat_columns = [''ocean_proximity'']\<rparr>, num_imputer_state = (), num_scaler_state = (), cat_imputer_state = (), categories = [[''INLAND'', ''NEAR BAY'']], cat_scaler_state = ()\<rparr> (\<lparr>ncols = 4, rws = [[6, 3, 4, 2]]\<rparr>, \<lparr>ncols = 1, rws = [[''ISLAND'']]\<rparr>, [150]) = Inl ValueError \<and>
   initiate_data_tranformation (\<lparr>read_yaml_file = (\<lambda>p. Inr \<lparr>numerical_columns = Some [''total_rooms'', ''total_bedrooms'', ''population'', ''households''], categorical_columns = Some [''ocean_proximity''], target_column = Some ''median_house_value''\<rparr>), load_data = (\<lambda>p s. if p = ''/data/train/housing.csv'' then Inr (\<lparr>ncols = 4, rws = [[8, 4, 6, 2], [5, 1, 9, 3]]\<rparr>, \<lparr>ncols = 1, rws = [[''INLAND''], [''NEAR BAY'']]\<rparr>, [100, 200]) else Inr (\<lparr>ncols = 4, rws = [[6, 3, 4, 2]]\<rparr>, \<lparr>ncols = 1, rws = [[''ISLAND'']]\<rparr>, [150])), save_numpy_array_data = (\<lambda>p a. Inr ()), save_object = (\<lambda>p ob. Inr ()), df_drop = (\<lambda>df c. Inr df), df_getitem = (\<lambda>(n, c, t) name. Inr t), df_select = (\<lambda>df cols. Inr df), num_imputer_fit_transform = (\<lambda>s (n, c, t). Inr ((), n)), num_imputer_transform = (\<lambda>s st (n, c, t). Inr n), cat_imputer_fit_transform = (\<lambda>s (n, c, t). Inr ((), c)), cat_imputer_transform = (\<lambda>s st (n, c, t). Inr c), scaler_fit_transform = (\<lambda>s X. Inr ((), X)), scaler_transform = (\<lambda>s st X. Inr X), divide = (/)\<rparr> :: (real, real ndarray \<times> string ndarray \<times> real list, unit) externals) \<lparr>data_transformation_config = \<lparr>transformed_train_dir = ''/out/train'', transformed_test_dir = ''/out/test'', preprocessed_object_file_path = ''/out/preprocessed.pkl''\<rparr>, data_ingestion_artifact = \<lparr>train_file_path = ''/data/train/housing.csv'', test_file_path = ''/data/test/housing.csv''\<rparr>, data_validation_artifact = \<lparr>schema_file_path = ''/cfg/schema.yaml''\<rparr>\<rparr> [] = (Inl (HousingException ValueError), [])"
  by (simp add: run_eval)

text \<open>C4 as amended at the same tables: every hypothesis holds and the transform raises.\<close>
theorem unseen_category_raises_witness:
  "get_data_transformer_object (\<lparr>read_yaml_file = (\<lambda>p. Inr \<lparr>numerical_columns = Some [''total_rooms'', ''total_bedrooms'', ''population'', ''households''], categorical_columns = Some [''ocean_proximity''], target_column = Some ''median_house_value''\<rparr>), load_data = (\<lambda>p s. if p = ''/data/train/housing.csv'' then Inr (\<lparr>ncols = 4, rws = [[8, 4, 6, 2], [5, 1, 9, 3]]\<rparr>, \<lparr>ncols = 1, rws = [[''INLAND''], [''NEAR BAY'']]\<rparr>, [100, 200]) else Inr (\<lparr>ncols = 4, rws = [[6, 3, 4, 2]]\<rparr>, \<lparr>ncols = 1, rws = [[''ISLAND'']]\<rparr>, [150])), save_numpy_array_data = (\<lambda>p a. Inr ()), save_object = (\<lambda>p ob. Inr ()), df_drop = (\<lambda>df c. Inr df), df_getitem = (\<lambda>(n, c, t) name. Inr t), df_select = (\<lambda>df cols. Inr df), num_imputer_fit_transform = (\<lambda>s (n, c, t). Inr ((), n)), num_imputer_transform = (\<lambda>s st (n, c, t). Inr n), cat_imputer_fit_transform = (\<lambda>s (n, c, t). Inr ((), c)), cat_imputer_transform = (\<lambda>s st (n, c, t). Inr c), scaler_fit_transform = (\<lambda>s X. Inr ((), X)), scaler_transform = (\<lambda>s st X. Inr X), divide = (/)\<rparr> :: (real, real ndarray \<times> string ndarray \<times> real list, unit) externals) \<lparr>data_transformation_config = \<lparr>transformed_train_dir = ''/out/train'', transformed_test_dir = ''/out/test'', preprocessed_object_file_path = ''/out/preprocessed.pkl''\<rparr>, data_ingestion_artifact = \<lparr>train_file_path = ''/data/train/housing.csv'', test_file_path = ''/data/test/housing.csv''\<rparr>, data_validation_artifact = \<lparr>schema_file_path = ''/cfg/schema.yaml''\<rparr>\<rparr> = Inr \<lparr>num_imputer = \<lparr>strategy = ''median''\<rparr>, num_generator = \<lparr>columns = Some [''total_rooms'', ''total_bedrooms'', ''population'', ''households''], add_bedrooms_per_room = True, total_rooms_ix = 0, population_ix = 2, households_ix = 3, total_bedrooms_ix = 1\<rparr>, num_scaler = \<lparr>with_mean = True\<rparr>, num_columns = [''total_rooms'', ''total_bedrooms'', ''population'', ''households''], cat_imputer = \<lparr>strategy = ''most_frequent''\<rparr>, cat_encoder = \<lparr>handle_unknown = unknown_error\<rparr>, cat_scaler = \<lparr>with_mean = False\<rparr>, cat_columns = [''ocean_proximity'']\<rparr> \<and>
   ColumnTransformer_fit_transform (\<lparr>read_yaml_file = (\<lambda>p. Inr \<lparr>numerical_columns = Some [''total_rooms'', ''total_bedrooms'', ''population'', ''households''], categorical_columns = Some [''ocean_proximity''], target_column = Some ''median_house_value''\<rparr>), load_data = (\<lambda>p s. if p = ''/data/train/housing.csv'' then Inr (\<lparr>ncols = 4, rws = [[8, 4, 6, 2], [5, 1, 9, 3]]\<rparr>, \<lparr>ncols = 1, rws = [[''INLAND''], [''NEAR BAY'']]\<rparr>, [100, 200]) else Inr (\<lparr>ncols = 4, rws = [[6, 3, 4, 2]]\<rparr>, \<lparr>ncols = 1, rws = [[''ISLAND'']]\<rparr>, [150])), save_numpy_array_data = (\<lambda>p a. Inr ()), save_object = (\<lambda>p ob. Inr ()), df_drop = (\<lambda>df c. Inr df), df_getitem = (\<lambda>(n, c, t) name. Inr t), df_select = (\<lambda>df cols. Inr df), num_imputer_fit_transform = (\<lambda>s (n, c, t). Inr ((), n)), num_imputer_transform = (\<lambda>s st (n, c, t). Inr n), cat_imputer_fit_transform = (\<lambda>s (n, c, t). Inr ((), c)), cat_imputer_transform = (\<lambda>s st (n, c, t). Inr c), scaler_fit_transform = (\<lambda>s X. Inr ((), X)), scaler_transform = (\<lambda>s st X. Inr X), divide = (/)\<rparr> :: (real, real ndarray \<times> string ndarray \<times> real list, unit) externals) \<lparr>num_imputer = \<lparr>strategy = ''median''\<rparr>, num_generator = \<lparr>columns = Some [''total_rooms'', ''total_bedrooms'', ''population'', ''households''], add_bedrooms_per_room = True, total_rooms_ix = 0, population_ix = 2, households_ix = 3, total_bedrooms_ix = 1\<rparr>, num_scaler = \<lparr>with_mean = True\<rparr>, num_columns = [''total_rooms'', ''total_bedrooms'', ''population'', ''households''], cat_imputer = \<lparr>strategy = ''most_frequent''\<rparr>, cat_encoder = \<lparr>handle_unknown = unknown_error\<rparr>, cat_scaler = \<lparr>with_mean = False\<rparr>, cat_columns = [''ocean_proximity'']\<rparr> (\<lparr>ncols = 4, rws = [[8, 4, 6, 2], [5, 1, 9, 3]]\<rparr>, \<lparr>ncols = 1, rws = [[''INLAND''], [''NEAR BAY'']]\<rparr>, [100, 200]) = Inr (\<lparr>estimator = \<lparr>num_imputer = \<lparr>strategy = ''median''\<rparr>, num_generator = \<lparr>columns = Some [''total_rooms'', ''total_bedrooms'', ''population'', ''households''], add_bedrooms_per_room = True, total_rooms_ix = 0, population_ix = 2, households_ix = 3, total_bedrooms_ix = 1\<rparr>, num_scaler = \<lparr>with_mean = True\<rparr>, num_columns = [''total_rooms'', ''total_bedrooms'', ''population'', ''households''], cat_imputer = \<lparr>strategy = ''most_frequent''\<rparr>, cat_encoder = \<lparr>handle_unknown = unknown_error\<rparr>, cat_scaler = \<lparr>with_mean = False\<rparr>, cat_columns = [''ocean_proximity'']\<rparr>, num_imputer_state = (), num_scaler_state = (), cat_imputer_state = (), categories = [[''INLAND'', ''NEAR BAY'']], cat_scaler_state = ()\<rparr>, \<lparr>ncols = 9, rws = [[8, 4, 6, 2, 4, 3, 1 / 2, 1, 0], [5, 1, 9, 3, 5 / 3, 3, 1 / 5, 0, 1]]\<rparr>) \<and>
   ''ISLAND'' \<notin> set (map (\<lambda>t. t ! 0) [[''INLAND''], [''NEAR BAY'']]) \<and>
   ColumnTransformer_transform (\<lparr>read_yaml_file = (\<lambda>p. Inr \<lparr>numerical_columns = Some [''total_rooms'', ''total_bedrooms'', ''population'', ''households''], categorical_columns = Some [''ocean_proximity''], target_column = Some ''median_house_value''\<rparr>), load_data = (\<lambda>p s. if p = ''/data/train/housing.csv'' then Inr (\<lparr>ncols = 4, rws = [[8, 4, 6, 2], [5, 1, 9, 3]]\<rparr>, \<lparr>ncols = 1, rws = [[''INLAND''], [''NEAR BAY'']]\<rparr>, [100, 200]) else Inr (\<lparr>ncols = 4, rws = [[6, 3, 4, 2]]\<rparr>, \<lparr>ncols = 1, rws = [[''ISLAND'']]\<rparr>, [150])), save_numpy_array_data = (\<lambda>p a. Inr ()), save_object = (\<lambda>p ob. Inr ()), df_drop = (\<lambda>df c. Inr df), df_getitem = (\<lambda>(n, c, t) name. Inr t), df_select = (\<lambda>df cols. Inr df), num_imputer_fit_transform = (\<lambda>s (n, c, t). Inr ((), n)), num_imputer_transform = (\<lambda>s st (n, c, t). Inr n), cat_imputer_fit_transform = (\<lambda>s (n, c, t). Inr ((), c)), cat_imputer_transform = (\<lambda>s st (n, c, t). Inr c), scaler_fit_transform = (\<lambda>s X. Inr ((), X)), scaler_transform = (\<lambda>s st X. Inr X), divide = (/)\<rparr> :: (real, real ndarray \<times> string ndarray \<times> real list, unit) externals) \<lparr>estimator = \<lparr>num_imputer = \<lparr>strategy = ''median''\<rparr>, num_generator = \<lparr>columns = Some [''total_rooms'', ''total_bedrooms'', ''population'', ''households''], add_bedrooms_per_room = True, total_rooms_ix = 0, population_ix = 2, households_ix = 3, total_bedrooms_ix = 1\<rparr>, num_scaler = \<lparr>with_mean = True\<rparr>, num_columns = [''total_rooms'', ''total_bedrooms'', ''population'', ''households''], cat_imputer = \<lparr>strategy = ''most_frequent''\<rparr>, cat_encoder = \<lparr>handle_unknown = unknown_error\<rparr>, cat_scaler = \<lparr>with_mean = False\<rparr>, cat_columns = [''ocean_proximity'']\<rparr>, num_imputer_state = (), num_scaler_state = (), cat_imputer_state = (), categories = [[''INLAND'', ''NEAR BAY'']], cat_scaler_state = ()\<rparr> (\<lparr>ncols = 4, rws = [[6, 3, 4, 2]]\<rparr>, \<lparr>ncols = 1, rws = [[''ISLAND'']]\<rparr>, [150]) = Inl ValueError \<and>
   initiate_data_tranformation (\<lparr>read_yaml_file = (\<lambda>p. Inr \<lparr>numerical_columns = Some [''total_rooms'', ''total_bedrooms'', ''population'', ''households''], categorical_columns = Some [''ocean_proximity''], target_column = Some ''median_house_value''\<rparr>), load_data = (\<lambda>p s. if p = ''/data/train/housing.csv'' then Inr (\<lparr>ncols = 4, rws = [[8, 4, 6, 2], [5, 1, 9, 3]]\<rparr>, \<lparr>ncols = 1, rws = [[''INLAND''], [''NEAR BAY'']]\<rparr>, [100, 200]) else Inr (\<lparr>ncols = 4, rws = [[6, 3, 4, 2]]\<rparr>, \<lparr>ncols = 1, rws = [[''ISLAND'']]\<rparr>, [150])), save_numpy_array_data = (\<lambda>p a. Inr ()), save_object = (\<lambda>p ob. Inr ()), df_drop = (\<lambda>df c. Inr df), df_getitem = (\<lambda>(n, c, t) name. Inr t), df_select = (\<lambda>df cols. Inr df), num_imputer_fit_transform = (\<lambda>s (n, c, t). Inr ((), n)), num_imputer_transform = (\<lambda>s st (n, c, t). Inr n), cat_imputer_fit_transform = (\<lambda>s (n, c, t). Inr ((), c)), cat_imputer_transform = (\<lambda>s st (n, c, t). Inr c), scaler_fit_transform = (\<lambda>s X. Inr ((), X)), scaler_transform = (\<lambda>s st X. Inr X), divide = (/)\<rparr> :: (real, real ndarray \<times> string ndarray \<times> real list, unit) externals) \<lparr>data_transformation_config = \<lparr>transformed_train_dir = ''/out/train'', transformed_test_dir = ''/out/test'', preprocessed_object_file_path = ''/out/preprocessed.pkl''\<rparr>, data_ingestion_artifact = \<lparr>train_file_path = ''/data/train/housing.csv'', test_file_path = ''/data/test/housing.csv''\<rparr>, data_validation_artifact = \<lparr>schema_file_path = ''/cfg/schema.yaml''\<rparr>\<rparr> [] = (Inl (HousingException ValueError), [])"
proof -
  let ?ex = "\<lparr>read_yaml_file = (\<lambda>p. Inr \<lparr>numerical_columns = Some [''total_rooms'', ''total_bedrooms'', ''population'', ''households''], categorical_columns = Some [''ocean_proximity''], target_column = Some ''median_house_value''\<rparr>), load_data = (\<lambda>p s. if p = ''/data/train/housing.csv'' then Inr (\<lparr>ncols = 4, rws = [[8, 4, 6, 2], [5, 1, 9, 3]]\<rparr>, \<lparr>ncols = 1, rws = [[''INLAND''], [''NEAR BAY'']]\<rparr>, [100, 200]) else Inr (\<lparr>ncols = 4, rws = [[6, 3, 4, 2]]\<rparr>, \<lparr>ncols = 1, rws = [[''ISLAND'']]\<rparr>, [150])), save_numpy_array_data = (\<lambda>p a. Inr ()), save_object = (\<lambda>p ob. Inr ()), df_drop = (\<lambda>df c. Inr df), df_getitem = (\<lambda>(n, c, t) name. Inr t), df_select = (\<lambda>df cols. Inr df), num_imputer_fit_transform = (\<lambda>s (n, c, t). Inr ((), n)), num_imputer_transform = (\<lambda>s st (n, c, t). Inr n), cat_imputer_fit_transform = (\<lambda>s (n, c, t). Inr ((), c)), cat_imputer_transform = (\<lambda>s st (n, c, t). Inr c), scaler_fit_transform = (\<lambda>s X. Inr ((), X)), scaler_transform = (\<lambda>s st X. Inr X), divide = (/)\<rparr> :: (real, real ndarray \<times> string ndarray \<times> real list, unit) externals"
  let ?self = "\<lparr>data_transformation_config = \<lparr>transformed_train_dir = ''/out/train'', transformed_test_dir = ''/out/test'', preprocessed_object_file_path = ''/out/preprocessed.pkl''\<rparr>, data_ingestion_artifact = \<lparr>train_file_path = ''/data/train/housing.csv'', test_file_path = ''/data/test/housing.csv''\<rparr>, data_validation_artifact = \<lparr>schema_file_path = ''/cfg/schema.yaml''\<rparr>\<rparr>"
  let ?ct = "\<lparr>num_imputer = \<lparr>strategy = ''median''\<rparr>, num_generator = \<lparr>columns = Some [''total_rooms'', ''total_bedrooms'', ''population'', ''households''], add_bedrooms_per_room = True, total_rooms_ix = 0, population_ix = 2, households_ix = 3, total_bedrooms_ix = 1\<rparr>, num_scaler = \<lparr>with_mean = True\<rparr>, num_columns = [''total_rooms'', ''total_bedrooms'', ''population'', ''households''], cat_imputer = \<lparr>strategy = ''most_frequent''\<rparr>, cat_encoder = \<lparr>handle_unknown = unknown_error\<rparr>, cat_scaler = \<lparr>with_mean = False\<rparr>, cat_columns = [''ocean_proximity'']\<rparr>"
  let ?ft = "\<lparr>estimator = \<lparr>num_imputer = \<lparr>strategy = ''median''\<rparr>, num_generator = \<lparr>columns = Some [''total_rooms'', ''total_bedrooms'', ''population'', ''households''], add_bedrooms_per_room = True, total_rooms_ix = 0, population_ix = 2, households_ix = 3, total_bedrooms_ix = 1\<rparr>, num_scaler = \<lparr>with_mean = True\<rparr>, num_columns = [''total_rooms'', ''total_bedrooms'', ''population'', ''households''], cat_imputer = \<lparr>strategy = ''most_frequent''\<rparr>, cat_encoder = \<lparr>handle_unknown = unknown_error\<rparr>, cat_scaler = \<lparr>with_mean = False\<rparr>, cat_columns = [''ocean_proximity'']\<rparr>, num_imputer_state = (), num_scaler_state = (), cat_imputer_state = (), categories = [[''INLAND'', ''NEAR BAY'']], cat_scaler_state = ()\<rparr> :: unit FittedColumnTransformer"
  let ?train = "(\<lparr>ncols = 4, rws = [[8, 4, 6, 2], [5, 1, 9, 3]]\<rparr>, \<lparr>ncols = 1, rws = [[''INLAND''], [''NEAR BAY'']]\<rparr>, [100, 200]) :: real ndarray \<times> string ndarray \<times> real list"
  let ?test = "(\<lparr>ncols = 4, rws = [[6, 3, 4, 2]]\<rparr>, \<lparr>ncols = 1, rws = [[''ISLAND'']]\<rparr>, [150]) :: real ndarray \<times> string ndarray \<times> real list"
  let ?X1 = "\<lparr>ncols = 1, rws = [[''ISLAND'']]\<rparr> :: string ndarray"
  have built: "get_data_transformer_object ?ex ?self = Inr ?ct"
    by (simp add: run_eval)
  have fitted: "ColumnTransformer_fit_transform ?ex ?ct ?train = Inr (?ft, \<lparr>ncols = 9, rws = [[8, 4, 6, 2, 4, 3, 1 / 2, 1, 0], [5, 1, 9, 3, 5 / 3, 3, 1 / 5, 0, 1]]\<rparr>)"
    by (simp add: run_eval)
  have num1: "df_select ?ex ?test (num_columns ?ct) = Inr ?test"
    by simp
  have num2: "num_pipeline_transform ?ex ?ft ?test = Inr \<lparr>ncols = 7, rws = [[6, 3, 4, 2, 3, 2, 1 / 2]]\<rparr>"
    by (simp add: run_eval)
  have sel: "df_select ?ex ?test (cat_columns ?ct) = Inr ?test"
    by simp
  have imp: "cat_imputer_transform ?ex (cat_imputer ?ct) (cat_imputer_state ?ft) ?test = Inr ?X1"
    by simp
  from unseen_category_raises [OF built fitted num1 num2 sel imp]
  obtain Xct ist T1 where
    Xct: "df_select ?ex ?train (cat_columns ?ct) = Inr Xct" and
    T1: "cat_imputer_fit_transform ?ex (cat_imputer ?ct) Xct = Inr (ist, T1)" and
    raise: "(\<exists>r \<in> set (rws ?X1). \<exists>j < ncols T1. j < length r \<and>
           r ! j \<notin> set (map (\<lambda>t. t ! j) (rws T1))) \<longrightarrow>
         ColumnTransformer_transform ?ex ?ft ?test = Inl ValueError \<and>
         (\<forall>train_df test_df sch target ytr yte out.
              load_data ?ex (train_file_path (data_ingestion_artifact ?self)) (schema_file_path (data_validation_artifact ?self)) = Inr train_df \<and>
              load_data ?ex (test_file_path (data_ingestion_artifact ?self)) (schema_file_path (data_validation_artifact ?self)) = Inr test_df \<and>
              read_yaml_file ?ex (schema_file_path (data_validation_artifact ?self)) = Inr sch \<and>
              dict_getitem (target_column sch) = Inr target \<and>
              df_drop ?ex train_df target = Inr ?train \<and>
              df_getitem ?ex train_df target = Inr ytr \<and>
              df_drop ?ex test_df target = Inr ?test \<and>
              df_getitem ?ex test_df target = Inr yte \<longrightarrow>
            initiate_data_tranformation ?ex ?self out = (Inl (HousingException ValueError), out))"
    by blast
  from Xct T1 have T1_eq: "T1 = \<lparr>ncols = 1, rws = [[''INLAND''], [''NEAR BAY'']]\<rparr>"
    by auto
  have unseen: "''ISLAND'' \<notin> set (map (\<lambda>t. t ! 0) [[''INLAND''], [''NEAR BAY'']])"
    by simp
  have "\<exists>r \<in> set (rws ?X1). \<exists>j < ncols T1. j < length r \<and>
           r ! j \<notin> set (map (\<lambda>t. t ! j) (rws T1))"
    by (simp add: T1_eq)
  with raise have tf: "ColumnTransformer_transform ?ex ?ft ?test = Inl ValueError"
    and runs: "\<forall>train_df test_df sch target ytr yte out.
              load_data ?ex (train_file_path (data_ingestion_artifact ?self)) (schema_file_path (data_validation_artifact ?self)) = Inr train_df \<and>
              load_data ?ex (test_file_path (data_ingestion_artifact ?self)) (schema_file_path (data_validation_artifact ?self)) = Inr test_df \<and>
              read_yaml_file ?ex (schema_file_path (data_validation_artifact ?self)) = Inr sch \<and>
              dict_getitem (target_column sch) = Inr target \<and>
              df_drop ?ex train_df target = Inr ?train \<and>
              df_getitem ?ex train_df target = Inr ytr \<and>
              df_drop ?ex test_df target = Inr ?test \<and>
              df_getitem ?ex test_df target = Inr yte \<longrightarrow>
            initiate_data_tranformation ?ex ?self out = (Inl (HousingException ValueError), out)"
    by blast+
  have prefix: "load_data ?ex (train_file_path (data_ingestion_artifact ?self)) (schema_file_path (data_validation_artifact ?self)) = Inr ?train \<and>
              load_data ?ex (test_file_path (data_ingestion_artifact ?self)) (schema_file_path (data_validation_artifact ?self)) = Inr ?test \<and>
              read_yaml_file ?ex (schema_file_path (data_validation_artifact ?self)) = Inr \<lparr>numerical_columns = Some [''total_rooms'', ''total_bedrooms'', ''population'', ''households''], categorical_columns = Some [''ocean_proximity''], target_column = Some ''median_house_value''\<rparr> \<and>
              dict_getitem (target_column \<lparr>numerical_columns = Some [''total_rooms'', ''total_bedrooms'', ''population'', ''households''], categorical_columns = Some [''ocean_proximity''], target_column = Some ''median_house_value''\<rparr>) = Inr ''median_house_value'' \<and>
              df_drop ?ex ?train ''median_house_value'' = Inr ?train \<and>
              df_getitem ?ex ?train ''median_house_value'' = Inr [100, 200] \<and>
              df_drop ?ex ?test ''median_house_value'' = Inr ?test \<and>
              df_getitem ?ex ?test ''median_house_value'' = Inr [150]"
    by (simp add: dict_getitem_def)
  from runs [rule_format, OF prefix]
  have run: "initiate_data_tranformation ?ex ?self [] = (Inl (HousingException ValueError), [])" .
  from built fitted unseen tf run show ?thesis by (intro conjI)
qed

lemma reraise_Inl_D: "reraise m = Inl e \<Longrightarrow> \<exists>cause. e = HousingException cause"
  by (cases m) auto

lemma normalize_index_cases:
  "normalize_index n i = Inl IndexError \<or> (\<exists>j. normalize_index n i = Inr j)"
  by (simp add: normalize_index_def Let_def)

lemma getcol_Inl: "normalize_index (ncols X) i = Inl e \<Longrightarrow> getcol X i = Inl e"
  by (simp add: getcol_def)

lemma getcol_Inr: "normalize_index (ncols X) i = Inr j \<Longrightarrow> getcol X i = Inr (map (\<lambda>r. r ! j) (rws X))"
  by (simp add: getcol_def)

lemma transform_index_error:
  assumes "\<not> ((\<exists>tr. normalize_index (ncols X) (total_rooms_ix fg) = Inr tr) \<and>
        (\<exists>pop. normalize_index (ncols X) (population_ix fg) = Inr pop) \<and>
        (\<exists>hh. normalize_index (ncols X) (households_ix fg) = Inr hh) \<and>
        (add_bedrooms_per_room fg \<longrightarrow>
           (\<exists>tb. normalize_index (ncols X) (total_bedrooms_ix fg) = Inr tb)))"
  shows "transform dv fg X = Inl (HousingException IndexError)"
proof -
  note cases = normalize_index_cases [of "ncols X"]
  show ?thesis
  proof (cases "normalize_index (ncols X) (total_rooms_ix fg)")
    case (Inl e)
    with cases [of "total_rooms_ix fg"] have "getcol X (total_rooms_ix fg) = Inl IndexError"
      by (simp add: getcol_def)
    then show ?thesis by (simp add: transform_def)
  next
    case tr: (Inr tr)
    show ?thesis
    proof (cases "normalize_index (ncols X) (households_ix fg)")
      case (Inl e)
      with cases [of "households_ix fg"] have "getcol X (households_ix fg) = Inl IndexError"
        by (simp add: getcol_def)
      then show ?thesis using getcol_Inr [OF tr] by (simp add: transform_def)
    next
      case hh: (Inr hh)
      show ?thesis
      proof (cases "normalize_index (ncols X) (population_ix fg)")
        case (Inl e)
        with cases [of "population_ix fg"] have "getcol X (population_ix fg) = Inl IndexError"
          by (simp add: getcol_def)
        then show ?thesis
          using getcol_Inr [OF tr] getcol_Inr [OF hh] by (simp add: transform_def Let_def)
      next
        case pop: (Inr pop)
        from assms tr hh pop have flag: "add_bedrooms_per_room fg"
          and no: "\<not> (\<exists>tb. normalize_index (ncols X) (total_bedrooms_ix fg) = Inr tb)"
          by auto
        from no cases [of "total_bedrooms_ix fg"]
        have "getcol X (total_bedrooms_ix fg) = Inl IndexError"
          by (auto simp: getcol_def)
        then show ?thesis
          using getcol_Inr [OF tr] getcol_Inr [OF hh] getcol_Inr [OF pop] flag
          by (simp add: transform_def Let_def)
      qed
    qed
  qed
qed

lemma initiate_read_yaml_fails:
  assumes "read_yaml_file ex (schema_file_path (data_validation_artifact self)) = Inl cause"
  shows "get_data_transformer_object ex self = Inl (HousingException cause) \<and>
      initiate_data_tranformation ex self out =
        (Inl (HousingException (HousingException cause)), out)"
  using assms
  by (simp add: get_data_transformer_object_def initiate_data_tranformation_def initiate_body_def io_reraise_def io_bind_def io_pure_def io_save_def Let_def)

lemma initiate_no_swallow:
  assumes "initiate_data_tranformation ex self out = (Inr art, out')"
  shows "\<exists>ct train_df test_df sch target Xtr ytr Xte yte ft A B train_arr test_arr.
        get_data_transformer_object ex self = Inr ct \<and>
        load_data ex (train_file_path (data_ingestion_artifact self)) (schema_file_path (data_validation_artifact self)) = Inr train_df \<and>
        load_data ex (test_file_path (data_ingestion_artifact self)) (schema_file_path (data_validation_artifact self)) = Inr test_df \<and>
        read_yaml_file ex (schema_file_path (data_validation_artifact self)) = Inr sch \<and>
        dict_getitem (target_column sch) = Inr target \<and>
        df_drop ex train_df target = Inr Xtr \<and> df_getitem ex train_df target = Inr ytr \<and>
        df_drop ex test_df target = Inr Xte \<and> df_getitem ex test_df target = Inr yte \<and>
        ColumnTransformer_fit_transform ex ct Xtr = Inr (ft, A) \<and>
        ColumnTransformer_transform ex ft Xte = Inr B \<and>
        np_c A [ytr] = Inr train_arr \<and> np_c B [yte] = Inr test_arr \<and>
        save_numpy_array_data ex (os_path_join (transformed_train_dir (data_transformation_config self)) (npz_file_name (train_file_path (data_ingestion_artifact self)))) train_arr = Inr () \<and>
        save_numpy_array_data ex (os_path_join (transformed_test_dir (data_transformation_config self)) (npz_file_name (test_file_path (data_ingestion_artifact self)))) test_arr = Inr () \<and>
        save_object ex (preprocessed_object_file_path (data_transformation_config self)) ft = Inr ()"
  using initiate_Inr_D [OF assms] by blast

lemma failure_read_yaml:
  "\<forall>cause. read_yaml_file ex (schema_file_path (data_validation_artifact self)) = Inl cause \<longrightarrow>
      get_data_transformer_object ex self = Inl (HousingException cause) \<and>
      initiate_data_tranformation ex self out =
        (Inl (HousingException (HousingException cause)), out)"
  by (intro allI impI) (rule initiate_read_yaml_fails)

lemma failure_index:
  "\<not> ((\<exists>tr. normalize_index (ncols X) (total_rooms_ix fg) = Inr tr) \<and>
        (\<exists>pop. normalize_index (ncols X) (population_ix fg) = Inr pop) \<and>
        (\<exists>hh. normalize_index (ncols X) (households_ix fg) = Inr hh) \<and>
        (add_bedrooms_per_room fg \<longrightarrow>
           (\<exists>tb. normalize_index (ncols X) (total_bedrooms_ix fg) = Inr tb))) \<longrightarrow>
      transform dv fg X = Inl (HousingException IndexError)"
  by (intro impI) (rule transform_index_error)

lemma failure_init_wrapped:
  "\<forall>e. FeatureGenerator_init abr a b c d cols = Inl e \<longrightarrow> (\<exists>cause. e = HousingException cause)"
  unfolding FeatureGenerator_init_def by (intro allI impI) (rule reraise_Inl_D)

lemma failure_transform_wrapped:
  "\<forall>e. transform dv fg X = Inl e \<longrightarrow> (\<exists>cause. e = HousingException cause)"
  unfolding transform_def by (intro allI impI) (rule reraise_Inl_D)

lemma failure_get_wrapped:
  "\<forall>e. get_data_transformer_object ex self = Inl e \<longrightarrow> (\<exists>cause. e = HousingException cause)"
  unfolding get_data_transformer_object_def by (intro allI impI) (rule reraise_Inl_D)

lemma failure_initiate_wrapped:
  fixes ex :: "('a::zero_neq_one, 'df, 'p) externals"
  shows "\<forall>e out'. initiate_data_tranformation ex self out = (Inl e, out') \<longleftrightarrow>
      (\<exists>cause. initiate_body ex self out = (Inl cause, out') \<and> e = HousingException cause)"
  unfolding initiate_data_tranformation_def by (intro allI) (rule io_reraise_Inl)

lemma failure_never_in_constructor:
  "\<exists>obj. DataTransformation_init cfg ing val = Inr obj"
  by (simp add: DataTransformation_init_def)

lemma failure_no_swallow:
  "\<forall>art out'. initiate_data_tranformation ex self out = (Inr art, out') \<longrightarrow>
      (\<exists>ct train_df test_df sch target Xtr ytr Xte yte ft A B train_arr test_arr.
        get_data_transformer_object ex self = Inr ct \<and>
        load_data ex (train_file_path (data_ingestion_artifact self)) (schema_file_path (data_validation_artifact self)) = Inr train_df \<and>
        load_data ex (test_file_path (data_ingestion_artifact self)) (schema_file_path (data_validation_artifact self)) = Inr test_df \<and>
        read_yaml_file ex (schema_file_path (data_validation_artifact self)) = Inr sch \<and>
        dict_getitem (target_column sch) = Inr target \<and>
        df_drop ex train_df target = Inr Xtr \<and> df_getitem ex train_df target = Inr ytr \<and>
        df_drop ex test_df target = Inr Xte \<and> df_getitem ex test_df target = Inr yte \<and>
        ColumnTransformer_fit_transform ex ct Xtr = Inr (ft, A) \<and>
        ColumnTransformer_transform ex ft Xte = Inr B \<and>
        np_c A [ytr] = Inr train_arr \<and> np_c B [yte] = Inr test_arr \<and>
        save_numpy_array_data ex (os_path_join (transformed_train_dir (data_transformation_config self)) (npz_file_name (train_file_path (data_ingestion_artifact self)))) train_arr = Inr () \<and>
        save_numpy_array_data ex (os_path_join (transformed_test_dir (data_transformation_config self)) (npz_file_name (test_file_path (data_ingestion_artifact self)))) test_arr = Inr () \<and>
        save_object ex (preprocessed_object_file_path (data_transformation_config self)) ft = Inr ())"
  by (intro allI impI) (rule initiate_no_swallow)

text \<open>
  Claim C9. Every exception that leaves \<^verbatim>\<open>FeatureGenerator.__init__\<close>,
  \<^verbatim>\<open>FeatureGenerator.transform\<close>, \<^verbatim>\<open>get_data_transformer_object\<close> or
  \<^verbatim>\<open>initiate_data_tranformation\<close> is a \<^verbatim>\<open>HousingException\<close> whose cause is the
  exception raised under \<^verbatim>\<open>try\<close>; the constructor of \<^verbatim>\<open>DataTransformation\<close> does not
  fail. The cause is the original one at every point where a method can fail:
  \<^item> in \<^verbatim>\<open>initiate_data_tranformation\<close>, at each of its calls in turn (building the
    transformer, loading the two tables, reading the target key of the schema, splitting
    the two tables, fitting, transforming, appending the two targets, saving the two
    arrays and the transformer), the files written before the failure staying written;
    the second reading of the schema, by a function of its argument, returns what the
    first did once the transformer is built;
  \<^item> in \<^verbatim>\<open>get_data_transformer_object\<close>, at the reading of the schema, at each of its
    two keys and at the construction of the generator;
  \<^item> in \<^verbatim>\<open>FeatureGenerator.__init__\<close>, at a name missing from the list;
  \<^item> in \<^verbatim>\<open>FeatureGenerator.transform\<close>, at an index outside the columns, and from
    there through the numerical pipeline and the column transformer, on fitting and on
    transforming.
  No failure is swallowed: a method that returns has had every call it makes return.
\<close>
theorem failures_reraised:
  fixes ex :: "('a::zero_neq_one, 'df, 'p) externals"
  shows "(\<forall>cause. read_yaml_file ex (schema_file_path (data_validation_artifact self)) = Inl cause \<longrightarrow>
      get_data_transformer_object ex self = Inl (HousingException cause) \<and>
      initiate_data_tranformation ex self out =
        (Inl (HousingException (HousingException cause)), out)) \<and>
    (\<not> ((\<exists>tr. normalize_index (ncols X) (total_rooms_ix fg) = Inr tr) \<and>
        (\<exists>pop. normalize_index (ncols X) (population_ix fg) = Inr pop) \<and>
        (\<exists>hh. normalize_index (ncols X) (households_ix fg) = Inr hh) \<and>
        (add_bedrooms_per_room fg \<longrightarrow>
           (\<exists>tb. normalize_index (ncols X) (total_bedrooms_ix fg) = Inr tb))) \<longrightarrow>
      transform dv fg X = Inl (HousingException IndexError)) \<and>
    (\<forall>ct train_df test_df sch target Xtr ytr Xte yte ft A B train_arr test_arr cause.
        get_data_transformer_object ex self = Inr ct \<and>
        load_data ex (train_file_path (data_ingestion_artifact self)) (schema_file_path (data_validation_artifact self)) = Inr train_df \<and>
        load_data ex (test_file_path (data_ingestion_artifact self)) (schema_file_path (data_validation_artifact self)) = Inr test_df \<and>
        read_yaml_file ex (schema_file_path (data_validation_artifact self)) = Inr sch \<and>
        dict_getitem (target_column sch) = Inr target \<and>
        df_drop ex train_df target = Inr Xtr \<and>
        df_getitem ex train_df target = Inr ytr \<and>
        df_drop ex test_df target = Inr Xte \<and>
        df_getitem ex test_df target = Inr yte \<and>
        ColumnTransformer_fit_transform ex ct Xtr = Inr (ft, A) \<and>
        ColumnTransformer_transform ex ft Xte = Inr B \<and>
        np_c A [ytr] = Inr train_arr \<and>
        np_c B [yte] = Inr test_arr \<and>
        save_numpy_array_data ex (os_path_join (transformed_train_dir (data_transformation_config self)) (npz_file_name (train_file_path (data_ingestion_artifact self)))) train_arr = Inr () \<and>
        save_numpy_array_data ex (os_path_join (transformed_test_dir (data_transformation_config self)) (npz_file_name (test_file_path (data_ingestion_artifact self)))) test_arr = Inr () \<and>
        save_object ex (preprocessed_object_file_path (data_transformation_config self)) ft = Inl cause \<longrightarrow>
      initiate_data_tranformation ex self out =
        (Inl (HousingException cause), out @ [SavedArray (os_path_join (transformed_train_dir (data_transformation_config self)) (npz_file_name (train_file_path (data_ingestion_artifact self)))) train_arr, SavedArray (os_path_join (transformed_test_dir (data_transformation_config self)) (npz_file_name (test_file_path (data_ingestion_artifact self)))) test_arr])) \<and>
    (\<forall>ct train_df test_df sch target Xtr ytr Xte yte cause.
        get_data_transformer_object ex self = Inr ct \<and>
        load_data ex (train_file_path (data_ingestion_artifact self)) (schema_file_path (data_validation_artifact self)) = Inr train_df \<and>
        load_data ex (test_file_path (data_ingestion_artifact self)) (schema_file_path (data_validation_artifact self)) = Inr test_df \<and>
        read_yaml_file ex (schema_file_path (data_validation_artifact self)) = Inr sch \<and>
        dict_getitem (target_column sch) = Inr target \<and>
        df_drop ex train_df target = Inr Xtr \<and>
        df_getitem ex train_df target = Inr ytr \<and>
        df_drop ex test_df target = Inr Xte \<and>
        df_getitem ex test_df target = Inr yte \<and>
        ColumnTransformer_fit_transform ex ct Xtr = Inl cause \<longrightarrow>
      initiate_data_tranformation ex self out =
        (Inl (HousingException cause), out)) \<and>
    (\<forall>ct cause.
        get_data_transformer_object ex self = Inr ct \<and>
        load_data ex (train_file_path (data_ingestion_artifact self)) (schema_file_path (data_validation_artifact self)) = Inl cause \<longrightarrow>
      initiate_data_tranformation ex self out =
        (Inl (HousingException cause), out)) \<and>
    (\<forall>e. FeatureGenerator_init abr a b c d cols = Inl e \<longrightarrow> (\<exists>cause. e = HousingException cause)) \<and>
    (\<forall>e. transform dv fg X = Inl e \<longrightarrow> (\<exists>cause. e = HousingException cause)) \<and>
    (\<forall>e. get_data_transformer_object ex self = Inl e \<longrightarrow> (\<exists>cause. e = HousingException cause)) \<and>
    (\<forall>e out'. initiate_data_tranformation ex self out = (Inl e, out') \<longleftrightarrow>
      (\<exists>cause. initiate_body ex self out = (Inl cause, out') \<and> e = HousingException cause)) \<and>
    (\<exists>obj. DataTransformation_init cfg ing val = Inr obj) \<and>
    (\<forall>art out'. initiate_data_tranformation ex self out = (Inr art, out') \<longrightarrow>
      (\<exists>ct train_df test_df sch target Xtr ytr Xte yte ft A B train_arr test_arr.
        get_data_transformer_object ex self = Inr ct \<and>
        load_data ex (train_file_path (data_ingestion_artifact self)) (schema_file_path (data_validation_artifact self)) = Inr train_df \<and>
        load_data ex (test_file_path (data_ingestion_artifact self)) (schema_file_path (data_validation_artifact self)) = Inr test_df \<and>
        read_yaml_file ex (schema_file_path (data_validation_artifact self)) = Inr sch \<and>
        dict_getitem (target_column sch) = Inr target \<and>
        df_drop ex train_df target = Inr Xtr \<and> df_getitem ex train_df target = Inr ytr \<and>
        df_drop ex test_df target = Inr Xte \<and> df_getitem ex test_df target = Inr yte \<and>
        ColumnTransformer_fit_transform ex ct Xtr = Inr (ft, A) \<and>
        ColumnTransformer_transform ex ft Xte = Inr B \<and>
        np_c A [ytr] = Inr train_arr \<and> np_c B [yte] = Inr test_arr \<and>
        save_numpy_array_data ex (os_path_join (transformed_train_dir (data_transformation_config self)) (npz_file_name (train_file_path (data_ingestion_artifact self)))) train_arr = Inr () \<and>
        save_numpy_array_data ex (os_path_join (transformed_test_dir (data_transformation_config self)) (npz_file_name (test_file_path (data_ingestion_artifact self)))) test_arr = Inr () \<and>
        save_object ex (preprocessed_object_file_path (data_transformation_config self)) ft = Inr ())) \<and>
    (\<forall>cause.
        get_data_transformer_object ex self = Inl cause \<longrightarrow>
      initiate_data_tranformation ex self out =
        (Inl (HousingException cause), out)) \<and>
    (\<forall>ct train_df cause.
        get_data_transformer_object ex self = Inr ct \<and>
        load_data ex (train_file_path (data_ingestion_artifact self)) (schema_file_path (data_validation_artifact self)) = Inr train_df \<and>
        load_data ex (test_file_path (data_ingestion_artifact self)) (schema_file_path (data_validation_artifact self)) = Inl cause \<longrightarrow>
      initiate_data_tranformation ex self out =
        (Inl (HousingException cause), out)) \<and>
    (\<forall>ct train_df test_df sch cause.
        get_data_transformer_object ex self = Inr ct \<and>
        load_data ex (train_file_path (data_ingestion_artifact self)) (schema_file_path (data_validation_artifact self)) = Inr train_df \<and>
        load_data ex (test_file_path (data_ingestion_artifact self)) (schema_file_path (data_validation_artifact self)) = Inr test_df \<and>
        read_yaml_file ex (schema_file_path (data_validation_artifact self)) = Inr sch \<and>
        dict_getitem (target_column sch) = Inl cause \<longrightarrow>
      initiate_data_tranformation ex self out =
        (Inl (HousingException cause), out)) \<and>
    (\<forall>ct train_df test_df sch target cause.
        get_data_transformer_object ex self = Inr ct \<and>
        load_data ex (train_file_path (data_ingestion_artifact self)) (schema_file_path (data_validation_artifact self)) = Inr train_df \<and>
        load_data ex (test_file_path (data_ingestion_artifact self)) (schema_file_path (data_validation_artifact self)) = Inr test_df \<and>
        read_yaml_file ex (schema_file_path (data_validation_artifact self)) = Inr sch \<and>
        dict_getitem (target_column sch) = Inr target \<and>
        df_drop ex train_df target = Inl cause \<longrightarrow>
      initiate_data_tranformation ex self out =
        (Inl (HousingException cause), out)) \<and>
    (\<forall>ct train_df test_df sch target Xtr cause.
        get_data_transformer_object ex self = Inr ct \<and>
        load_data ex (train_file_path (data_ingestion_artifact self)) (schema_file_path (data_validation_artifact self)) = Inr train_df \<and>
        load_data ex (test_file_path (data_ingestion_artifact self)) (schema_file_path (data_validation_artifact self)) = Inr test_df \<and>
        read_yaml_file ex (schema_file_path (data_validation_artifact self)) = Inr sch \<and>
        dict_getitem (target_column sch) = Inr target \<and>
        df_drop ex train_df target = Inr Xtr \<and>
        df_getitem ex train_df target = Inl cause \<longrightarrow>
      initiate_data_tranformation ex self out =
        (Inl (HousingException cause), out)) \<and>
    (\<forall>ct train_df test_df sch target Xtr ytr cause.
        get_data_transformer_object ex self = Inr ct \<and>
        load_data ex (train_file_path (data_ingestion_artifact self)) (schema_file_path (data_validation_artifact self)) = Inr train_df \<and>
        load_data ex (test_file_path (data_ingestion_artifact self)) (schema_file_path (data_validation_artifact self)) = Inr test_df \<and>
        read_yaml_file ex (schema_file_path (data_validation_artifact self)) = Inr sch \<and>
        dict_getitem (target_column sch) = Inr target \<and>
        df_drop ex train_df target = Inr Xtr \<and>
        df_getitem ex train_df target = Inr ytr \<and>
        df_drop ex test_df target = Inl cause \<longrightarrow>
      initiate_data_tranformation ex self out =
        (Inl (HousingException cause), out)) \<and>
    (\<forall>ct train_df test_df sch target Xtr ytr Xte cause.
        get_data_transformer_object ex self = Inr ct \<and>
        load_data ex (train_file_path (data_ingestion_artifact self)) (schema_file_path (data_validation_artifact self)) = Inr train_df \<and>
        load_data ex (test_file_path (data_ingestion_artifact self)) (schema_file_path (data_validation_artifact self)) = Inr test_df \<and>
        read_yaml_file ex (schema_file_path (data_validation_artifact self)) = Inr sch \<and>
        dict_getitem (target_column sch) = Inr target \<and>
        df_drop ex train_df target = Inr Xtr \<and>
        df_getitem ex train_df target = Inr ytr \<and>
        df_drop ex test_df target = Inr Xte \<and>
        df_getitem ex test_df target = Inl cause \<longrightarrow>
      initiate_data_tranformation ex self out =
        (Inl (HousingException cause), out)) \<and>
    (\<forall>ct train_df test_df sch target Xtr ytr Xte yte ft A cause.
        get_data_transformer_object ex self = Inr ct \<and>
        load_data ex (train_file_path (data_ingestion_artifact self)) (schema_file_path (data_validation_artifact self)) = Inr train_df \<and>
        load_data ex (test_file_path (data_ingestion_artifact self)) (schema_file_path (data_validation_artifact self)) = Inr test_df \<and>
        read_yaml_file ex (schema_file_path (data_validation_artifact self)) = Inr sch \<and>
        dict_getitem (target_column sch) = Inr target \<and>
        df_drop ex train_df target = Inr Xtr \<and>
        df_getitem ex train_df target = Inr ytr \<and>
        df_drop ex test_df target = Inr Xte \<and>
        df_getitem ex test_df target = Inr yte \<and>
        ColumnTransformer_fit_transform ex ct Xtr = Inr (ft, A) \<and>
        ColumnTransformer_transform ex ft Xte = Inl cause \<longrightarrow>
      initiate_data_tranformation ex self out =
        (Inl (HousingException cause), out)) \<and>
    (\<forall>ct train_df test_df sch target Xtr ytr Xte yte ft A B cause.
        get_data_transformer_object ex self = Inr ct \<and>
        load_data ex (train_file_path (data_ingestion_artifact self)) (schema_file_path (data_validation_artifact self)) = Inr train_df \<and>
        load_data ex (test_file_path (data_ingestion_artifact self)) (schema_file_path (data_validation_artifact self)) = Inr test_df \<and>
        read_yaml_file ex (schema_file_path (data_validation_artifact self)) = Inr sch \<and>
        dict_getitem (target_column sch) = Inr target \<and>
        df_drop ex train_df target = Inr Xtr \<and>
        df_getitem ex train_df target = Inr ytr \<and>
        df_drop ex test_df target = Inr Xte \<and>
        df_getitem ex test_df target = Inr yte \<and>
        ColumnTransformer_fit_transform ex ct Xtr = Inr (ft, A) \<and>
        ColumnTransformer_transform ex ft Xte = Inr B \<and>
        np_c A [ytr] = Inl cause \<longrightarrow>
      initiate_data_tranformation ex self out =
        (Inl (HousingException cause), out)) \<and>
    (\<forall>ct train_df test_df sch target Xtr ytr Xte yte ft A B train_arr cause.
        get_data_transformer_object ex self = Inr ct \<and>
        load_data ex (train_file_path (data_ingestion_artifact self)) (schema_file_path (data_validation_artifact self)) = Inr train_df \<and>
        load_data ex (test_file_path (data_ingestion_artifact self)) (schema_file_path (data_validation_artifact self)) = Inr test_df \<and>
        read_yaml_file ex (schema_file_path (data_validation_artifact self)) = Inr sch \<and>
        dict_getitem (target_column sch) = Inr target \<and>
        df_drop ex train_df target = Inr Xtr \<and>
        df_getitem ex train_df target = Inr ytr \<and>
        df_drop ex test_df target = Inr Xte \<and>
        df_getitem ex test_df target = Inr yte \<and>
        ColumnTransformer_fit_transform ex ct Xtr = Inr (ft, A) \<and>
        ColumnTransformer_transform ex ft Xte = Inr B \<and>
        np_c A [ytr] = Inr train_arr \<and>
        np_c B [yte] = Inl cause \<longrightarrow>
      initiate_data_tranformation ex self out =
        (Inl (HousingException cause), out)) \<and>
    (\<forall>ct train_df test_df sch target Xtr ytr Xte yte ft A B train_arr test_arr cause.
        get_data_transformer_object ex self = Inr ct \<and>
        load_data ex (train_file_path (data_ingestion_artifact self)) (schema_file_path (data_validation_artifact self)) = Inr train_df \<and>
        load_data ex (test_file_path (data_ingestion_artifact self)) (schema_file_path (data_validation_artifact self)) = Inr test_df \<and>
        read_yaml_file ex (schema_file_path (data_validation_artifact self)) = Inr sch \<and>
        dict_getitem (target_column sch) = Inr target \<and>
        df_drop ex train_df target = Inr Xtr \<and>
        df_getitem ex train_df target = Inr ytr \<and>
        df_drop ex test_df target = Inr Xte \<and>
        df_getitem ex test_df target = Inr yte \<and>
        ColumnTransformer_fit_transform ex ct Xtr = Inr (ft, A) \<and>
        ColumnTransformer_transform ex ft Xte = Inr B \<and>
        np_c A [ytr] = Inr train_arr \<and>
        np_c B [yte] = Inr test_arr \<and>
        save_numpy_array_data ex (os_path_join (transformed_train_dir (data_transformation_config self)) (npz_file_name (train_file_path (data_ingestion_artifact self)))) train_arr = Inl cause \<longrightarrow>
      initiate_data_tranformation ex self out =
        (Inl (HousingException cause), out)) \<and>
    (\<forall>ct train_df test_df sch target Xtr ytr Xte yte ft A B train_arr test_arr cause.
        get_data_transformer_object ex self = Inr ct \<and>
        load_data ex (train_file_path (data_ingestion_artifact self)) (schema_file_path (data_validation_artifact self)) = Inr train_df \<and>
        load_data ex (test_file_path (data_ingestion_artifact self)) (schema_file_path (data_validation_artifact self)) = Inr test_df \<and>
        read_yaml_file ex (schema_file_path (data_validation_artifact self)) = Inr sch \<and>
        dict_getitem (target_column sch) = Inr target \<and>
        df_drop ex train_df target = Inr Xtr \<and>
        df_getitem ex train_df target = Inr ytr \<and>
        df_drop ex test_df target = Inr Xte \<and>
        df_getitem ex test_df target = Inr yte \<and>
        ColumnTransformer_fit_transform ex ct Xtr = Inr (ft, A) \<and>
        ColumnTransformer_transform ex ft Xte = Inr B \<and>
        np_c A [ytr] = Inr train_arr \<and>
        np_c B [yte] = Inr test_arr \<and>
        save_numpy_array_data ex (os_path_join (transformed_train_dir (data_transformation_config self)) (npz_file_name (train_file_path (data_ingestion_artifact self)))) train_arr = Inr () \<and>
        save_numpy_array_data ex (os_path_join (transformed_test_dir (data_transformation_config self)) (npz_file_name (test_file_path (data_ingestion_artifact self)))) test_arr = Inl cause \<longrightarrow>
      initiate_data_tranformation ex self out =
        (Inl (HousingException cause), out @ [SavedArray (os_path_join (transformed_train_dir (data_transformation_config self)) (npz_file_name (train_file_path (data_ingestion_artifact self)))) train_arr])) \<and>
    (\<forall>sch. read_yaml_file ex (schema_file_path (data_validation_artifact self)) = Inr sch \<and> numerical_columns sch = None \<longrightarrow>
      get_data_transformer_object ex self = Inl (HousingException KeyError)) \<and>
    (\<forall>sch num. read_yaml_file ex (schema_file_path (data_validation_artifact self)) = Inr sch \<and>
        numerical_columns sch = Some num \<and> categorical_columns sch = None \<longrightarrow>
      get_data_transformer_object ex self = Inl (HousingException KeyError)) \<and>
    (\<forall>sch num cat cause. read_yaml_file ex (schema_file_path (data_validation_artifact self)) = Inr sch \<and>
        numerical_columns sch = Some num \<and> categorical_columns sch = Some cat \<and>
        FeatureGenerator_init True 3 5 6 4 (Some num) = Inl cause \<longrightarrow>
      get_data_transformer_object ex self = Inl (HousingException cause)) \<and>
    (\<forall>ct. get_data_transformer_object ex self = Inr ct \<longrightarrow>
      (\<exists>sch num cat generator. read_yaml_file ex (schema_file_path (data_validation_artifact self)) = Inr sch \<and>
        numerical_columns sch = Some num \<and> categorical_columns sch = Some cat \<and>
        FeatureGenerator_init True 3 5 6 4 (Some num) = Inr generator \<and>
        ct = \<lparr>num_imputer = \<lparr>strategy = ''median''\<rparr>, num_generator = generator, num_scaler = \<lparr>with_mean = True\<rparr>, num_columns = num, cat_imputer = \<lparr>strategy = ''most_frequent''\<rparr>, cat_encoder = OneHotEncoder_init, cat_scaler = \<lparr>with_mean = False\<rparr>, cat_columns = cat\<rparr>)) \<and>
    (\<forall>cs. \<not> set required_columns \<subseteq> set cs \<longrightarrow>
      FeatureGenerator_init abr a b c d (Some cs) = Inl (HousingException ValueError)) \<and>
    (\<forall>cs generator. FeatureGenerator_init abr a b c d (Some cs) = Inr generator \<longrightarrow>
      set required_columns \<subseteq> set cs) \<and>
    (\<exists>generator. FeatureGenerator_init abr a b c d None = Inr generator) \<and>
    (\<forall>Y. transform dv fg X = Inr Y \<longrightarrow>
      ((\<exists>tr. normalize_index (ncols X) (total_rooms_ix fg) = Inr tr) \<and>
        (\<exists>pop. normalize_index (ncols X) (population_ix fg) = Inr pop) \<and>
        (\<exists>hh. normalize_index (ncols X) (households_ix fg) = Inr hh) \<and>
        (add_bedrooms_per_room fg \<longrightarrow>
           (\<exists>tb. normalize_index (ncols X) (total_bedrooms_ix fg) = Inr tb)))) \<and>
    (\<forall>Xn ist X1 cause. num_imputer_fit_transform ex (num_imputer ct0) Xn = Inr (ist, X1) \<and>
        transform (divide ex) (num_generator ct0) X1 = Inl cause \<longrightarrow>
      num_pipeline_fit_transform ex ct0 Xn = Inl cause) \<and>
    (\<forall>Xd Xn cause. df_select ex Xd (num_columns ct0) = Inr Xn \<and>
        num_pipeline_fit_transform ex ct0 Xn = Inl cause \<longrightarrow>
      ColumnTransformer_fit_transform ex ct0 Xd = Inl cause) \<and>
    (\<forall>Xn X1 cause.
        num_imputer_transform ex (num_imputer (estimator ft0)) (num_imputer_state ft0) Xn = Inr X1 \<and>
        transform (divide ex) (num_generator (estimator ft0)) X1 = Inl cause \<longrightarrow>
      num_pipeline_transform ex ft0 Xn = Inl cause) \<and>
    (\<forall>Xd Xn cause. df_select ex Xd (num_columns (estimator ft0)) = Inr Xn \<and>
        num_pipeline_transform ex ft0 Xn = Inl cause \<longrightarrow>
      ColumnTransformer_transform ex ft0 Xd = Inl cause)"
  by (intro conjI)
    (rule failure_read_yaml,
     rule failure_index,
     rule initiate_fails_save_object,
     rule initiate_fails_fit,
     rule initiate_fails_load_train,
     rule failure_init_wrapped,
     rule failure_transform_wrapped,
     rule failure_get_wrapped,
     rule failure_initiate_wrapped,
     rule failure_never_in_constructor,
     rule failure_no_swallow,
     rule initiate_fails_transformer,
     rule initiate_fails_load_test,
     rule initiate_fails_target,
     rule initiate_fails_drop_train,
     rule initiate_fails_getitem_train,
     rule initiate_fails_drop_test,
     rule initiate_fails_getitem_test,
     rule initiate_fails_transform,
     rule initiate_fails_c_train,
     rule initiate_fails_c_test,
     rule initiate_fails_save_train,
     rule initiate_fails_save_test,
     rule failure_get_numerical_key,
     rule failure_get_categorical_key,
     rule failure_get_generator,
     rule failure_get_no_swallow,
     rule failure_init_missing,
     rule failure_init_no_swallow,
     rule failure_init_none,
     rule failure_transform_no_swallow,
     rule failure_pipe_fit_generator,
     rule failure_ct_fit_num,
     rule failure_pipe_transform_generator,
     rule failure_ct_transform_num)

text \<open>
  C9 at concrete failures: a schema file that cannot be read, default indices on an array
  of four columns, and a transformer that cannot be saved after both arrays were.
\<close>
theorem failures_reraised_witness:
  "read_yaml_file (\<lparr>read_yaml_file = (\<lambda>p. Inl OSError), load_data = (\<lambda>p s. if p = ''/data/train/housing.csv'' then Inr (\<lparr>ncols = 4, rws = [[8, 4, 6, 2], [5, 1, 9, 3]]\<rparr>, \<lparr>ncols = 1, rws = [[''INLAND''], [''NEAR BAY'']]\<rparr>, [100, 200]) else Inr (\<lparr>ncols = 4, rws = [[6, 3, 4, 2]]\<rparr>, \<lparr>ncols = 1, rws = [[''INLAND'']]\<rparr>, [150])), save_numpy_array_data = (\<lambda>p a. Inr ()), save_object = (\<lambda>p ob. Inr ()), df_drop = (\<lambda>df c. Inr df), df_getitem = (\<lambda>(n, c, t) name. Inr t), df_select = (\<lambda>df cols. Inr df), num_imputer_fit_transform = (\<lambda>s (n, c, t). Inr ((), n)), num_imputer_transform = (\<lambda>s st (n, c, t). Inr n), cat_imputer_fit_transform = (\<lambda>s (n, c, t). Inr ((), c)), cat_imputer_transform = (\<lambda>s st (n, c, t). Inr c), scaler_fit_transform = (\<lambda>s X. Inr ((), X)), scaler_transform = (\<lambda>s st X. Inr X), divide = (/)\<rparr> :: (real, real ndarray \<times> string ndarray \<times> real list, unit) externals) ''/cfg/schema.yaml'' = Inl OSError \<and>
   get_data_transformer_object (\<lparr>read_yaml_file = (\<lambda>p. Inl OSError), load_data = (\<lambda>p s. if p = ''/data/train/housing.csv'' then Inr (\<lparr>ncols = 4, rws = [[8, 4, 6, 2], [5, 1, 9, 3]]\<rparr>, \<lparr>ncols = 1, rws = [[''INLAND''], [''NEAR BAY'']]\<rparr>, [100, 200]) else Inr (\<lparr>ncols = 4, rws = [[6, 3, 4, 2]]\<rparr>, \<lparr>ncols = 1, rws = [[''INLAND'']]\<rparr>, [150])), save_numpy_array_data = (\<lambda>p a. Inr ()), save_object = (\<lambda>p ob. Inr ()), df_drop = (\<lambda>df c. Inr df), df_getitem = (\<lambda>(n, c, t) name. Inr t), df_select = (\<lambda>df cols. Inr df), num_imputer_fit_transform = (\<lambda>s (n, c, t). Inr ((), n)), num_imputer_transform = (\<lambda>s st (n, c, t). Inr n), cat_imputer_fit_transform = (\<lambda>s (n, c, t). Inr ((), c)), cat_imputer_transform = (\<lambda>s st (n, c, t). Inr c), scaler_fit_transform = (\<lambda>s X. Inr ((), X)), scaler_transform = (\<lambda>s st X. Inr X), divide = (/)\<rparr> :: (real, real ndarray \<times> string ndarray \<times> real list, unit) externals) \<lparr>data_transformation_config = \<lparr>transformed_train_dir = ''/out/train'', transformed_test_dir = ''/out/test'', preprocessed_object_file_path = ''/out/preprocessed.pkl''\<rparr>, data_ingestion_artifact = \<lparr>train_file_path = ''/data/train/housing.csv'', test_file_path = ''/data/test/housing.csv''\<rparr>, data_validation_artifact = \<lparr>schema_file_path = ''/cfg/schema.yaml''\<rparr>\<rparr> = Inl (HousingException OSError) \<and>
   initiate_data_tranformation (\<lparr>read_yaml_file = (\<lambda>p. Inl OSError), load_data = (\<lambda>p s. if p = ''/data/train/housing.csv'' then Inr (\<lparr>ncols = 4, rws = [[8, 4, 6, 2], [5, 1, 9, 3]]\<rparr>, \<lparr>ncols = 1, rws = [[''INLAND''], [''NEAR BAY'']]\<rparr>, [100, 200]) else Inr (\<lparr>ncols = 4, rws = [[6, 3, 4, 2]]\<rparr>, \<lparr>ncols = 1, rws = [[''INLAND'']]\<rparr>, [150])), save_numpy_array_data = (\<lambda>p a. Inr ()), save_object = (\<lambda>p ob. Inr ()), df_drop = (\<lambda>df c. Inr df), df_getitem = (\<lambda>(n, c, t) name. Inr t), df_select = (\<lambda>df cols. Inr df), num_imputer_fit_transform = (\<lambda>s (n, c, t). Inr ((), n)), num_imputer_transform = (\<lambda>s st (n, c, t). Inr n), cat_imputer_fit_transform = (\<lambda>s (n, c, t). Inr ((), c)), cat_imputer_transform = (\<lambda>s st (n, c, t). Inr c), scaler_fit_transform = (\<lambda>s X. Inr ((), X)), scaler_transform = (\<lambda>s st X. Inr X), divide = (/)\<rparr> :: (real, real ndarray \<times> string ndarray \<times> real list, unit) externals) \<lparr>data_transformation_config = \<lparr>transformed_train_dir = ''/out/train'', transformed_test_dir = ''/out/test'', preprocessed_object_file_path = ''/out/preprocessed.pkl''\<rparr>, data_ingestion_artifact = \<lparr>train_file_path = ''/data/train/housing.csv'', test_file_path = ''/data/test/housing.csv''\<rparr>, data_validation_artifact = \<lparr>schema_file_path = ''/cfg/schema.yaml''\<rparr>\<rparr> [] = (Inl (HousingException (HousingException OSError)), []) \<and>
   normalize_index (ncols \<lparr>ncols = 4, rws = [[8, 4, 6, 2 :: real]]\<rparr>) (population_ix \<lparr>columns = None, add_bedrooms_per_room = True, total_rooms_ix = 3, population_ix = 5, households_ix = 6, total_bedrooms_ix = 4\<rparr>) = Inl IndexError \<and>
   transform (/) \<lparr>columns = None, add_bedrooms_per_room = True, total_rooms_ix = 3, population_ix = 5, households_ix = 6, total_bedrooms_ix = 4\<rparr> \<lparr>ncols = 4, rws = [[8, 4, 6, 2 :: real]]\<rparr> = Inl (HousingException IndexError) \<and>
   save_object (\<lparr>read_yaml_file = (\<lambda>p. Inr \<lparr>numerical_columns = Some [''total_rooms'', ''total_bedrooms'', ''population'', ''households''], categorical_columns = Some [''ocean_proximity''], target_column = Some ''median_house_value''\<rparr>), load_data = (\<lambda>p s. if p = ''/data/train/housing.csv'' then Inr (\<lparr>ncols = 4, rws = [[8, 4, 6, 2], [5, 1, 9, 3]]\<rparr>, \<lparr>ncols = 1, rws = [[''INLAND''], [''NEAR BAY'']]\<rparr>, [100, 200]) else Inr (\<lparr>ncols = 4, rws = [[6, 3, 4, 2]]\<rparr>, \<lparr>ncols = 1, rws = [[''INLAND'']]\<rparr>, [150])), save_numpy_array_data = (\<lambda>p a. Inr ()), save_object = (\<lambda>p ob. Inl OSError), df_drop = (\<lambda>df c. Inr df), df_getitem = (\<lambda>(n, c, t) name. Inr t), df_select = (\<lambda>df cols. Inr df), num_imputer_fit_transform = (\<lambda>s (n, c, t). Inr ((), n)), num_imputer_transform = (\<lambda>s st (n, c, t). Inr n), cat_imputer_fit_transform = (\<lambda>s (n, c, t). Inr ((), c)), cat_imputer_transform = (\<lambda>s st (n, c, t). Inr c), scaler_fit_transform = (\<lambda>s X. Inr ((), X)), scaler_transform = (\<lambda>s st X. Inr X), divide = (/)\<rparr> :: (real, real ndarray \<times> string ndarray \<times> real list, unit) externals) ''/out/preprocessed.pkl'' \<lparr>estimator = \<lparr>num_imputer = \<lparr>strategy = ''median''\<rparr>, num_generator = \<lparr>columns = Some [''total_rooms'', ''total_bedrooms'', ''population'', ''households''], add_bedrooms_per_room = True, total_rooms_ix = 0, population_ix = 2, households_ix = 3, total_bedrooms_ix = 1\<rparr>, num_scaler = \<lparr>with_mean = True\<rparr>, num_columns = [''total_rooms'', ''total_bedrooms'', ''population'', ''households''], cat_imputer = \<lparr>strategy = ''most_frequent''\<rparr>, cat_encoder = \<lparr>handle_unknown = unknown_error\<rparr>, cat_scaler = \<lparr>with_mean = False\<rparr>, cat_columns = [''ocean_proximity'']\<rparr>, num_imputer_state = (), num_scaler_state = (), cat_imputer_state = (), categories = [[''INLAND'', ''NEAR BAY'']], cat_scaler_state = ()\<rparr> = Inl OSError \<and>
   initiate_data_tranformation (\<lparr>read_yaml_file = (\<lambda>p. Inr \<lparr>numerical_columns = Some [''total_rooms'', ''total_bedrooms'', ''population'', ''households''], categorical_columns = Some [''ocean_proximity''], target_column = Some ''median_house_value''\<rparr>), load_data = (\<lambda>p s. if p = ''/data/train/housing.csv'' then Inr (\<lparr>ncols = 4, rws = [[8, 4, 6, 2], [5, 1, 9, 3]]\<rparr>, \<lparr>ncols = 1, rws = [[''INLAND''], [''NEAR BAY'']]\<rparr>, [100, 200]) else Inr (\<lparr>ncols = 4, rws = [[6, 3, 4, 2]]\<rparr>, \<lparr>ncols = 1, rws = [[''INLAND'']]\<rparr>, [150])), save_numpy_array_data = (\<lambda>p a. Inr ()), save_object = (\<lambda>p ob. Inl OSError), df_drop = (\<lambda>df c. Inr df), df_getitem = (\<lambda>(n, c, t) name. Inr t), df_select = (\<lambda>df cols. Inr df), num_imputer_fit_transform = (\<lambda>s (n, c, t). Inr ((), n)), num_imputer_transform = (\<lambda>s st (n, c, t). Inr n), cat_imputer_fit_transform = (\<lambda>s (n, c, t). Inr ((), c)), cat_imputer_transform = (\<lambda>s st (n, c, t). Inr c), scaler_fit_transform = (\<lambda>s X. Inr ((), X)), scaler_transform = (\<lambda>s st X. Inr X), divide = (/)\<rparr> :: (real, real ndarray \<times> string ndarray \<times> real list, unit) externals) \<lparr>data_transformation_config = \<lparr>transformed_train_dir = ''/out/train'', transformed_test_dir = ''/out/test'', preprocessed_object_file_path = ''/out/preprocessed.pkl''\<rparr>, data_ingestion_artifact = \<lparr>train_file_path = ''/data/train/housing.csv'', test_file_path = ''/data/test/housing.csv''\<rparr>, data_validation_artifact = \<lparr>schema_file_path = ''/cfg/schema.yaml''\<rparr>\<rparr> [] = (Inl (HousingException OSError), [SavedArray ''/out/train/housing.npz'' \<lparr>ncols = 10, rws = [[8, 4, 6, 2, 4, 3, 1 / 2, 1, 0, 100], [5, 1, 9, 3, 5 / 3, 3, 1 / 5, 0, 1, 200]]\<rparr>, SavedArray ''/out/test/housing.npz'' \<lparr>ncols = 10, rws = [[6, 3, 4, 2, 3, 2, 1 / 2, 1, 0, 150]]\<rparr>])"
proof -
  let ?exf = "\<lparr>read_yaml_file = (\<lambda>p. Inl OSError), load_data = (\<lambda>p s. if p = ''/data/train/housing.csv'' then Inr (\<lparr>ncols = 4, rws = [[8, 4, 6, 2], [5, 1, 9, 3]]\<rparr>, \<lparr>ncols = 1, rws = [[''INLAND''], [''NEAR BAY'']]\<rparr>, [100, 200]) else Inr (\<lparr>ncols = 4, rws = [[6, 3, 4, 2]]\<rparr>, \<lparr>ncols = 1, rws = [[''INLAND'']]\<rparr>, [150])), save_numpy_array_data = (\<lambda>p a. Inr ()), save_object = (\<lambda>p ob. Inr ()), df_drop = (\<lambda>df c. Inr df), df_getitem = (\<lambda>(n, c, t) name. Inr t), df_select = (\<lambda>df cols. Inr df), num_imputer_fit_transform = (\<lambda>s (n, c, t). Inr ((), n)), num_imputer_transform = (\<lambda>s st (n, c, t). Inr n), cat_imputer_fit_transform = (\<lambda>s (n, c, t). Inr ((), c)), cat_imputer_transform = (\<lambda>s st (n, c, t). Inr c), scaler_fit_transform = (\<lambda>s X. Inr ((), X)), scaler_transform = (\<lambda>s st X. Inr X), divide = (/)\<rparr> :: (real, real ndarray \<times> string ndarray \<times> real list, unit) externals"
  let ?exs = "\<lparr>read_yaml_file = (\<lambda>p. Inr \<lparr>numerical_columns = Some [''total_rooms'', ''total_bedrooms'', ''population'', ''households''], categorical_columns = Some [''ocean_proximity''], target_column = Some ''median_house_value''\<rparr>), load_data = (\<lambda>p s. if p = ''/data/train/housing.csv'' then Inr (\<lparr>ncols = 4, rws = [[8, 4, 6, 2], [5, 1, 9, 3]]\<rparr>, \<lparr>ncols = 1, rws = [[''INLAND''], [''NEAR BAY'']]\<rparr>, [100, 200]) else Inr (\<lparr>ncols = 4, rws = [[6, 3, 4, 2]]\<rparr>, \<lparr>ncols = 1, rws = [[''INLAND'']]\<rparr>, [150])), save_numpy_array_data = (\<lambda>p a. Inr ()), save_object = (\<lambda>p ob. Inl OSError), df_drop = (\<lambda>df c. Inr df), df_getitem = (\<lambda>(n, c, t) name. Inr t), df_select = (\<lambda>df cols. Inr df), num_imputer_fit_transform = (\<lambda>s (n, c, t). Inr ((), n)), num_imputer_transform = (\<lambda>s st (n, c, t). Inr n), cat_imputer_fit_transform = (\<lambda>s (n, c, t). Inr ((), c)), cat_imputer_transform = (\<lambda>s st (n, c, t). Inr c), scaler_fit_transform = (\<lambda>s X. Inr ((), X)), scaler_transform = (\<lambda>s st X. Inr X), divide = (/)\<rparr> :: (real, real ndarray \<times> string ndarray \<times> real list, unit) externals"
  let ?self = "\<lparr>data_transformation_config = \<lparr>transformed_train_dir = ''/out/train'', transformed_test_dir = ''/out/test'', preprocessed_object_file_path = ''/out/preprocessed.pkl''\<rparr>, data_ingestion_artifact = \<lparr>train_file_path = ''/data/train/housing.csv'', test_file_path = ''/data/test/housing.csv''\<rparr>, data_validation_artifact = \<lparr>schema_file_path = ''/cfg/schema.yaml''\<rparr>\<rparr>"
  let ?fg = "\<lparr>columns = None, add_bedrooms_per_room = True, total_rooms_ix = 3, population_ix = 5, households_ix = 6, total_bedrooms_ix = 4\<rparr>"
  let ?X = "\<lparr>ncols = 4, rws = [[8, 4, 6, 2 :: real]]\<rparr>"
  let ?ft = "\<lparr>estimator = \<lparr>num_imputer = \<lparr>strategy = ''median''\<rparr>, num_generator = \<lparr>columns = Some [''total_rooms'', ''total_bedrooms'', ''population'', ''households''], add_bedrooms_per_room = True, total_rooms_ix = 0, population_ix = 2, households_ix = 3, total_bedrooms_ix = 1\<rparr>, num_scaler = \<lparr>with_mean = True\<rparr>, num_columns = [''total_rooms'', ''total_bedrooms'', ''population'', ''households''], cat_imputer = \<lparr>strategy = ''most_frequent''\<rparr>, cat_encoder = \<lparr>handle_unknown = unknown_error\<rparr>, cat_scaler = \<lparr>with_mean = False\<rparr>, cat_columns = [''ocean_proximity'']\<rparr>, num_imputer_state = (), num_scaler_state = (), cat_imputer_state = (), categories = [[''INLAND'', ''NEAR BAY'']], cat_scaler_state = ()\<rparr> :: unit FittedColumnTransformer"
  let ?train = "(\<lparr>ncols = 4, rws = [[8, 4, 6, 2], [5, 1, 9, 3]]\<rparr>, \<lparr>ncols = 1, rws = [[''INLAND''], [''NEAR BAY'']]\<rparr>, [100, 200]) :: real ndarray \<times> string ndarray \<times> real list"
  let ?test = "(\<lparr>ncols = 4, rws = [[6, 3, 4, 2]]\<rparr>, \<lparr>ncols = 1, rws = [[''INLAND'']]\<rparr>, [150]) :: real ndarray \<times> string ndarray \<times> real list"
  have h1: "read_yaml_file ?exf (schema_file_path (data_validation_artifact ?self)) = Inl OSError"
    by simp
  note c1 = failures_reraised [where ex = ?exf and self = ?self and out = "[]",
      THEN conjunct1, rule_format, OF h1]
  have h2: "normalize_index (ncols ?X) (population_ix ?fg) = Inl IndexError"
    by (simp add: normalize_index_def)
  then have h2': "\<not> ((\<exists>tr. normalize_index (ncols ?X) (total_rooms_ix ?fg) = Inr tr) \<and>
        (\<exists>pop. normalize_index (ncols ?X) (population_ix ?fg) = Inr pop) \<and>
        (\<exists>hh. normalize_index (ncols ?X) (households_ix ?fg) = Inr hh) \<and>
        (add_bedrooms_per_room ?fg \<longrightarrow>
           (\<exists>tb. normalize_index (ncols ?X) (total_bedrooms_ix ?fg) = Inr tb)))"
    by simp
  note c2 = failures_reraised [where X = ?X and fg = ?fg and dv = "(/)",
      THEN conjunct2, THEN conjunct1, rule_format, OF h2']
  have h3: "get_data_transformer_object ?exs ?self = Inr \<lparr>num_imputer = \<lparr>strategy = ''median''\<rparr>, num_generator = \<lparr>columns = Some [''total_rooms'', ''total_bedrooms'', ''population'', ''households''], add_bedrooms_per_room = True, total_rooms_ix = 0, population_ix = 2, households_ix = 3, total_bedrooms_ix = 1\<rparr>, num_scaler = \<lparr>with_mean = True\<rparr>, num_columns = [''total_rooms'', ''total_bedrooms'', ''population'', ''households''], cat_imputer = \<lparr>strategy = ''most_frequent''\<rparr>, cat_encoder = \<lparr>handle_unknown = unknown_error\<rparr>, cat_scaler = \<lparr>with_mean = False\<rparr>, cat_columns = [''ocean_proximity'']\<rparr> \<and>
        load_data ?exs (train_file_path (data_ingestion_artifact ?self))
          (schema_file_path (data_validation_artifact ?self)) = Inr ?train \<and>
        load_data ?exs (test_file_path (data_ingestion_artifact ?self))
          (schema_file_path (data_validation_artifact ?self)) = Inr ?test \<and>
        read_yaml_file ?exs (schema_file_path (data_validation_artifact ?self)) = Inr \<lparr>numerical_columns = Some [''total_rooms'', ''total_bedrooms'', ''population'', ''households''], categorical_columns = Some [''ocean_proximity''], target_column = Some ''median_house_value''\<rparr> \<and>
        dict_getitem (target_column \<lparr>numerical_columns = Some [''total_rooms'', ''total_bedrooms'', ''population'', ''households''], categorical_columns = Some [''ocean_proximity''], target_column = Some ''median_house_value''\<rparr>) = Inr ''median_house_value'' \<and>
        df_drop ?exs ?train ''median_house_value'' = Inr ?train \<and>
        df_getitem ?exs ?train ''median_house_value'' = Inr [100, 200] \<and>
        df_drop ?exs ?test ''median_house_value'' = Inr ?test \<and>
        df_getitem ?exs ?test ''median_house_value'' = Inr [150] \<and>
        ColumnTransformer_fit_transform ?exs \<lparr>num_imputer = \<lparr>strategy = ''median''\<rparr>, num_generator = \<lparr>columns = Some [''total_rooms'', ''total_bedrooms'', ''population'', ''households''], add_bedrooms_per_room = True, total_rooms_ix = 0, population_ix = 2, households_ix = 3, total_bedrooms_ix = 1\<rparr>, num_scaler = \<lparr>with_mean = True\<rparr>, num_columns = [''total_rooms'', ''total_bedrooms'', ''population'', ''households''], cat_imputer = \<lparr>strategy = ''most_frequent''\<rparr>, cat_encoder = \<lparr>handle_unknown = unknown_error\<rparr>, cat_scaler = \<lparr>with_mean = False\<rparr>, cat_columns = [''ocean_proximity'']\<rparr> ?train = Inr (?ft, \<lparr>ncols = 9, rws = [[8, 4, 6, 2, 4, 3, 1 / 2, 1, 0], [5, 1, 9, 3, 5 / 3, 3, 1 / 5, 0, 1]]\<rparr>) \<and>
        ColumnTransformer_transform ?exs ?ft ?test = Inr \<lparr>ncols = 9, rws = [[6, 3, 4, 2, 3, 2, 1 / 2, 1, 0]]\<rparr> \<and>
        np_c \<lparr>ncols = 9, rws = [[8, 4, 6, 2, 4, 3, 1 / 2, 1, 0], [5, 1, 9, 3, 5 / 3, 3, 1 / 5, 0, 1]]\<rparr> [[100, 200]] = Inr \<lparr>ncols = 10, rws = [[8, 4, 6, 2, 4, 3, 1 / 2, 1, 0, 100], [5, 1, 9, 3, 5 / 3, 3, 1 / 5, 0, 1, 200]]\<rparr> \<and>
        np_c \<lparr>ncols = 9, rws = [[6, 3, 4, 2, 3, 2, 1 / 2, 1, 0]]\<rparr> [[150]] = Inr \<lparr>ncols = 10, rws = [[6, 3, 4, 2, 3, 2, 1 / 2, 1, 0, 150]]\<rparr> \<and>
        save_numpy_array_data ?exs
          (os_path_join (transformed_train_dir (data_transformation_config ?self))
            (npz_file_name (train_file_path (data_ingestion_artifact ?self)))) \<lparr>ncols = 10, rws = [[8, 4, 6, 2, 4, 3, 1 / 2, 1, 0, 100], [5, 1, 9, 3, 5 / 3, 3, 1 / 5, 0, 1, 200]]\<rparr> = Inr () \<and>
        save_numpy_array_data ?exs
          (os_path_join (transformed_test_dir (data_transformation_config ?self))
            (npz_file_name (test_file_path (data_ingestion_artifact ?self)))) \<lparr>ncols = 10, rws = [[6, 3, 4, 2, 3, 2, 1 / 2, 1, 0, 150]]\<rparr> = Inr () \<and>
        save_object ?exs (preprocessed_object_file_path (data_transformation_config ?self)) ?ft
          = Inl OSError"
    by (simp add: run_eval)
  note c3 = failures_reraised [where ex = ?exs and self = ?self and out = "[]",
      THEN conjunct2, THEN conjunct2, THEN conjunct1, rule_format, OF h3]
  have paths: "os_path_join ''/out/train'' (npz_file_name ''/data/train/housing.csv'') = ''/out/train/housing.npz''"
    "os_path_join ''/out/test'' (npz_file_name ''/data/test/housing.csv'') = ''/out/test/housing.npz''"
    by (simp_all add: os_path_join_def npz_file_name_def basename_def)
  from c1 c2 c3 h2 show ?thesis
    by (simp add: paths)
qed

end
